theory Spec2Isabelle
  imports Main "HOL-Library.Sublist" "HOL-Library.Multiset"
begin

chapter \<open>The program\<close>

section \<open>JavaScript strings and numbers\<close>

text \<open>
  Strings are byte lists (\<open>string\<close>); text outside ASCII stands as its UTF-8 bytes.
\<close>

text \<open>The lower case of an ASCII letter; every other byte is left alone.\<close>

definition toLowerCase_char :: "char \<Rightarrow> char" where
  "toLowerCase_char c =
     (case map_of (zip ''ABCDEFGHIJKLMNOPQRSTUVWXYZ'' ''abcdefghijklmnopqrstuvwxyz'') c of
        Some d \<Rightarrow> d
      | None \<Rightarrow> c)"

text \<open>
  \<open>String.prototype.toLowerCase\<close> is the default case conversion of Unicode, whatever the
  locale. A string is read as UTF-8: a byte below 128 is an ASCII character, a
  well-formed sequence of two to four bytes is the character it encodes, and any other
  byte stands for itself.
\<close>

datatype symbol = Byte char | Point nat

definition is_ascii :: "char \<Rightarrow> bool" where
  "is_ascii a = (\<not> digit7 a)"

definition continuation :: "char \<Rightarrow> bool" where
  "continuation b = (128 \<le> (of_char b :: nat) \<and> (of_char b :: nat) < 192)"

definition point2 :: "char \<Rightarrow> char \<Rightarrow> nat" where
  "point2 a b = (of_char a - 192) * 64 + (of_char b - 128)"

definition point3 :: "char \<Rightarrow> char \<Rightarrow> char \<Rightarrow> nat" where
  "point3 a b c = ((of_char a - 224) * 64 + (of_char b - 128)) * 64 + (of_char c - 128)"

definition point4 :: "char \<Rightarrow> char \<Rightarrow> char \<Rightarrow> char \<Rightarrow> nat" where
  "point4 a b c d =
     (((of_char a - 240) * 64 + (of_char b - 128)) * 64 + (of_char c - 128)) * 64
     + (of_char d - 128)"

fun utf8_decode :: "string \<Rightarrow> symbol list" where
  "utf8_decode [] = []"
| "utf8_decode (a # rest) =
     (if is_ascii a then Byte a # utf8_decode rest
      else
        (case rest of
           b # rest1 \<Rightarrow>
             if 194 \<le> (of_char a :: nat) \<and> (of_char a :: nat) < 224 \<and> continuation b
             then Point (point2 a b) # utf8_decode rest1
             else
               (case rest1 of
                  c # rest2 \<Rightarrow>
                    if 224 \<le> (of_char a :: nat) \<and> (of_char a :: nat) < 240 \<and> continuation b
                       \<and> continuation c \<and> 2048 \<le> point3 a b c
                       \<and> \<not> (55296 \<le> point3 a b c \<and> point3 a b c < 57344)
                    then Point (point3 a b c) # utf8_decode rest2
                    else
                      (case rest2 of
                         d # rest3 \<Rightarrow>
                           if 240 \<le> (of_char a :: nat) \<and> continuation b \<and> continuation c
                              \<and> continuation d \<and> 65536 \<le> point4 a b c d
                              \<and> point4 a b c d < 1114112
                           then Point (point4 a b c d) # utf8_decode rest3
                           else Byte a # utf8_decode rest
                       | [] \<Rightarrow> Byte a # utf8_decode rest)
                | [] \<Rightarrow> Byte a # utf8_decode rest)
         | [] \<Rightarrow> [Byte a]))"

fun utf8_encode :: "symbol \<Rightarrow> string" where
  "utf8_encode (Byte a) = [a]"
| "utf8_encode (Point n) =
     (if n < 128 then [char_of n]
      else if n < 2048 then [char_of (192 + n div 64), char_of (128 + n mod 64)]
      else if n < 65536
      then [char_of (224 + n div 4096), char_of (128 + n div 64 mod 64), char_of (128 + n mod 64)]
      else [char_of (240 + n div 262144), char_of (128 + n div 4096 mod 64),
            char_of (128 + n div 64 mod 64), char_of (128 + n mod 64)])"

text \<open>
  The characters outside ASCII that have a lower case: each run \<open>(lo, hi, step, target)\<close>
  sends \<open>lo\<close>, \<open>lo + step\<close>, ... up to \<open>hi\<close> to \<open>target\<close>, \<open>target + step\<close>, ...
  (Unicode 14).
\<close>

definition lower_runs :: "(nat \<times> nat \<times> nat \<times> nat) list" where
  "lower_runs =
     [(0xC0, 0xDE, 2, 0xE0), (0xC1, 0xD5, 2, 0xE1), (0xD9, 0xDD, 2, 0xF9),
      (0x100, 0x12E, 2, 0x101), (0x132, 0x136, 2, 0x133), (0x139, 0x147, 2, 0x13A),
      (0x14A, 0x176, 2, 0x14B), (0x178, 0x178, 1, 0xFF), (0x179, 0x17D, 2, 0x17A),
      (0x181, 0x181, 1, 0x253), (0x182, 0x184, 2, 0x183), (0x186, 0x186, 1, 0x254),
      (0x187, 0x187, 1, 0x188), (0x189, 0x18A, 1, 0x256), (0x18B, 0x18B, 1, 0x18C),
      (0x18E, 0x18E, 1, 0x1DD), (0x18F, 0x18F, 1, 0x259), (0x190, 0x190, 1, 0x25B),
      (0x191, 0x191, 1, 0x192), (0x193, 0x193, 1, 0x260), (0x194, 0x194, 1, 0x263),
      (0x196, 0x196, 1, 0x269), (0x197, 0x197, 1, 0x268), (0x198, 0x198, 1, 0x199),
      (0x19C, 0x19C, 1, 0x26F), (0x19D, 0x19D, 1, 0x272), (0x19F, 0x19F, 1, 0x275),
      (0x1A0, 0x1A4, 2, 0x1A1), (0x1A6, 0x1A6, 1, 0x280), (0x1A7, 0x1A7, 1, 0x1A8),
      (0x1A9, 0x1A9, 1, 0x283), (0x1AC, 0x1AC, 1, 0x1AD), (0x1AE, 0x1AE, 1, 0x288),
      (0x1AF, 0x1AF, 1, 0x1B0), (0x1B1, 0x1B2, 1, 0x28A), (0x1B3, 0x1B5, 2, 0x1B4),
      (0x1B7, 0x1B7, 1, 0x292), (0x1B8, 0x1B8, 1, 0x1B9), (0x1BC, 0x1BC, 1, 0x1BD),
      (0x1C4, 0x1C4, 1, 0x1C6), (0x1C5, 0x1C5, 1, 0x1C6), (0x1C7, 0x1C7, 1, 0x1C9),
      (0x1C8, 0x1C8, 1, 0x1C9), (0x1CA, 0x1CA, 1, 0x1CC), (0x1CB, 0x1DB, 2, 0x1CC),
      (0x1DE, 0x1EE, 2, 0x1DF), (0x1F1, 0x1F1, 1, 0x1F3), (0x1F2, 0x1F4, 2, 0x1F3),
      (0x1F6, 0x1F6, 1, 0x195), (0x1F7, 0x1F7, 1, 0x1BF), (0x1F8, 0x21E, 2, 0x1F9),
      (0x220, 0x220, 1, 0x19E), (0x222, 0x232, 2, 0x223), (0x23A, 0x23A, 1, 0x2C65),
      (0x23B, 0x23B, 1, 0x23C), (0x23D, 0x23D, 1, 0x19A), (0x23E, 0x23E, 1, 0x2C66),
      (0x241, 0x241, 1, 0x242), (0x243, 0x243, 1, 0x180), (0x244, 0x244, 1, 0x289),
      (0x245, 0x245, 1, 0x28C), (0x246, 0x24E, 2, 0x247), (0x370, 0x372, 2, 0x371),
      (0x376, 0x376, 1, 0x377), (0x37F, 0x37F, 1, 0x3F3), (0x386, 0x386, 1, 0x3AC),
      (0x388, 0x38A, 1, 0x3AD), (0x38C, 0x38C, 1, 0x3CC), (0x38E, 0x38F, 1, 0x3CD),
      (0x391, 0x3AB, 2, 0x3B1), (0x392, 0x3A0, 2, 0x3B2), (0x3A4, 0x3AA, 2, 0x3C4),
      (0x3CF, 0x3CF, 1, 0x3D7), (0x3D8, 0x3EE, 2, 0x3D9), (0x3F4, 0x3F4, 1, 0x3B8),
      (0x3F7, 0x3F7, 1, 0x3F8), (0x3F9, 0x3F9, 1, 0x3F2), (0x3FA, 0x3FA, 1, 0x3FB),
      (0x3FD, 0x3FF, 1, 0x37B), (0x400, 0x40F, 1, 0x450), (0x410, 0x42F, 1, 0x430),
      (0x460, 0x480, 2, 0x461), (0x48A, 0x4BE, 2, 0x48B), (0x4C0, 0x4C0, 1, 0x4CF),
      (0x4C1, 0x4CD, 2, 0x4C2), (0x4D0, 0x52E, 2, 0x4D1), (0x531, 0x556, 1, 0x561),
      (0x10A0, 0x10C5, 1, 0x2D00), (0x10C7, 0x10C7, 1, 0x2D27), (0x10CD, 0x10CD, 1, 0x2D2D),
      (0x13A0, 0x13EF, 1, 0xAB70), (0x13F0, 0x13F5, 1, 0x13F8), (0x1C90, 0x1CBA, 1, 0x10D0),
      (0x1CBD, 0x1CBF, 1, 0x10FD), (0x1E00, 0x1E94, 2, 0x1E01), (0x1E9E, 0x1E9E, 1, 0xDF),
      (0x1EA0, 0x1EFE, 2, 0x1EA1), (0x1F08, 0x1F0F, 1, 0x1F00), (0x1F18, 0x1F1D, 1, 0x1F10),
      (0x1F28, 0x1F2F, 1, 0x1F20), (0x1F38, 0x1F3F, 1, 0x1F30), (0x1F48, 0x1F4D, 1, 0x1F40),
      (0x1F59, 0x1F5F, 2, 0x1F51), (0x1F68, 0x1F6F, 1, 0x1F60), (0x1F88, 0x1F8F, 1, 0x1F80),
      (0x1F98, 0x1F9F, 1, 0x1F90), (0x1FA8, 0x1FAF, 1, 0x1FA0), (0x1FB8, 0x1FB9, 1, 0x1FB0),
      (0x1FBA, 0x1FBB, 1, 0x1F70), (0x1FBC, 0x1FBC, 1, 0x1FB3), (0x1FC8, 0x1FCB, 1, 0x1F72),
      (0x1FCC, 0x1FCC, 1, 0x1FC3), (0x1FD8, 0x1FD9, 1, 0x1FD0), (0x1FDA, 0x1FDB, 1, 0x1F76),
      (0x1FE8, 0x1FE9, 1, 0x1FE0), (0x1FEA, 0x1FEB, 1, 0x1F7A), (0x1FEC, 0x1FEC, 1, 0x1FE5),
      (0x1FF8, 0x1FF9, 1, 0x1F78), (0x1FFA, 0x1FFB, 1, 0x1F7C), (0x1FFC, 0x1FFC, 1, 0x1FF3),
      (0x2126, 0x2126, 1, 0x3C9), (0x212A, 0x212A, 1, 0x6B), (0x212B, 0x212B, 1, 0xE5),
      (0x2132, 0x2132, 1, 0x214E), (0x2160, 0x216F, 1, 0x2170), (0x2183, 0x2183, 1, 0x2184),
      (0x24B6, 0x24CF, 1, 0x24D0), (0x2C00, 0x2C2F, 1, 0x2C30), (0x2C60, 0x2C60, 1, 0x2C61),
      (0x2C62, 0x2C62, 1, 0x26B), (0x2C63, 0x2C63, 1, 0x1D7D), (0x2C64, 0x2C64, 1, 0x27D),
      (0x2C67, 0x2C6B, 2, 0x2C68), (0x2C6D, 0x2C6D, 1, 0x251), (0x2C6E, 0x2C6E, 1, 0x271),
      (0x2C6F, 0x2C6F, 1, 0x250), (0x2C70, 0x2C70, 1, 0x252), (0x2C72, 0x2C72, 1, 0x2C73),
      (0x2C75, 0x2C75, 1, 0x2C76), (0x2C7E, 0x2C7F, 1, 0x23F), (0x2C80, 0x2CE2, 2, 0x2C81),
      (0x2CEB, 0x2CED, 2, 0x2CEC), (0x2CF2, 0x2CF2, 1, 0x2CF3), (0xA640, 0xA66C, 2, 0xA641),
      (0xA680, 0xA69A, 2, 0xA681), (0xA722, 0xA72E, 2, 0xA723), (0xA732, 0xA76E, 2, 0xA733),
      (0xA779, 0xA77B, 2, 0xA77A), (0xA77D, 0xA77D, 1, 0x1D79), (0xA77E, 0xA786, 2, 0xA77F),
      (0xA78B, 0xA78B, 1, 0xA78C), (0xA78D, 0xA78D, 1, 0x265), (0xA790, 0xA792, 2, 0xA791),
      (0xA796, 0xA7A8, 2, 0xA797), (0xA7AA, 0xA7AA, 1, 0x266), (0xA7AB, 0xA7AB, 1, 0x25C),
      (0xA7AC, 0xA7AC, 1, 0x261), (0xA7AD, 0xA7AD, 1, 0x26C), (0xA7AE, 0xA7AE, 1, 0x26A),
      (0xA7B0, 0xA7B0, 1, 0x29E), (0xA7B1, 0xA7B1, 1, 0x287), (0xA7B2, 0xA7B2, 1, 0x29D),
      (0xA7B3, 0xA7B3, 1, 0xAB53), (0xA7B4, 0xA7C2, 2, 0xA7B5), (0xA7C4, 0xA7C4, 1, 0xA794),
      (0xA7C5, 0xA7C5, 1, 0x282), (0xA7C6, 0xA7C6, 1, 0x1D8E), (0xA7C7, 0xA7C9, 2, 0xA7C8),
      (0xA7D0, 0xA7D0, 1, 0xA7D1), (0xA7D6, 0xA7D8, 2, 0xA7D7), (0xA7F5, 0xA7F5, 1, 0xA7F6),
      (0xFF21, 0xFF3A, 1, 0xFF41), (0x10400, 0x10427, 1, 0x10428), (0x104B0, 0x104D3, 1, 0x104D8),
      (0x10570, 0x10594, 2, 0x10597), (0x10571, 0x10579, 2, 0x10598), (0x1057D, 0x10589, 2, 0x105A4),
      (0x1058D, 0x10591, 2, 0x105B4), (0x10595, 0x10595, 1, 0x105BC), (0x10C80, 0x10CB2, 1, 0x10CC0),
      (0x118A0, 0x118BF, 1, 0x118C0), (0x16E40, 0x16E5F, 1, 0x16E60), (0x1E900, 0x1E921, 1, 0x1E922)]"

text \<open>
  The characters outside ASCII with the property \<open>Case_Ignorable\<close>, and those with the
  property \<open>Cased\<close> and not \<open>Case_Ignorable\<close>, as runs \<open>(lo, hi)\<close>.
\<close>

definition case_ignorable_runs :: "(nat \<times> nat) list" where
  "case_ignorable_runs =
     [(0xA8, 0xA8), (0xAD, 0xAD), (0xAF, 0xAF), (0xB4, 0xB4), (0xB7, 0xB8),
      (0x2B0, 0x36F), (0x374, 0x375), (0x37A, 0x37A), (0x384, 0x385), (0x387, 0x387),
      (0x483, 0x489), (0x559, 0x559), (0x55F, 0x55F), (0x591, 0x5BD), (0x5BF, 0x5BF),
      (0x5C1, 0x5C2), (0x5C4, 0x5C5), (0x5C7, 0x5C7), (0x5F4, 0x5F4), (0x600, 0x605),
      (0x610, 0x61A), (0x61C, 0x61C), (0x640, 0x640), (0x64B, 0x65F), (0x670, 0x670),
      (0x6D6, 0x6DD), (0x6DF, 0x6E8), (0x6EA, 0x6ED), (0x70F, 0x70F), (0x711, 0x711),
      (0x730, 0x74A), (0x7A6, 0x7B0), (0x7EB, 0x7F5), (0x7FA, 0x7FA), (0x7FD, 0x7FD),
      (0x816, 0x82D), (0x859, 0x85B), (0x888, 0x888), (0x890, 0x891), (0x898, 0x89F),
      (0x8C9, 0x902), (0x93A, 0x93A), (0x93C, 0x93C), (0x941, 0x948), (0x94D, 0x94D),
      (0x951, 0x957), (0x962, 0x963), (0x971, 0x971), (0x981, 0x981), (0x9BC, 0x9BC),
      (0x9C1, 0x9C4), (0x9CD, 0x9CD), (0x9E2, 0x9E3), (0x9FE, 0x9FE), (0xA01, 0xA02),
      (0xA3C, 0xA3C), (0xA41, 0xA42), (0xA47, 0xA48), (0xA4B, 0xA4D), (0xA51, 0xA51),
      (0xA70, 0xA71), (0xA75, 0xA75), (0xA81, 0xA82), (0xABC, 0xABC), (0xAC1, 0xAC5),
      (0xAC7, 0xAC8), (0xACD, 0xACD), (0xAE2, 0xAE3), (0xAFA, 0xAFF), (0xB01, 0xB01),
      (0xB3C, 0xB3C), (0xB3F, 0xB3F), (0xB41, 0xB44), (0xB4D, 0xB4D), (0xB55, 0xB56),
      (0xB62, 0xB63), (0xB82, 0xB82), (0xBC0, 0xBC0), (0xBCD, 0xBCD), (0xC00, 0xC00),
      (0xC04, 0xC04), (0xC3C, 0xC3C), (0xC3E, 0xC40), (0xC46, 0xC48), (0xC4A, 0xC4D),
      (0xC55, 0xC56), (0xC62, 0xC63), (0xC81, 0xC81), (0xCBC, 0xCBC), (0xCBF, 0xCBF),
      (0xCC6, 0xCC6), (0xCCC, 0xCCD), (0xCE2, 0xCE3), (0xD00, 0xD01), (0xD3B, 0xD3C),
      (0xD41, 0xD44), (0xD4D, 0xD4D), (0xD62, 0xD63), (0xD81, 0xD81), (0xDCA, 0xDCA),
      (0xDD2, 0xDD4), (0xDD6, 0xDD6), (0xE31, 0xE31), (0xE34, 0xE3A), (0xE46, 0xE4E),
      (0xEB1, 0xEB1), (0xEB4, 0xEBC), (0xEC6, 0xEC6), (0xEC8, 0xECD), (0xF18, 0xF19),
      (0xF35, 0xF35), (0xF37, 0xF37), (0xF39, 0xF39), (0xF71, 0xF7E), (0xF80, 0xF84),
      (0xF86, 0xF87), (0xF8D, 0xF97), (0xF99, 0xFBC), (0xFC6, 0xFC6), (0x102D, 0x1030),
      (0x1032, 0x1037), (0x1039, 0x103A), (0x103D, 0x103E), (0x1058, 0x1059), (0x105E, 0x1060),
      (0x1071, 0x1074), (0x1082, 0x1082), (0x1085, 0x1086), (0x108D, 0x108D), (0x109D, 0x109D),
      (0x10FC, 0x10FC), (0x135D, 0x135F), (0x1712, 0x1714), (0x1732, 0x1733), (0x1752, 0x1753),
      (0x1772, 0x1773), (0x17B4, 0x17B5), (0x17B7, 0x17BD), (0x17C6, 0x17C6), (0x17C9, 0x17D3),
      (0x17D7, 0x17D7), (0x17DD, 0x17DD), (0x180B, 0x180F), (0x1843, 0x1843), (0x1885, 0x1886),
      (0x18A9, 0x18A9), (0x1920, 0x1922), (0x1927, 0x1928), (0x1932, 0x1932), (0x1939, 0x193B),
      (0x1A17, 0x1A18), (0x1A1B, 0x1A1B), (0x1A56, 0x1A56), (0x1A58, 0x1A5E), (0x1A60, 0x1A60),
      (0x1A62, 0x1A62), (0x1A65, 0x1A6C), (0x1A73, 0x1A7C), (0x1A7F, 0x1A7F), (0x1AA7, 0x1AA7),
      (0x1AB0, 0x1ACE), (0x1B00, 0x1B03), (0x1B34, 0x1B34), (0x1B36, 0x1B3A), (0x1B3C, 0x1B3C),
      (0x1B42, 0x1B42), (0x1B6B, 0x1B73), (0x1B80, 0x1B81), (0x1BA2, 0x1BA5), (0x1BA8, 0x1BA9),
      (0x1BAB, 0x1BAD), (0x1BE6, 0x1BE6), (0x1BE8, 0x1BE9), (0x1BED, 0x1BED), (0x1BEF, 0x1BF1),
      (0x1C2C, 0x1C33), (0x1C36, 0x1C37), (0x1C78, 0x1C7D), (0x1CD0, 0x1CD2), (0x1CD4, 0x1CE0),
      (0x1CE2, 0x1CE8), (0x1CED, 0x1CED), (0x1CF4, 0x1CF4), (0x1CF8, 0x1CF9), (0x1D2C, 0x1D6A),
      (0x1D78, 0x1D78), (0x1D9B, 0x1DFF), (0x1FBD, 0x1FBD), (0x1FBF, 0x1FC1), (0x1FCD, 0x1FCF),
      (0x1FDD, 0x1FDF), (0x1FED, 0x1FEF), (0x1FFD, 0x1FFE), (0x200B, 0x200F), (0x2018, 0x2019),
      (0x2024, 0x2024), (0x2027, 0x2027), (0x202A, 0x202E), (0x2060, 0x2064), (0x2066, 0x206F),
      (0x2071, 0x2071), (0x207F, 0x207F), (0x2090, 0x209C), (0x20D0, 0x20F0), (0x2C7C, 0x2C7D),
      (0x2CEF, 0x2CF1), (0x2D6F, 0x2D6F), (0x2D7F, 0x2D7F), (0x2DE0, 0x2DFF), (0x2E2F, 0x2E2F),
      (0x3005, 0x3005), (0x302A, 0x302D), (0x3031, 0x3035), (0x303B, 0x303B), (0x3099, 0x309E),
      (0x30FC, 0x30FE), (0xA015, 0xA015), (0xA4F8, 0xA4FD), (0xA60C, 0xA60C), (0xA66F, 0xA672),
      (0xA674, 0xA67D), (0xA67F, 0xA67F), (0xA69C, 0xA69F), (0xA6F0, 0xA6F1), (0xA700, 0xA721),
      (0xA770, 0xA770), (0xA788, 0xA78A), (0xA7F2, 0xA7F4), (0xA7F8, 0xA7F9), (0xA802, 0xA802),
      (0xA806, 0xA806), (0xA80B, 0xA80B), (0xA825, 0xA826), (0xA82C, 0xA82C), (0xA8C4, 0xA8C5),
      (0xA8E0, 0xA8F1), (0xA8FF, 0xA8FF), (0xA926, 0xA92D), (0xA947, 0xA951), (0xA980, 0xA982),
      (0xA9B3, 0xA9B3), (0xA9B6, 0xA9B9), (0xA9BC, 0xA9BD), (0xA9CF, 0xA9CF), (0xA9E5, 0xA9E6),
      (0xAA29, 0xAA2E), (0xAA31, 0xAA32), (0xAA35, 0xAA36), (0xAA43, 0xAA43), (0xAA4C, 0xAA4C),
      (0xAA70, 0xAA70), (0xAA7C, 0xAA7C), (0xAAB0, 0xAAB0), (0xAAB2, 0xAAB4), (0xAAB7, 0xAAB8),
      (0xAABE, 0xAABF), (0xAAC1, 0xAAC1), (0xAADD, 0xAADD), (0xAAEC, 0xAAED), (0xAAF3, 0xAAF4),
      (0xAAF6, 0xAAF6), (0xAB5B, 0xAB5F), (0xAB69, 0xAB6B), (0xABE5, 0xABE5), (0xABE8, 0xABE8),
      (0xABED, 0xABED), (0xFB1E, 0xFB1E), (0xFBB2, 0xFBC2), (0xFE00, 0xFE0F), (0xFE13, 0xFE13),
      (0xFE20, 0xFE2F), (0xFE52, 0xFE52), (0xFE55, 0xFE55), (0xFEFF, 0xFEFF), (0xFF07, 0xFF07),
      (0xFF0E, 0xFF0E), (0xFF1A, 0xFF1A), (0xFF3E, 0xFF3E), (0xFF40, 0xFF40), (0xFF70, 0xFF70),
      (0xFF9E, 0xFF9F), (0xFFE3, 0xFFE3), (0xFFF9, 0xFFFB), (0x101FD, 0x101FD), (0x102E0, 0x102E0),
      (0x10376, 0x1037A), (0x10780, 0x10785), (0x10787, 0x107B0), (0x107B2, 0x107BA), (0x10A01, 0x10A03),
      (0x10A05, 0x10A06), (0x10A0C, 0x10A0F), (0x10A38, 0x10A3A), (0x10A3F, 0x10A3F), (0x10AE5, 0x10AE6),
      (0x10D24, 0x10D27), (0x10EAB, 0x10EAC), (0x10F46, 0x10F50), (0x10F82, 0x10F85), (0x11001, 0x11001),
      (0x11038, 0x11046), (0x11070, 0x11070), (0x11073, 0x11074), (0x1107F, 0x11081), (0x110B3, 0x110B6),
      (0x110B9, 0x110BA), (0x110BD, 0x110BD), (0x110C2, 0x110C2), (0x110CD, 0x110CD), (0x11100, 0x11102),
      (0x11127, 0x1112B), (0x1112D, 0x11134), (0x11173, 0x11173), (0x11180, 0x11181), (0x111B6, 0x111BE),
      (0x111C9, 0x111CC), (0x111CF, 0x111CF), (0x1122F, 0x11231), (0x11234, 0x11234), (0x11236, 0x11237),
      (0x1123E, 0x1123E), (0x112DF, 0x112DF), (0x112E3, 0x112EA), (0x11300, 0x11301), (0x1133B, 0x1133C),
      (0x11340, 0x11340), (0x11366, 0x1136C), (0x11370, 0x11374), (0x11438, 0x1143F), (0x11442, 0x11444),
      (0x11446, 0x11446), (0x1145E, 0x1145E), (0x114B3, 0x114B8), (0x114BA, 0x114BA), (0x114BF, 0x114C0),
      (0x114C2, 0x114C3), (0x115B2, 0x115B5), (0x115BC, 0x115BD), (0x115BF, 0x115C0), (0x115DC, 0x115DD),
      (0x11633, 0x1163A), (0x1163D, 0x1163D), (0x1163F, 0x11640), (0x116AB, 0x116AB), (0x116AD, 0x116AD),
      (0x116B0, 0x116B5), (0x116B7, 0x116B7), (0x1171D, 0x1171F), (0x11722, 0x11725), (0x11727, 0x1172B),
      (0x1182F, 0x11837), (0x11839, 0x1183A), (0x1193B, 0x1193C), (0x1193E, 0x1193E), (0x11943, 0x11943),
      (0x119D4, 0x119D7), (0x119DA, 0x119DB), (0x119E0, 0x119E0), (0x11A01, 0x11A0A), (0x11A33, 0x11A38),
      (0x11A3B, 0x11A3E), (0x11A47, 0x11A47), (0x11A51, 0x11A56), (0x11A59, 0x11A5B), (0x11A8A, 0x11A96),
      (0x11A98, 0x11A99), (0x11C30, 0x11C36), (0x11C38, 0x11C3D), (0x11C3F, 0x11C3F), (0x11C92, 0x11CA7),
      (0x11CAA, 0x11CB0), (0x11CB2, 0x11CB3), (0x11CB5, 0x11CB6), (0x11D31, 0x11D36), (0x11D3A, 0x11D3A),
      (0x11D3C, 0x11D3D), (0x11D3F, 0x11D45), (0x11D47, 0x11D47), (0x11D90, 0x11D91), (0x11D95, 0x11D95),
      (0x11D97, 0x11D97), (0x11EF3, 0x11EF4), (0x13430, 0x13438), (0x16AF0, 0x16AF4), (0x16B30, 0x16B36),
      (0x16B40, 0x16B43), (0x16F4F, 0x16F4F), (0x16F8F, 0x16F9F), (0x16FE0, 0x16FE1), (0x16FE3, 0x16FE4),
      (0x1AFF0, 0x1AFF3), (0x1AFF5, 0x1AFFB), (0x1AFFD, 0x1AFFE), (0x1BC9D, 0x1BC9E), (0x1BCA0, 0x1BCA3),
      (0x1CF00, 0x1CF2D), (0x1CF30, 0x1CF46), (0x1D167, 0x1D169), (0x1D173, 0x1D182), (0x1D185, 0x1D18B),
      (0x1D1AA, 0x1D1AD), (0x1D242, 0x1D244), (0x1DA00, 0x1DA36), (0x1DA3B, 0x1DA6C), (0x1DA75, 0x1DA75),
      (0x1DA84, 0x1DA84), (0x1DA9B, 0x1DA9F), (0x1DAA1, 0x1DAAF), (0x1E000, 0x1E006), (0x1E008, 0x1E018),
      (0x1E01B, 0x1E021), (0x1E023, 0x1E024), (0x1E026, 0x1E02A), (0x1E130, 0x1E13D), (0x1E2AE, 0x1E2AE),
      (0x1E2EC, 0x1E2EF), (0x1E8D0, 0x1E8D6), (0x1E944, 0x1E94B), (0x1F3FB, 0x1F3FF), (0xE0001, 0xE0001),
      (0xE0020, 0xE007F), (0xE0100, 0xE01EF)]"

definition cased_runs :: "(nat \<times> nat) list" where
  "cased_runs =
     [(0xAA, 0xAA), (0xB5, 0xB5), (0xBA, 0xBA), (0xC0, 0xD6), (0xD8, 0xF6),
      (0xF8, 0x1BA), (0x1BC, 0x1BF), (0x1C4, 0x293), (0x295, 0x2AF), (0x370, 0x373),
      (0x376, 0x377), (0x37B, 0x37D), (0x37F, 0x37F), (0x386, 0x386), (0x388, 0x38A),
      (0x38C, 0x38C), (0x38E, 0x3A1), (0x3A3, 0x3F5), (0x3F7, 0x481), (0x48A, 0x52F),
      (0x531, 0x556), (0x560, 0x588), (0x10A0, 0x10C5), (0x10C7, 0x10C7), (0x10CD, 0x10CD),
      (0x10D0, 0x10FA), (0x10FD, 0x10FF), (0x13A0, 0x13F5), (0x13F8, 0x13FD), (0x1C80, 0x1C88),
      (0x1C90, 0x1CBA), (0x1CBD, 0x1CBF), (0x1D00, 0x1D2B), (0x1D6B, 0x1D77), (0x1D79, 0x1D9A),
      (0x1E00, 0x1F15), (0x1F18, 0x1F1D), (0x1F20, 0x1F45), (0x1F48, 0x1F4D), (0x1F50, 0x1F57),
      (0x1F59, 0x1F59), (0x1F5B, 0x1F5B), (0x1F5D, 0x1F5D), (0x1F5F, 0x1F7D), (0x1F80, 0x1FB4),
      (0x1FB6, 0x1FBC), (0x1FBE, 0x1FBE), (0x1FC2, 0x1FC4), (0x1FC6, 0x1FCC), (0x1FD0, 0x1FD3),
      (0x1FD6, 0x1FDB), (0x1FE0, 0x1FEC), (0x1FF2, 0x1FF4), (0x1FF6, 0x1FFC), (0x2102, 0x2102),
      (0x2107, 0x2107), (0x210A, 0x2113), (0x2115, 0x2115), (0x2119, 0x211D), (0x2124, 0x2124),
      (0x2126, 0x2126), (0x2128, 0x2128), (0x212A, 0x212D), (0x212F, 0x2134), (0x2139, 0x2139),
      (0x213C, 0x213F), (0x2145, 0x2149), (0x214E, 0x214E), (0x2160, 0x217F), (0x2183, 0x2184),
      (0x24B6, 0x24E9), (0x2C00, 0x2C7B), (0x2C7E, 0x2CE4), (0x2CEB, 0x2CEE), (0x2CF2, 0x2CF3),
      (0x2D00, 0x2D25), (0x2D27, 0x2D27), (0x2D2D, 0x2D2D), (0xA640, 0xA66D), (0xA680, 0xA69B),
      (0xA722, 0xA76F), (0xA771, 0xA787), (0xA78B, 0xA78E), (0xA790, 0xA7CA), (0xA7D0, 0xA7D1),
      (0xA7D3, 0xA7D3), (0xA7D5, 0xA7D9), (0xA7F5, 0xA7F6), (0xA7FA, 0xA7FA), (0xAB30, 0xAB5A),
      (0xAB60, 0xAB68), (0xAB70, 0xABBF), (0xFB00, 0xFB06), (0xFB13, 0xFB17), (0xFF21, 0xFF3A),
      (0xFF41, 0xFF5A), (0x10400, 0x1044F), (0x104B0, 0x104D3), (0x104D8, 0x104FB), (0x10570, 0x1057A),
      (0x1057C, 0x1058A), (0x1058C, 0x10592), (0x10594, 0x10595), (0x10597, 0x105A1), (0x105A3, 0x105B1),
      (0x105B3, 0x105B9), (0x105BB, 0x105BC), (0x10C80, 0x10CB2), (0x10CC0, 0x10CF2), (0x118A0, 0x118DF),
      (0x16E40, 0x16E7F), (0x1D400, 0x1D454), (0x1D456, 0x1D49C), (0x1D49E, 0x1D49F), (0x1D4A2, 0x1D4A2),
      (0x1D4A5, 0x1D4A6), (0x1D4A9, 0x1D4AC), (0x1D4AE, 0x1D4B9), (0x1D4BB, 0x1D4BB), (0x1D4BD, 0x1D4C3),
      (0x1D4C5, 0x1D505), (0x1D507, 0x1D50A), (0x1D50D, 0x1D514), (0x1D516, 0x1D51C), (0x1D51E, 0x1D539),
      (0x1D53B, 0x1D53E), (0x1D540, 0x1D544), (0x1D546, 0x1D546), (0x1D54A, 0x1D550), (0x1D552, 0x1D6A5),
      (0x1D6A8, 0x1D6C0), (0x1D6C2, 0x1D6DA), (0x1D6DC, 0x1D6FA), (0x1D6FC, 0x1D714), (0x1D716, 0x1D734),
      (0x1D736, 0x1D74E), (0x1D750, 0x1D76E), (0x1D770, 0x1D788), (0x1D78A, 0x1D7A8), (0x1D7AA, 0x1D7C2),
      (0x1D7C4, 0x1D7CB), (0x1DF00, 0x1DF09), (0x1DF0B, 0x1DF1E), (0x1E900, 0x1E943), (0x1F130, 0x1F149),
      (0x1F150, 0x1F169), (0x1F170, 0x1F189)]"

text \<open>The lower case of one character; capital I with dot above becomes two characters.\<close>

fun lower_symbol :: "symbol \<Rightarrow> symbol list" where
  "lower_symbol (Byte a) = [Byte (toLowerCase_char a)]"
| "lower_symbol (Point n) =
     (if n = 0x130 then [Byte CHR ''i'', Point 0x307]
      else
        (case find (\<lambda>(lo, hi, step, target).
                      lo \<le> n \<and> n \<le> hi \<and> (n - lo) mod step = 0)
                   lower_runs of
           Some (lo, hi, step, target) \<Rightarrow> [Point (target + (n - lo))]
         | None \<Rightarrow> [Point n]))"

fun case_ignorable :: "symbol \<Rightarrow> bool" where
  "case_ignorable (Byte a) = (a \<in> set [CHR 0x27, CHR ''.'', CHR '':'', CHR ''^'', CHR 0x60])"
| "case_ignorable (Point n) = list_ex (\<lambda>(lo, hi). lo \<le> n \<and> n \<le> hi) case_ignorable_runs"

fun cased :: "symbol \<Rightarrow> bool" where
  "cased (Byte a) = (toLowerCase_char a \<in> set ''abcdefghijklmnopqrstuvwxyz'')"
| "cased (Point n) = list_ex (\<lambda>(lo, hi). lo \<le> n \<and> n \<le> hi) cased_runs"

text \<open>
  The next character that is not case-ignorable is cased: read backwards before a
  capital sigma and forwards after it, this decides whether the sigma is final.
\<close>

definition beside_cased :: "symbol list \<Rightarrow> bool" where
  "beside_cased ns = (case dropWhile case_ignorable ns of [] \<Rightarrow> False | m # _ \<Rightarrow> cased m)"

fun lower_symbols :: "symbol list \<Rightarrow> symbol list \<Rightarrow> symbol list" where
  "lower_symbols seen [] = []"
| "lower_symbols seen (n # rest) =
     (if n = Point 0x3A3
      then [Point (if beside_cased seen \<and> \<not> beside_cased rest then 0x3C2 else 0x3C3)]
      else lower_symbol n)
     @ lower_symbols (n # seen) rest"

definition toLowerCase :: "string \<Rightarrow> string" where
  "toLowerCase s = concat (map utf8_encode (lower_symbols [] (utf8_decode s)))"

text \<open>\<open>s.includes(t)\<close>: \<open>t\<close> occurs in \<open>s\<close> as a contiguous run.\<close>

fun str_includes :: "string \<Rightarrow> string \<Rightarrow> bool" where
  "str_includes [] t = (t = [])"
| "str_includes (c # cs) t = (prefix t (c # cs) \<or> str_includes cs t)"

text \<open>\<open>xs.join(sep)\<close>.\<close>

fun join :: "string \<Rightarrow> string list \<Rightarrow> string" where
  "join sep [] = []"
| "join sep [x] = x"
| "join sep (x # y # ys) = x @ sep @ join sep (y # ys)"

text \<open>\<open>xs.slice(-n)\<close> for a positive \<open>n\<close>: the last \<open>n\<close> elements.\<close>

definition slice_last :: "nat \<Rightarrow> 'a list \<Rightarrow> 'a list" where
  "slice_last n xs = drop (length xs - n) xs"

text \<open>Decimal text of an integer, as a template literal prints it.\<close>

definition digit_char :: "nat \<Rightarrow> char" where
  "digit_char d = ''0123456789'' ! (d mod 10)"

function show_nat :: "nat \<Rightarrow> string" where
  "show_nat n = (if n < 10 then [digit_char n] else show_nat (n div 10) @ [digit_char (n mod 10)])"
  by pat_completeness auto

termination
  by (relation "measure id") auto

declare show_nat.simps [simp del]

definition show_int :: "int \<Rightarrow> string" where
  "show_int i = (if i < 0 then ''-'' @ show_nat (nat (- i)) else show_nat (nat i))"

text \<open>A string test as JavaScript's truthiness reads it: absent and empty are both false.\<close>

fun truthy :: "string option \<Rightarrow> bool" where
  "truthy None = False"
| "truthy (Some s) = (s \<noteq> [])"

definition newline :: string where
  "newline = [CHR 0x0A]"

section \<open>Conversation context types\<close>

text \<open>
  A value of the source's type \<open>unknown\<close> (a member of a fetched row or of a request
  body), as far as the handler looks at it. Numbers are integers (identifiers and
  counts). \<open>VObj d c j s\<close> is an object or array: its \<open>displayValue\<close> and \<open>code\<close>
  members (strings where present and not null, as the source's casts say), its
  \<open>JSON.stringify\<close> text \<open>j\<close> and its \<open>String()\<close> text \<open>s\<close>.
\<close>

datatype fieldval =
    VUndefined
  | VNull
  | VStr string
  | VNum int
  | VBool bool
  | VObj "string option" "string option" string string

type_synonym row = "(string \<times> fieldval) list"

text \<open>\<open>record[key]\<close>: a missing key reads as \<open>undefined\<close>.\<close>

definition field :: "row \<Rightarrow> string \<Rightarrow> fieldval" where
  "field r k = (case map_of r k of Some v \<Rightarrow> v | None \<Rightarrow> VUndefined)"

definition nullish :: "fieldval \<Rightarrow> bool" where
  "nullish v = (v = VUndefined \<or> v = VNull)"

text \<open>\<open>a ?? b\<close>.\<close>

definition coalesce :: "fieldval \<Rightarrow> fieldval \<Rightarrow> fieldval" where
  "coalesce a b = (if nullish a then b else a)"

fun js_truthy :: "fieldval \<Rightarrow> bool" where
  "js_truthy VUndefined = False"
| "js_truthy VNull = False"
| "js_truthy (VStr s) = (s \<noteq> [])"
| "js_truthy (VNum n) = (n \<noteq> 0)"
| "js_truthy (VBool b) = b"
| "js_truthy (VObj d c j s) = True"

text \<open>\<open>String(v)\<close>, which is also how a template literal prints \<open>v\<close>.\<close>

fun js_String :: "fieldval \<Rightarrow> string" where
  "js_String VUndefined = ''undefined''"
| "js_String VNull = ''null''"
| "js_String (VStr s) = s"
| "js_String (VNum n) = show_int n"
| "js_String (VBool b) = (if b then ''true'' else ''false'')"
| "js_String (VObj d c j s) = s"

datatype role = User | Assistant

text \<open>
  Timestamps are ISO-8601 strings written by \<open>toISOString\<close> and read back by
  \<open>new Date(s).getTime()\<close>; the model carries the epoch milliseconds they denote.
\<close>

record ConversationTurn =
  t_timestamp :: int
  t_role :: role
  t_message :: string
  t_action :: "string option"
  t_objectType :: "string option"
  t_success :: "bool option"

record ChartItem =
  label :: string
  count :: nat

record LastQuery =
  q_objectType :: string
  q_objectLabel :: string
  q_action :: string
  q_filters :: "(string \<times> string) list option"
  q_results :: "row list option"
  q_totalCount :: "int option"
  q_groupByField :: "string option"
  q_groupByDisplayName :: "string option"
  q_chartData :: "(string \<times> ChartItem list) list option"
  q_timestamp :: int

record PageRef =
  p_objectType :: string
  p_recordId :: "string option"
  p_recordName :: "string option"
  p_url :: "string option"

record Preferences =
  preferredChartType :: "string option"
  language :: "string option"
  detailLevel :: "string option"

record ConversationContext =
  sessionId :: string
  lastQuery :: "LastQuery option"
  currentPage :: "PageRef option"
  history :: "ConversationTurn list"
  preferences :: "Preferences option"

record DrillDownRequest =
  fromField :: string
  selectedValue :: string
  d_objectType :: string

section \<open>ContextService\<close>

text \<open>The service's \<open>Map\<close> from session id to context.\<close>

type_synonym contexts = "string \<rightharpoonup> ConversationContext"

definition MAX_HISTORY_LENGTH :: nat where
  "MAX_HISTORY_LENGTH = 20"

definition CONTEXT_EXPIRY_MS :: int where
  "CONTEXT_EXPIRY_MS = 30 * 60 * 1000"

definition createNewContext :: "string \<Rightarrow> ConversationContext" where
  "createNewContext sid =
     \<lparr>sessionId = sid, lastQuery = None, currentPage = None, history = [], preferences = None\<rparr>"

text \<open>\<open>getContext\<close> stores the context it creates, so it returns the store as well.\<close>

definition getContext :: "string \<Rightarrow> contexts \<Rightarrow> ConversationContext \<times> contexts" where
  "getContext sid cs =
     (case cs sid of
        Some c \<Rightarrow> (c, cs)
      | None \<Rightarrow> (createNewContext sid, cs(sid \<mapsto> createNewContext sid)))"

definition updateLastQuery :: "string \<Rightarrow> LastQuery option \<Rightarrow> contexts \<Rightarrow> contexts" where
  "updateLastQuery sid q cs =
     (case getContext sid cs of (c, cs') \<Rightarrow> cs'(sid \<mapsto> c\<lparr>lastQuery := q\<rparr>))"

definition addToHistory :: "string \<Rightarrow> ConversationTurn \<Rightarrow> contexts \<Rightarrow> contexts" where
  "addToHistory sid turn cs =
     (case getContext sid cs of (c, cs') \<Rightarrow>
        let pushed = history c @ [turn];
            trimmed = (if length pushed > MAX_HISTORY_LENGTH
                       then slice_last MAX_HISTORY_LENGTH pushed else pushed)
        in cs'(sid \<mapsto> c\<lparr>history := trimmed\<rparr>))"

definition setCurrentPage :: "string \<Rightarrow> PageRef option \<Rightarrow> contexts \<Rightarrow> contexts" where
  "setCurrentPage sid page cs =
     (case getContext sid cs of (c, cs') \<Rightarrow> cs'(sid \<mapsto> c\<lparr>currentPage := page\<rparr>))"

text \<open>The object spread: a member the update gives overrides the stored one.\<close>

definition spread_option :: "'a option \<Rightarrow> 'a option \<Rightarrow> 'a option" where
  "spread_option old new = (case new of Some v \<Rightarrow> Some v | None \<Rightarrow> old)"

definition mergePreferences :: "Preferences option \<Rightarrow> Preferences \<Rightarrow> Preferences" where
  "mergePreferences old new =
     (case old of
        None \<Rightarrow> new
      | Some p \<Rightarrow>
          \<lparr>preferredChartType = spread_option (preferredChartType p) (preferredChartType new),
           language = spread_option (language p) (language new),
           detailLevel = spread_option (detailLevel p) (detailLevel new)\<rparr>)"

definition updatePreferences :: "string \<Rightarrow> Preferences \<Rightarrow> contexts \<Rightarrow> contexts" where
  "updatePreferences sid prefs cs =
     (case getContext sid cs of (c, cs') \<Rightarrow>
        cs'(sid \<mapsto> c\<lparr>preferences := Some (mergePreferences (preferences c) prefs)\<rparr>))"

definition hasChart :: "ConversationContext \<Rightarrow> bool" where
  "hasChart c =
     (case lastQuery c of
        None \<Rightarrow> False
      | Some q \<Rightarrow> q_chartData q \<noteq> None \<and> truthy (q_groupByField q))"

definition canDrillDown :: "string \<Rightarrow> contexts \<Rightarrow> bool \<times> contexts" where
  "canDrillDown sid cs = (case getContext sid cs of (c, cs') \<Rightarrow> (hasChart c, cs'))"

definition drillDownOptionsOf :: "ConversationContext \<Rightarrow> string list" where
  "drillDownOptionsOf c =
     (case lastQuery c of
        None \<Rightarrow> []
      | Some q \<Rightarrow>
          (case (q_chartData q, q_groupByField q) of
             (Some chart, Some g) \<Rightarrow>
               (if g = [] then []
                else (case map_of chart g of Some items \<Rightarrow> map label items | None \<Rightarrow> []))
           | _ \<Rightarrow> []))"

definition getDrillDownOptions :: "string \<Rightarrow> contexts \<Rightarrow> string list \<times> contexts" where
  "getDrillDownOptions sid cs = (case getContext sid cs of (c, cs') \<Rightarrow> (drillDownOptionsOf c, cs'))"

text \<open>
  \<open>if (exactMatch) return exactMatch\<close> tests the found label for truthiness: an empty
  label that matched is passed over, as is an empty partial match.
\<close>

definition findDrillDownMatch :: "string \<Rightarrow> string \<Rightarrow> contexts \<Rightarrow> string option \<times> contexts" where
  "findDrillDownMatch sid userValue cs =
     (case getDrillDownOptions sid cs of (options, cs') \<Rightarrow>
        let lowerUserValue = toLowerCase userValue;
            exactMatch = find (\<lambda>opt. toLowerCase opt = lowerUserValue) options;
            partialMatch = find (\<lambda>opt. str_includes (toLowerCase opt) lowerUserValue
                                      \<or> str_includes lowerUserValue (toLowerCase opt)) options
        in (if truthy exactMatch then exactMatch
            else if truthy partialMatch then partialMatch
            else None, cs'))"

definition buildDrillDownRequest :: "string \<Rightarrow> string \<Rightarrow> contexts \<Rightarrow> DrillDownRequest option \<times> contexts" where
  "buildDrillDownRequest sid selected cs =
     (case getContext sid cs of (c, cs') \<Rightarrow>
        (case lastQuery c of
           None \<Rightarrow> (None, cs')
         | Some q \<Rightarrow>
             (if \<not> truthy (q_groupByField q) \<or> q_objectType q = [] then (None, cs')
              else (Some \<lparr>fromField = the (q_groupByField q), selectedValue = selected,
                          d_objectType = q_objectType q\<rparr>, cs'))))"

definition getLastObjectType :: "string \<Rightarrow> contexts \<Rightarrow> string option \<times> contexts" where
  "getLastObjectType sid cs =
     (case getContext sid cs of (c, cs') \<Rightarrow> (map_option q_objectType (lastQuery c), cs'))"

definition getLastObjectLabel :: "string \<Rightarrow> contexts \<Rightarrow> string option \<times> contexts" where
  "getLastObjectLabel sid cs =
     (case getContext sid cs of (c, cs') \<Rightarrow> (map_option q_objectLabel (lastQuery c), cs'))"

definition clearContext :: "string \<Rightarrow> contexts \<Rightarrow> contexts" where
  "clearContext sid cs = cs(sid := None)"

text \<open>
  The sweep. \<open>now\<close> is the reading of \<open>Date.now()\<close>. The last activity of a context is
  the timestamp of its last history entry, and 0 when the history is empty.
\<close>

definition lastActivity :: "ConversationContext \<Rightarrow> int" where
  "lastActivity c = (if length (history c) > 0 then t_timestamp (last (history c)) else 0)"

definition cleanupExpiredContexts :: "int \<Rightarrow> contexts \<Rightarrow> contexts" where
  "cleanupExpiredContexts now cs =
     (\<lambda>sid. case cs sid of
        None \<Rightarrow> None
      | Some c \<Rightarrow> if now - lastActivity c > CONTEXT_EXPIRY_MS then None else Some c)"

text \<open>The history a session has in the store (none when the session is absent).\<close>

definition stored_history :: "contexts \<Rightarrow> string \<Rightarrow> ConversationTurn list" where
  "stored_history cs sid = (case cs sid of None \<Rightarrow> [] | Some c \<Rightarrow> history c)"

text \<open>A run of \<open>addToHistory\<close> calls, each with its session id, in order.\<close>

definition appendTurns :: "(string \<times> ConversationTurn) list \<Rightarrow> contexts \<Rightarrow> contexts" where
  "appendTurns ops cs = fold (\<lambda>(sid, turn). addToHistory sid turn) ops cs"

definition turnsFor :: "string \<Rightarrow> (string \<times> ConversationTurn) list \<Rightarrow> ConversationTurn list" where
  "turnsFor sid ops = map snd (filter (\<lambda>(s, turn). s = sid) ops)"

section \<open>ClarityApiClient\<close>

text \<open>
  An error is carried as its message, the only part of it the source reads
  (\<open>error instanceof Error ? error.message : String(error)\<close>).
\<close>

type_synonym error = string

text \<open>
  What one \<open>fetch\<close> call comes to. \<open>Rejected msg\<close>: the promise rejects (a network
  failure, or the abort the client's timeout fires). \<open>Response status body data\<close>: a
  response with its HTTP status; \<open>body\<close> is what \<open>response.text()\<close> gives and \<open>data\<close>
  what \<open>response.json()\<close> gives, each of which may throw.
\<close>

datatype 'a fetch_outcome =
    Rejected error
  | Response nat "error + string" "error + 'a"

text \<open>The remote calls and waits a run makes, in order.\<close>

datatype event =
    Fetch string string
  | Sleep int
  | Reasoning string

record ClarityApiClient =
  baseUrl :: string
  maxRetries :: int

text \<open>
  The transport: \<open>fetch\<close> answers a request (verb, URL, and the body object before
  \<open>JSON.stringify\<close>) in a world \<open>'w\<close> that it may change. A run carries the world and the
  log of what it did.
\<close>

record ('w, 'a) transport =
  fetch :: "string \<Rightarrow> string \<Rightarrow> row option \<Rightarrow> 'w \<Rightarrow> 'a fetch_outcome \<times> 'w"

record 'w run =
  world :: 'w
  trace :: "event list"

definition response_ok :: "nat \<Rightarrow> bool" where
  "response_ok status = (200 \<le> status \<and> status \<le> 299)"

text \<open>The body of the \<open>try\<close> block after \<open>fetch\<close> has settled.\<close>

fun attempt_result :: "'a fetch_outcome \<Rightarrow> error + 'a" where
  "attempt_result (Rejected msg) = Inl msg"
| "attempt_result (Response status body data) =
     (if \<not> response_ok status then
        (case body of
           Inl msg \<Rightarrow> Inl msg
         | Inr errorText \<Rightarrow> Inl (''HTTP '' @ show_nat status @ '': '' @ errorText))
      else data)"

definition request_url :: "ClarityApiClient \<Rightarrow> string \<Rightarrow> string" where
  "request_url cl endpoint =
     baseUrl cl @ (if prefix ''/'' endpoint then endpoint else ''/'' @ endpoint)"

function request_loop ::
  "('w, 'a, 'x) transport_scheme \<Rightarrow> ClarityApiClient \<Rightarrow> string \<Rightarrow> string \<Rightarrow> row option \<Rightarrow>
   int \<Rightarrow> error option \<Rightarrow> ('w, 'z) run_scheme \<Rightarrow> (error + 'a) \<times> ('w, 'z) run_scheme" where
  "request_loop tr cl verb url body attempt lastError s =
     (if attempt < maxRetries cl then
        (case fetch tr verb url body (world s) of (outcome, w') \<Rightarrow>
           let s1 = s\<lparr>world := w', trace := trace s @ [Fetch verb url]\<rparr> in
           (case attempt_result outcome of
              Inr data \<Rightarrow> (Inr data, s1)
            | Inl msg \<Rightarrow>
                if str_includes msg ''401'' \<or> str_includes msg ''403'' then (Inl msg, s1)
                else
                  let s2 = (if attempt < maxRetries cl - 1
                            then s1\<lparr>trace := trace s1 @ [Sleep (1000 * (attempt + 1))]\<rparr>
                            else s1)
                  in request_loop tr cl verb url body (attempt + 1) (Some msg) s2))
      else (Inl (case lastError of Some e \<Rightarrow> e | None \<Rightarrow> ''Request failed''), s))"
  by pat_completeness auto

termination
  by (relation "measure (\<lambda>(tr, cl, verb, url, body, attempt, lastError, s). nat (maxRetries cl - attempt))")
     auto

declare request_loop.simps [simp del]

definition request ::
  "('w, 'a, 'x) transport_scheme \<Rightarrow> ClarityApiClient \<Rightarrow> string \<Rightarrow> string \<Rightarrow> row option \<Rightarrow>
   ('w, 'z) run_scheme \<Rightarrow> (error + 'a) \<times> ('w, 'z) run_scheme" where
  "request tr cl verb endpoint body s =
     request_loop tr cl verb (request_url cl endpoint) body 0 None s"

text \<open>The log of a request whose attempts \<open>a, a+1, \<dots>\<close> below \<open>m\<close> all fail and are retried.\<close>

function retry_trace :: "string \<Rightarrow> string \<Rightarrow> int \<Rightarrow> int \<Rightarrow> event list" where
  "retry_trace verb url m a =
     (if a < m then
        Fetch verb url # (if a < m - 1 then [Sleep (1000 * (a + 1))] else [])
          @ retry_trace verb url m (a + 1)
      else [])"
  by pat_completeness auto

termination
  by (relation "measure (\<lambda>(verb, url, m, a). nat (m - a))") auto

declare retry_trace.simps [simp del]

definition looks_like_auth :: "error \<Rightarrow> bool" where
  "looks_like_auth msg = (str_includes msg ''401'' \<or> str_includes msg ''403'')"

section \<open>Regular expressions\<close>

text \<open>
  The regular expressions of the source, as far as it uses them: character classes,
  sequence, ordered alternation, greedy and lazy repetition, capture groups, the
  anchors and the word boundary. A match state is the character before the position,
  the input still to read and the captures made. \<open>rx_run\<close> lists the states a pattern
  can end in, in the order a backtracking matcher tries them, so the head of the list
  is the match JavaScript reports.
\<close>

datatype rx =
    Eps
  | Chr "char \<Rightarrow> bool"
  | Seq rx rx
  | Alt rx rx
  | Star rx
  | LazyStar rx
  | Grp nat rx
  | Bol
  | Eol
  | WordB

type_synonym mstate = "char option \<times> string \<times> (nat \<times> string) list"

definition is_word_char :: "char \<Rightarrow> bool" where
  "is_word_char c = (c \<in> set ''abcdefghijklmnopqrstuvwxyzABCDEFGHIJKLMNOPQRSTUVWXYZ0123456789_'')"

definition is_digit :: "char \<Rightarrow> bool" where
  "is_digit c = (c \<in> set ''0123456789'')"

text \<open>\<open>\s\<close> over bytes: space, tab, line feed, vertical tab, form feed, carriage return.\<close>

definition is_space :: "char \<Rightarrow> bool" where
  "is_space c = (c \<in> set [CHR '' '', CHR 0x09, CHR 0x0A, CHR 0x0B, CHR 0x0C, CHR 0x0D])"

definition is_word_opt :: "char option \<Rightarrow> bool" where
  "is_word_opt p = (case p of None \<Rightarrow> False | Some c \<Rightarrow> is_word_char c)"

function rx_run :: "rx \<Rightarrow> mstate \<Rightarrow> mstate list" where
  "rx_run Eps st = [st]"
| "rx_run (Chr P) (p, [], c) = []"
| "rx_run (Chr P) (p, x # xs, c) = (if P x then [(Some x, xs, c)] else [])"
| "rx_run (Seq a b) (p, s, c) =
     concat (map (\<lambda>(p', s', c'). if length s' \<le> length s then rx_run b (p', s', c') else [])
                 (rx_run a (p, s, c)))"
| "rx_run (Alt a b) st = rx_run a st @ rx_run b st"
| "rx_run (Star r) (p, s, c) =
     concat (map (\<lambda>(p', s', c'). if length s' < length s then rx_run (Star r) (p', s', c') else [])
                 (rx_run r (p, s, c)))
     @ [(p, s, c)]"
| "rx_run (LazyStar r) (p, s, c) =
     (p, s, c) #
     concat (map (\<lambda>(p', s', c'). if length s' < length s then rx_run (LazyStar r) (p', s', c') else [])
                 (rx_run r (p, s, c)))"
| "rx_run (Grp n r) (p, s, c) =
     map (\<lambda>(p', s', c'). (p', s', (n, take (length s - length s') s) # c')) (rx_run r (p, s, c))"
| "rx_run Bol (p, s, c) = (if p = None then [(p, s, c)] else [])"
| "rx_run Eol (p, s, c) = (if s = [] then [(p, s, c)] else [])"
| "rx_run WordB (p, s, c) =
     (if is_word_opt p \<noteq> is_word_opt (case s of [] \<Rightarrow> None | x # _ \<Rightarrow> Some x) then [(p, s, c)] else [])"
  by pat_completeness auto

termination
  by (relation "inv_image (less_than <*lex*> less_than) (\<lambda>(r, p, s, c). (length s, size r))") auto

definition Opt :: "rx \<Rightarrow> rx" where
  "Opt r = Alt r Eps"

definition Plus :: "rx \<Rightarrow> rx" where
  "Plus r = Seq r (Star r)"

definition LazyPlus :: "rx \<Rightarrow> rx" where
  "LazyPlus r = Seq r (LazyStar r)"

text \<open>A literal under the \<open>i\<close> flag: each character compared without regard to case.\<close>

fun Lit :: "string \<Rightarrow> rx" where
  "Lit [] = Eps"
| "Lit [x] = Chr (\<lambda>c. toLowerCase_char c = toLowerCase_char x)"
| "Lit (x # xs) = Seq (Chr (\<lambda>c. toLowerCase_char c = toLowerCase_char x)) (Lit xs)"

fun Seqs :: "rx list \<Rightarrow> rx" where
  "Seqs [] = Eps"
| "Seqs [r] = r"
| "Seqs (r # rs) = Seq r (Seqs rs)"

fun Alts :: "rx list \<Rightarrow> rx" where
  "Alts [] = Seq Bol (Chr (\<lambda>c. False))"
| "Alts [r] = r"
| "Alts (r # rs) = Alt r (Alts rs)"

record rx_match =
  m_index :: nat
  m_text :: string
  m_groups :: "(nat \<times> string) list"

text \<open>
  \<open>s.match(r)\<close> for a pattern without the \<open>g\<close> flag: the leftmost position where the
  pattern matches, and there the match the backtracking order finds first.
\<close>

fun rx_search_from :: "rx \<Rightarrow> nat \<Rightarrow> char option \<Rightarrow> string \<Rightarrow> rx_match option" where
  "rx_search_from r i p s =
     (case rx_run r (p, s, []) of
        (p', s', c') # _ \<Rightarrow>
          Some \<lparr>m_index = i, m_text = take (length s - length s') s, m_groups = c'\<rparr>
      | [] \<Rightarrow> (case s of [] \<Rightarrow> None | x # xs \<Rightarrow> rx_search_from r (Suc i) (Some x) xs))"

definition rx_match :: "rx \<Rightarrow> string \<Rightarrow> rx_match option" where
  "rx_match r s = rx_search_from r 0 None s"

definition rx_test :: "rx \<Rightarrow> string \<Rightarrow> bool" where
  "rx_test r s = (rx_match r s \<noteq> None)"

text \<open>Capture group \<open>n\<close> of a match; \<open>None\<close> is JavaScript's \<open>undefined\<close>.\<close>

definition group :: "rx_match \<Rightarrow> nat \<Rightarrow> string option" where
  "group m n = map_of (m_groups m) n"

text \<open>
  \<open>s.replace(r, f)\<close> for a pattern without the \<open>g\<close> flag: the first match gives way to
  what \<open>f\<close> makes of it.
\<close>

definition rx_replace :: "rx \<Rightarrow> (rx_match \<Rightarrow> string) \<Rightarrow> string \<Rightarrow> string" where
  "rx_replace r f s =
     (case rx_match r s of
        None \<Rightarrow> s
      | Some m \<Rightarrow> take (m_index m) s @ f m @ drop (m_index m + length (m_text m)) s)"

text \<open>\<open>s.trim()\<close>.\<close>

definition trim :: "string \<Rightarrow> string" where
  "trim s = rev (dropWhile is_space (rev (dropWhile is_space s)))"

section \<open>Text of the source outside ASCII\<close>

text \<open>
  The signs and the Hebrew words the handler's string literals hold, as the UTF-8 bytes
  of the characters the source file has.
\<close>

definition dq :: string where
  "dq = [CHR 0x22]"

definition sq :: string where
  "sq = [CHR 0x27]"

definition bt :: string where
  "bt = [CHR 0x60]"

definition bullet :: string where
  "bullet = [CHR 0xE2, CHR 0x80, CHR 0x9A, CHR 0xC3, CHR 0x84, CHR 0xC2, CHR 0xA2]"

definition cross :: string where
  "cross = [CHR 0xE2, CHR 0x80, CHR 0x9A, CHR 0xC3, CHR 0xB9, CHR 0xC3, CHR 0xA5]"

definition link_sign :: string where
  "link_sign = [CHR 0xEF, CHR 0xA3, CHR 0xBF, CHR 0xC3, CHR 0xBC, CHR 0xC3, CHR 0xAE, CHR 0xC3, CHR 0xB3]"

definition chart_sign :: string where
  "chart_sign = [CHR 0xEF, CHR 0xA3, CHR 0xBF, CHR 0xC3, CHR 0xBC, CHR 0xC3, CHR 0xAC, CHR 0xC3, CHR 0xA4]"

definition check_sign :: string where
  "check_sign = [CHR 0xE2, CHR 0x80, CHR 0x9A, CHR 0xC3, CHR 0xBA, CHR 0xC3, CHR 0x96]"

definition question_sign :: string where
  "question_sign = [CHR 0xE2, CHR 0x80, CHR 0x9A, CHR 0xC3, CHR 0xB9, CHR 0xC3, CHR 0xAC]"

definition bulb_sign :: string where
  "bulb_sign = [CHR 0xEF, CHR 0xA3, CHR 0xBF, CHR 0xC3, CHR 0xBC, CHR 0xC3, CHR 0xAD, CHR 0xC2, CHR 0xB0]"

definition arrow_sign :: string where
  "arrow_sign = [CHR 0xE2, CHR 0x80, CHR 0x9A, CHR 0xC3, CHR 0x9C, CHR 0xC3, CHR 0xAD]"

definition clipboard_sign :: string where
  "clipboard_sign = [CHR 0xEF, CHR 0xA3, CHR 0xBF, CHR 0xC3, CHR 0xBC, CHR 0xC3, CHR 0xAC, CHR 0xC3, CHR 0xA3]"

definition inbox_sign :: string where
  "inbox_sign = [CHR 0xEF, CHR 0xA3, CHR 0xBF, CHR 0xC3, CHR 0xBC, CHR 0xC3, CHR 0xAC, CHR 0xE2, CHR 0x80, CHR 0xA2]"

definition magnifier_sign :: string where
  "magnifier_sign = [CHR 0xEF, CHR 0xA3, CHR 0xBF, CHR 0xC3, CHR 0xBC, CHR 0xC3, CHR 0xAE, CHR 0xC3, CHR 0xA7]"

definition numbers_sign :: string where
  "numbers_sign = [CHR 0xEF, CHR 0xA3, CHR 0xBF, CHR 0xC3, CHR 0xBC, CHR 0xC3, CHR 0xAE, CHR 0xC2, CHR 0xA2]"

definition trend_sign :: string where
  "trend_sign = [CHR 0xEF, CHR 0xA3, CHR 0xBF, CHR 0xC3, CHR 0xBC, CHR 0xC3, CHR 0xAC, CHR 0xC3, CHR 0xA0]"

definition target_sign :: string where
  "target_sign = [CHR 0xEF, CHR 0xA3, CHR 0xBF, CHR 0xC3, CHR 0xBC, CHR 0xC3, CHR 0xA9, CHR 0xC3, CHR 0x98]"

definition sparkles_sign :: string where
  "sparkles_sign = [CHR 0xE2, CHR 0x80, CHR 0x9A, CHR 0xC3, CHR 0xBA, CHR 0xC2, CHR 0xAE]"

definition robot_sign :: string where
  "robot_sign = [CHR 0xEF, CHR 0xA3, CHR 0xBF, CHR 0xC3, CHR 0xBC, CHR 0xC2, CHR 0xA7, CHR 0xC3, CHR 0xB1]"

definition he_hello :: string where
  "he_hello = [CHR 0xE2, CHR 0x97, CHR 0x8A, CHR 0xC2, CHR 0xA9, CHR 0xE2, CHR 0x97, CHR 0x8A, CHR 0xC3, CHR 0xBA, CHR 0xE2, CHR 0x97, CHR 0x8A, CHR 0xC3, CHR 0xAF, CHR 0xE2, CHR 0x97, CHR 0x8A, CHR 0xC3, CHR 0xB9]"

definition he_hey :: string where
  "he_hey = [CHR 0xE2, CHR 0x97, CHR 0x8A, CHR 0xC3, CHR 0xAE, CHR 0xE2, CHR 0x97, CHR 0x8A, CHR 0xC3, CHR 0xB4, CHR 0xE2, CHR 0x97, CHR 0x8A, CHR 0xC3, CHR 0xB4]"

definition he_describe :: string where
  "he_describe = [CHR 0xE2, CHR 0x97, CHR 0x8A, CHR 0xE2, CHR 0x84, CHR 0xA2, CHR 0xE2, CHR 0x97, CHR 0x8A, CHR 0xC3, CHR 0xAA, CHR 0xE2, CHR 0x97, CHR 0x8A, CHR 0xC2, CHR 0xAE]"

definition he_fields :: string where
  "he_fields = [CHR 0xE2, CHR 0x97, CHR 0x8A, CHR 0xC2, CHR 0xA9, CHR 0xE2, CHR 0x97, CHR 0x8A, CHR 0xC3, CHR 0xAC, CHR 0xE2, CHR 0x97, CHR 0x8A, CHR 0xC3, CHR 0xAF, CHR 0xE2, CHR 0x97, CHR 0x8A, CHR 0xE2, CHR 0x84, CHR 0xA2]"

definition he_the_object :: string where
  "he_the_object = [CHR 0xE2, CHR 0x97, CHR 0x8A, CHR 0xC3, CHR 0xAE, CHR 0xE2, CHR 0x97, CHR 0x8A, CHR 0xC3, CHR 0xAA, CHR 0xE2, CHR 0x97, CHR 0x8A, CHR 0xC3, CHR 0xAF, CHR 0xE2, CHR 0x97, CHR 0x8A, CHR 0xC3, CHR 0xAB, CHR 0xE2, CHR 0x97, CHR 0x8A, CHR 0xC3, CHR 0xB4, CHR 0xE2, CHR 0x97, CHR 0x8A, CHR 0xC3, CHR 0xB4, CHR 0xE2, CHR 0x97, CHR 0x8A, CHR 0xC3, CHR 0x9F, CHR 0xE2, CHR 0x97, CHR 0x8A, CHR 0xC3, CHR 0xB2]"

definition he_on_it :: string where
  "he_on_it = [CHR 0xE2, CHR 0x97, CHR 0x8A, CHR 0xC2, CHR 0xA2, CHR 0xE2, CHR 0x97, CHR 0x8A, CHR 0xC3, CHR 0xBA, CHR 0xE2, CHR 0x97, CHR 0x8A, CHR 0xC3, CHR 0xB4, CHR 0xE2, CHR 0x97, CHR 0x8A, CHR 0xC3, CHR 0xAF]"

definition he_it :: string where
  "he_it = [CHR 0xE2, CHR 0x97, CHR 0x8A, CHR 0xC3, CHR 0xAA, CHR 0xE2, CHR 0x97, CHR 0x8A, CHR 0xC3, CHR 0xAF, CHR 0xE2, CHR 0x97, CHR 0x8A, CHR 0xE2, CHR 0x84, CHR 0xA2, CHR 0xE2, CHR 0x97, CHR 0x8A, CHR 0xC3, CHR 0xAF]"

definition he_this :: string where
  "he_this = [CHR 0xE2, CHR 0x97, CHR 0x8A, CHR 0xC3, CHR 0xAE, CHR 0xE2, CHR 0x97, CHR 0x8A, CHR 0xC3, CHR 0xB1, CHR 0xE2, CHR 0x97, CHR 0x8A, CHR 0xC3, CHR 0xAE]"

definition he_more_data :: string where
  "he_more_data = ([CHR 0xE2, CHR 0x97, CHR 0x8A, CHR 0xC2, CHR 0xA2, CHR 0xE2, CHR 0x97, CHR 0x8A, CHR 0xC3, CHR 0xAF, CHR 0xE2, CHR 0x97, CHR 0x8A, CHR 0xC3, CHR 0xAC] @ '' '' @ [CHR 0xE2, CHR 0x97, CHR 0x8A, CHR 0xE2, CHR 0x80, CHR 0xA0, CHR 0xE2, CHR 0x97, CHR 0x8A, CHR 0xE2, CHR 0x84, CHR 0xA2, CHR 0xE2, CHR 0x97, CHR 0x8A, CHR 0xC3, CHR 0xAF, CHR 0xE2, CHR 0x97, CHR 0x8A, CHR 0xE2, CHR 0x80, CHR 0xA0, CHR 0xE2, CHR 0x97, CHR 0x8A, CHR 0xC3, CHR 0xB4, CHR 0xE2, CHR 0x97, CHR 0x8A, CHR 0xC3, CHR 0xB9])"

definition he_more_info :: string where
  "he_more_info = ([CHR 0xE2, CHR 0x97, CHR 0x8A, CHR 0xC2, CHR 0xA2, CHR 0xE2, CHR 0x97, CHR 0x8A, CHR 0xC3, CHR 0xAF, CHR 0xE2, CHR 0x97, CHR 0x8A, CHR 0xC3, CHR 0xAC] @ '' '' @ [CHR 0xE2, CHR 0x97, CHR 0x8A, CHR 0xC3, CHR 0xBB, CHR 0xE2, CHR 0x97, CHR 0x8A, CHR 0xC3, CHR 0xB4, CHR 0xE2, CHR 0x97, CHR 0x8A, CHR 0xC3, CHR 0xAC, CHR 0xE2, CHR 0x97, CHR 0x8A, CHR 0xC2, CHR 0xA2])"

definition he_show :: string where
  "he_show = [CHR 0xD7, CHR 0x94, CHR 0xD7, CHR 0xA8, CHR 0xD7, CHR 0x90, CHR 0xD7, CHR 0x94]"

definition he_to_me :: string where
  "he_to_me = [CHR 0xD7, CHR 0x9C, CHR 0xD7, CHR 0x99]"

definition he_accusative :: string where
  "he_accusative = [CHR 0xD7, CHR 0x90, CHR 0xD7, CHR 0xAA]"

definition he_article :: string where
  "he_article = [CHR 0xD7, CHR 0x94]"

definition he_export :: string where
  "he_export = [CHR 0xD7, CHR 0x99, CHR 0xD7, CHR 0x99, CHR 0xD7, CHR 0xA6, CHR 0xD7, CHR 0x90]"

definition he_how_many :: string where
  "he_how_many = [CHR 0xD7, CHR 0x9B, CHR 0xD7, CHR 0x9E, CHR 0xD7, CHR 0x94]"

definition he_details :: string where
  "he_details = [CHR 0xD7, CHR 0xA4, CHR 0xD7, CHR 0xA8, CHR 0xD7, CHR 0x98, CHR 0xD7, CHR 0x99, CHR 0xD7, CHR 0x9D]"

definition he_link :: string where
  "he_link = [CHR 0xD7, CHR 0x9C, CHR 0xD7, CHR 0x99, CHR 0xD7, CHR 0xA0, CHR 0xD7, CHR 0xA7]"

section \<open>Types of the chat handler\<close>

record AttributeMetadata =
  apiName :: string
  displayName :: string
  dataType :: string
  isRequired :: bool
  isReadOnly :: bool
  isLookup :: bool
  lookupType :: "string option"

record ObjectMetadata =
  resourceName :: string
  om_label :: string
  pluralLabel :: string
  isCustom :: bool
  attributes :: "AttributeMetadata list"

record CustomObject =
  co_label :: string
  co_resourceName :: string

record Capabilities =
  hasProjects :: bool
  hasTasks :: bool
  hasResources :: bool
  hasCustomObjects :: bool

record Suggestion =
  s_text :: string
  s_emoji :: string
  s_action :: string
  s_priority :: int

text \<open>What a call of the object API answers, read as the handler's casts read it.\<close>

record ApiResponse =
  results :: "row list option"
  totalCount :: "int option"
  internalId :: fieldval

record APIPlan =
  a_action :: string
  a_objectType :: string
  a_method :: string
  a_endpoint :: string
  a_queryParams :: "(string \<times> string) list option"
  a_body :: "row option"
  a_groupByField :: "string option"
  a_filterField :: "string option"
  a_filterValue :: "string option"
  a_explanation :: string

record FieldInfo =
  f_displayName :: string
  f_dataType :: string

record ChartData =
  groupableFields :: "string list"
  chartData :: "(string \<times> ChartItem list) list"
  fieldMetadata :: "(string \<times> FieldInfo) list"
  chartType :: "string option"
  drillDownEnabled :: "bool option"
  c_objectType :: "string option"
  c_groupByField :: "string option"

record Debug =
  aiPlan :: string
  apiCalls :: "string list"
  debugContext :: string

record AIResponse =
  success :: bool
  reply :: string
  r_chartData :: "ChartData option"
  r_timestamp :: int
  suggestions :: "(string \<times> string) list option"
  deepLink :: "string option"
  debug :: "Debug option"

text \<open>What \<open>executePlan\<close> and the executors return: a response yet without timestamp.\<close>

record ExecResult =
  e_success :: bool
  e_reply :: string
  e_chartData :: "ChartData option"

text \<open>A content block of the reasoning service's answer.\<close>

datatype AiContent = TextBlock string | OtherBlock

text \<open>
  The request \<open>getAIPlan\<close> sends to the reasoning service: the system prompt is a fixed
  template, carried here as the values that fill it, and the user's message.
\<close>

record PlanPrompt =
  pp_contextSummary :: string
  pp_objectLabel :: string
  pp_objectType :: string
  pp_resolvedFieldHint :: string
  pp_foundFieldApiName :: string
  pp_objectList :: string
  pp_customObjectList :: string
  pp_groupableList :: string
  pp_allFieldMappings :: string
  pp_userMessage :: string

section \<open>The handler's environment\<close>

text \<open>
  The handler embeds \<open>ContextService\<close> and calls the object API through
  \<open>ClarityApiClient\<close>. Its other collaborators are parameters: the reasoning service,
  \<open>JSON.parse\<close>, the clock, \<open>MetadataService\<close>, \<open>DeepLinkService\<close> (whose filtered links
  go through \<open>encodeURIComponent\<close> and may throw), \<open>SuggestionService\<close>, the tool
  registry's capabilities, and the \<open>toFixed(1)\<close> text of a percentage. Each works in the
  world \<open>'w\<close> where it is asynchronous or reads mutable state.
\<close>

record 'w env = "('w, ApiResponse) transport" +
  client :: ClarityApiClient
  reason :: "PlanPrompt \<Rightarrow> 'w \<Rightarrow> (error + AiContent list) \<times> 'w"
  parsePlan :: "string \<Rightarrow> error + APIPlan"
  clock :: "'w \<Rightarrow> int"
  discoverAllObjects :: "'w \<Rightarrow> string list \<times> 'w"
  getCustomObjects :: "'w \<Rightarrow> CustomObject list \<times> 'w"
  fetchObjectMetadata :: "string \<Rightarrow> 'w \<Rightarrow> (error + ObjectMetadata) \<times> 'w"
  getObjectLabel :: "string \<Rightarrow> 'w \<Rightarrow> string \<times> 'w"
  getGroupableFields :: "ObjectMetadata \<Rightarrow> AttributeMetadata list"
  getCapabilities :: "'w \<Rightarrow> Capabilities"
  generateSuggestions :: "ConversationContext \<Rightarrow> string \<Rightarrow> Suggestion list"
  generateListLink :: "string \<Rightarrow> string"
  generateRecordLink :: "string \<Rightarrow> fieldval \<Rightarrow> string \<Rightarrow> string"
  generateFilteredLink :: "string \<Rightarrow> string \<Rightarrow> string \<Rightarrow> error + string"
  generateMultiFilterLink :: "string \<Rightarrow> (string \<times> string) list \<Rightarrow> error + string"
  percentText :: "nat \<Rightarrow> nat \<Rightarrow> string"

text \<open>
  The handler's state: the world and the log of remote calls, the context store, and the
  handler's two caches.
\<close>

record 'w handler = "'w run" +
  contextService :: contexts
  discoveredObjects :: "string list"
  metadataCache :: "string \<rightharpoonup> ObjectMetadata"

section \<open>Steps that may throw\<close>

type_synonym ('a, 'w) prog = "'w handler \<Rightarrow> (error + 'a) \<times> 'w handler"

definition ret :: "'a \<Rightarrow> ('a, 'w) prog" where
  "ret x = (\<lambda>s. (Inr x, s))"

definition throw :: "error \<Rightarrow> ('a, 'w) prog" where
  "throw e = (\<lambda>s. (Inl e, s))"

definition bind :: "('a, 'w) prog \<Rightarrow> ('a \<Rightarrow> ('b, 'w) prog) \<Rightarrow> ('b, 'w) prog" where
  "bind m f = (\<lambda>s. case m s of (Inl e, s') \<Rightarrow> (Inl e, s') | (Inr x, s') \<Rightarrow> f x s')"

text \<open>\<open>try { m } catch (error) { h error }\<close>: the handler runs in the state the throw left.\<close>

definition try_catch :: "('a, 'w) prog \<Rightarrow> (error \<Rightarrow> ('a, 'w) prog) \<Rightarrow> ('a, 'w) prog" where
  "try_catch m h = (\<lambda>s. case m s of (Inl e, s') \<Rightarrow> h e s' | (Inr x, s') \<Rightarrow> (Inr x, s'))"

definition of_result :: "error + 'a \<Rightarrow> ('a, 'w) prog" where
  "of_result r = (\<lambda>s. (r, s))"

definition in_world :: "('w \<Rightarrow> 'a \<times> 'w) \<Rightarrow> ('a, 'w) prog" where
  "in_world f = (\<lambda>s. case f (world s) of (x, w') \<Rightarrow> (Inr x, s\<lparr>world := w'\<rparr>))"

definition in_world_throwing :: "('w \<Rightarrow> (error + 'a) \<times> 'w) \<Rightarrow> ('a, 'w) prog" where
  "in_world_throwing f = (\<lambda>s. case f (world s) of (r, w') \<Rightarrow> (r, s\<lparr>world := w'\<rparr>))"

definition read_world :: "('w \<Rightarrow> 'a) \<Rightarrow> ('a, 'w) prog" where
  "read_world f = (\<lambda>s. (Inr (f (world s)), s))"

definition with_contexts :: "(contexts \<Rightarrow> 'a \<times> contexts) \<Rightarrow> ('a, 'w) prog" where
  "with_contexts f =
     (\<lambda>s. case f (contextService s) of (x, cs') \<Rightarrow> (Inr x, s\<lparr>contextService := cs'\<rparr>))"

definition update_contexts :: "(contexts \<Rightarrow> contexts) \<Rightarrow> (unit, 'w) prog" where
  "update_contexts f = (\<lambda>s. (Inr (), s\<lparr>contextService := f (contextService s)\<rparr>))"

definition log_event :: "event \<Rightarrow> (unit, 'w) prog" where
  "log_event e = (\<lambda>s. (Inr (), s\<lparr>trace := trace s @ [e]\<rparr>))"

subsection \<open>The client's verbs\<close>

definition client_get :: "'w env \<Rightarrow> string \<Rightarrow> (ApiResponse, 'w) prog" where
  "client_get env endpoint = request env (client env) ''GET'' endpoint None"

definition client_post :: "'w env \<Rightarrow> string \<Rightarrow> row \<Rightarrow> (ApiResponse, 'w) prog" where
  "client_post env endpoint body = request env (client env) ''POST'' endpoint (Some body)"

definition client_patch :: "'w env \<Rightarrow> string \<Rightarrow> row \<Rightarrow> (ApiResponse, 'w) prog" where
  "client_patch env endpoint body = request env (client env) ''PATCH'' endpoint (Some body)"

definition client_delete :: "'w env \<Rightarrow> string \<Rightarrow> (ApiResponse, 'w) prog" where
  "client_delete env endpoint = request env (client env) ''DELETE'' endpoint None"

text \<open>\<open>anthropic.messages.create\<close>, logged as a call of the reasoning service.\<close>

definition messages_create :: "'w env \<Rightarrow> PlanPrompt \<Rightarrow> (AiContent list, 'w) prog" where
  "messages_create env prompt =
     bind (log_event (Reasoning (pp_userMessage prompt)))
       (\<lambda>_. in_world_throwing (reason env prompt))"

section \<open>Patterns of the handler\<close>

definition ws :: rx where
  "ws = Chr is_space"

definition wordc :: rx where
  "wordc = Chr is_word_char"

definition digit :: rx where
  "digit = Chr is_digit"

text \<open>\<open>[\s\S]\<close>: any character at all.\<close>

definition anychar :: rx where
  "anychar = Chr (\<lambda>c. True)"

text \<open>\<open>.\<close>: any character but a line terminator.\<close>

definition dot :: rx where
  "dot = Chr (\<lambda>c. c \<noteq> CHR 0x0A \<and> c \<noteq> CHR 0x0D)"

text \<open>\<open>["']\<close> and \<open>[^"']\<close>.\<close>

definition is_quote :: "char \<Rightarrow> bool" where
  "is_quote c = (c = CHR 0x22 \<or> c = CHR 0x27)"

definition quote :: rx where
  "quote = Chr is_quote"

definition nonquote :: rx where
  "nonquote = Chr (\<lambda>c. \<not> is_quote c)"

text \<open>A literal of a pattern without the \<open>i\<close> flag.\<close>

fun LitC :: "string \<Rightarrow> rx" where
  "LitC [] = Eps"
| "LitC [x] = Chr (\<lambda>c. c = x)"
| "LitC (x # xs) = Seq (Chr (\<lambda>c. c = x)) (LitC xs)"

text \<open>\<open>/^(hi|hello|hey|help|...|...)[\s!.?]*$/i\<close>\<close>

definition greetingPattern :: rx where
  "greetingPattern =
     Seqs [Bol, Grp 1 (Alts (map Lit [''hi'', ''hello'', ''hey'', ''help'', he_hello, he_hey])),
           Star (Chr (\<lambda>c. is_space c \<or> c \<in> set ''!.?'')), Eol]"

definition objectWord :: rx where
  "objectWord =
     Alts (map Lit [''projects'', ''tasks'', ''resources'', ''ideas'', ''risks'', ''issues'',
                    ''timesheets''])"

text \<open>\<open>/link\s+(?:to\s+)?(?:all\s+)?(projects|tasks|resources|ideas|risks|issues|timesheets)\b/i\<close>\<close>

definition linkAllPattern :: rx where
  "linkAllPattern =
     Seqs [Lit ''link'', Plus ws, Opt (Seq (Lit ''to'') (Plus ws)), Opt (Seq (Lit ''all'') (Plus ws)),
           Grp 1 objectWord, WordB]"

text \<open>\<open>/link\s+(?:to\s+)(?:project\s+)?["']?(.+?)["']?(?:\s+project)?$/i\<close>\<close>

definition linkToPattern :: rx where
  "linkToPattern =
     Seqs [Lit ''link'', Plus ws, Seq (Lit ''to'') (Plus ws), Opt (Seq (Lit ''project'') (Plus ws)),
           Opt quote, Grp 1 (LazyPlus dot), Opt quote, Opt (Seq (Plus ws) (Lit ''project'')), Eol]"

text \<open>\<open>/\s*projects?\s*$/i\<close>\<close>

definition trailingProjectPattern :: rx where
  "trailingProjectPattern = Seqs [Star ws, Lit ''project'', Opt (Lit ''s''), Star ws, Eol]"

text \<open>\<open>/\d+/\<close> and \<open>/(\d+)/\<close>\<close>

definition digitsPattern :: rx where
  "digitsPattern = Grp 1 (Plus digit)"

text \<open>\<open>/\{[\s\S]*\}/\<close>\<close>

definition jsonPattern :: rx where
  "jsonPattern = Seqs [LitC ''{'', Star anychar, LitC ''}'']"

text \<open>\<open>/limit=\d+/\<close>\<close>

definition limitPattern :: rx where
  "limitPattern = Seq (LitC ''limit='') (Plus digit)"

text \<open>\<open>/\/projects\/\d+/\<close>, \<open>/\/projects\/[^/]+\//\<close> and \<open>/^\/cust|^\/oba/\<close>\<close>

definition projectsIdPattern :: rx where
  "projectsIdPattern = Seq (LitC ''/projects/'') (Plus digit)"

definition projectsSegmentPattern :: rx where
  "projectsSegmentPattern =
     Seqs [LitC ''/projects/'', Plus (Chr (\<lambda>c. c \<noteq> CHR ''/'')), LitC ''/'']"

definition customEndpointPattern :: rx where
  "customEndpointPattern = Alt (Seq Bol (LitC ''/cust'')) (Seq Bol (LitC ''/oba''))"

text \<open>\<open>/(?:in|for|of|under)\s+(?:project\s+)?["']?([a-zA-Z0-9_-]+)["']?/i\<close>\<close>

definition projectNamePattern :: rx where
  "projectNamePattern =
     Seqs [Alts (map Lit [''in'', ''for'', ''of'', ''under'']), Plus ws,
           Opt (Seq (Lit ''project'') (Plus ws)), Opt quote,
           Grp 1 (Plus (Chr (\<lambda>c. is_word_char c \<or> c = CHR ''-''))), Opt quote]"

text \<open>\<open>/(?:named?|called|project|task|record)\s+["']?([^"']+?)["']?(?:\s+set|\s+to|$)/i\<close>\<close>

definition recordNamePattern :: rx where
  "recordNamePattern =
     Seqs [Alts [Seq (Lit ''name'') (Opt (Lit ''d'')), Lit ''called'', Lit ''project'', Lit ''task'',
                 Lit ''record''],
           Plus ws, Opt quote, Grp 1 (LazyPlus nonquote), Opt quote,
           Alts [Seq (Plus ws) (Lit ''set''), Seq (Plus ws) (Lit ''to''), Eol]]"

text \<open>\<open>/(?:named?|called)\s+["']?([^"']+?)["']?(?:\s+in|\s+for|$)/i\<close>\<close>

definition createNamePattern :: rx where
  "createNamePattern =
     Seqs [Alts [Seq (Lit ''name'') (Opt (Lit ''d'')), Lit ''called''],
           Plus ws, Opt quote, Grp 1 (LazyPlus nonquote), Opt quote,
           Alts [Seq (Plus ws) (Lit ''in''), Seq (Plus ws) (Lit ''for''), Eol]]"

subsection \<open>The follow-up patterns\<close>

text \<open>\<open>FOLLOW_UP_PATTERNS\<close>, each intent with its patterns in the order of the source.\<close>

definition FOLLOW_UP_PATTERNS :: "(string \<times> rx list) list" where
  "FOLLOW_UP_PATTERNS =
     [(''showSelected'',
        [Seqs [Lit ''show'', Star ws, Opt (Grp 1 (Seq (Lit ''me'') (Star ws))),
               Opt (Grp 2 (Seq (Lit ''the'') (Star ws))), Grp 3 (Plus wordc), Star ws,
               Lit ''one'', Opt (Lit ''s'')],
         Seqs [Lit ''list'', Star ws, Opt (Grp 1 (Seq (Lit ''the'') (Star ws))), Grp 2 (Plus wordc),
               Star ws, Lit ''one'', Opt (Lit ''s'')],
         Seqs [Lit ''get'', Star ws, Opt (Grp 1 (Seq (Lit ''me'') (Star ws))),
               Opt (Grp 2 (Seq (Lit ''the'') (Star ws))), Grp 3 (Plus wordc)],
         Seqs [Lit ''which'', Star ws, Opt (Grp 1 (Seqs [Lit ''one'', Opt (Lit ''s''), Star ws])),
               Opt (Grp 2 (Seq (Lit ''are'') (Star ws))), Grp 3 (Plus wordc)],
         Seqs [Lit he_show, Star ws, Opt (Grp 1 (Seq (Lit he_to_me) (Star ws))),
               Opt (Grp 2 (Seq (Lit he_accusative) (Star ws))), Opt (Grp 3 (Lit he_article)),
               Grp 4 (Plus wordc)]]),
      (''export'',
        [Seqs [Lit ''export'', Star ws,
               Opt (Grp 1 (Alts (map Lit [''them'', ''this'', ''these'', ''it'']))),
               Opt (Grp 2 (Seqs [Star ws, Lit ''to'', Star ws, Lit ''excel'']))],
         Lit ''download'',
         Lit he_export]),
      (''count'',
        [Seqs [Lit ''how'', Star ws, Lit ''many'', Star ws,
               Opt (Grp 1 (Alt (Lit ''total'') (Seqs [Lit ''are'', Star ws, Lit ''there''])))],
         Seqs [Lit ''count'', Star ws, Opt (Grp 1 (Alt (Lit ''them'') (Lit ''all'')))],
         Lit he_how_many]),
      (''details'',
        [Seqs [Lit ''tell'', Star ws, Lit ''me'', Star ws, Lit ''more''],
         Seqs [Lit ''more'', Star ws, Lit ''detail'', Opt (Lit ''s'')],
         Lit ''expand'',
         Lit he_details]),
      (''filter'',
        [Seqs [Lit ''filter'', Star ws, Grp 1 (Alt (Lit ''by'') (Lit ''where''))],
         Seqs [Lit ''only'', Star ws, Opt (Grp 1 (Seq (Lit ''show'') (Star ws))),
               Opt (Grp 2 (Seq (Lit ''the'') (Star ws)))],
         Seqs [Lit ''where'', Plus ws, Grp 1 (Plus wordc), Star ws,
               Grp 2 (Alts (map Lit [''is'', ''='', ''equals'']))]]),
      (''link'',
        [Seqs [Lit ''link'', Star ws, Opt (Grp 1 (Seq (Lit ''to'') (Star ws))),
               Opt (Grp 2 (Alts (map Lit [''this'', ''them'', ''it''])))],
         Seqs [Lit ''open'', Star ws, Opt (Grp 1 (Seq (Lit ''in'') (Star ws))), Lit ''clarity''],
         Lit ''url'',
         Lit he_link])]"

record FollowUp =
  fu_type :: "string option"
  fu_extractedValue :: "string option"

text \<open>\<open>a || b\<close> on strings that may be undefined.\<close>

definition or_else :: "string option \<Rightarrow> string option \<Rightarrow> string option" where
  "or_else a b = (if truthy a then a else b)"

definition detectFollowUpIntent :: "string \<Rightarrow> FollowUp" where
  "detectFollowUpIntent message =
     (let lowerMessage = toLowerCase message;
          candidates = concat (map (\<lambda>(intentType, patterns). map (Pair intentType) patterns)
                                   FOLLOW_UP_PATTERNS)
      in case find (\<lambda>(intentType, pattern). rx_test pattern lowerMessage) candidates of
           Some (intentType, pattern) \<Rightarrow>
             (let m = the (rx_match pattern lowerMessage);
                  extractedValue = or_else (group m 3) (or_else (group m 2) (group m 1))
              in \<lparr>fu_type = Some intentType, fu_extractedValue = map_option trim extractedValue\<rparr>)
         | None \<Rightarrow> \<lparr>fu_type = None, fu_extractedValue = None\<rparr>)"

section \<open>Helper methods of the handler\<close>

definition toUpperCase_char :: "char \<Rightarrow> char" where
  "toUpperCase_char c =
     (case map_of (zip ''abcdefghijklmnopqrstuvwxyz'' ''ABCDEFGHIJKLMNOPQRSTUVWXYZ'') c of
        Some d \<Rightarrow> d
      | None \<Rightarrow> c)"

text \<open>\<open>s.charAt(0).toUpperCase() + s.slice(1)\<close>\<close>

definition capitalize :: "string \<Rightarrow> string" where
  "capitalize s = (case s of [] \<Rightarrow> [] | c # cs \<Rightarrow> toUpperCase_char c # cs)"

text \<open>\<open>s.replace(t, r)\<close> for a string \<open>t\<close>: the first occurrence.\<close>

fun replace_first :: "string \<Rightarrow> string \<Rightarrow> string \<Rightarrow> string" where
  "replace_first t r [] = (if t = [] then r else [])"
| "replace_first t r (c # cs) =
     (if prefix t (c # cs) then r @ drop (length t) (c # cs) else c # replace_first t r cs)"

text \<open>\<open>parseInt\<close> of a run of digits.\<close>

definition digit_value :: "char \<Rightarrow> nat" where
  "digit_value c = length (takeWhile (\<lambda>d. d \<noteq> c) ''0123456789'')"

definition parseInt :: "string \<Rightarrow> nat" where
  "parseInt ds = foldl (\<lambda>n c. 10 * n + digit_value c) 0 ds"

definition is_alnum :: "char \<Rightarrow> bool" where
  "is_alnum c = (is_word_char c \<and> c \<noteq> CHR ''_'')"

text \<open>\<open>body[key] = v\<close> on an object: a present key keeps its place, a new one goes last.\<close>

definition set_field :: "row \<Rightarrow> string \<Rightarrow> fieldval \<Rightarrow> row" where
  "set_field r k v =
     (if k \<in> fst ` set r then map (\<lambda>(k', v'). if k' = k then (k', v) else (k', v')) r
      else r @ [(k, v)])"

fun formatFieldValue :: "fieldval \<Rightarrow> string" where
  "formatFieldValue VUndefined = []"
| "formatFieldValue VNull = []"
| "formatFieldValue (VObj d c j s) =
     (case d of Some x \<Rightarrow> x | None \<Rightarrow> (case c of Some y \<Rightarrow> y | None \<Rightarrow> j))"
| "formatFieldValue v = js_String v"

definition extractProjectName :: "string \<Rightarrow> string option" where
  "extractProjectName message =
     (case rx_match projectNamePattern message of Some m \<Rightarrow> group m 1 | None \<Rightarrow> None)"

definition extractRecordName :: "string \<Rightarrow> string option" where
  "extractRecordName message =
     (case rx_match recordNamePattern message of
        Some m \<Rightarrow> map_option trim (group m 1)
      | None \<Rightarrow> None)"

definition respond :: "bool \<Rightarrow> string \<Rightarrow> int \<Rightarrow> AIResponse" where
  "respond ok text' timestamp =
     \<lparr>success = ok, reply = text', r_chartData = None, r_timestamp = timestamp,
      suggestions = None, deepLink = None, debug = None\<rparr>"

definition answer :: "bool \<Rightarrow> string \<Rightarrow> ExecResult" where
  "answer ok text' = \<lparr>e_success = ok, e_reply = text', e_chartData = None\<rparr>"

definition results_of :: "ApiResponse \<Rightarrow> row list" where
  "results_of response = (case results response of Some rs \<Rightarrow> rs | None \<Rightarrow> [])"

definition totalCount_of :: "ApiResponse \<Rightarrow> int" where
  "totalCount_of response =
     (case totalCount response of Some n \<Rightarrow> n | None \<Rightarrow> int (length (results_of response)))"

text \<open>One line of a listing, and the listing of the first 15 rows with its tail.\<close>

definition recordLine :: "row \<Rightarrow> string" where
  "recordLine r =
     (let name = coalesce (field r ''name'') (coalesce (field r ''code'') (field r ''_internalId''));
          status = formatFieldValue (field r ''status'')
      in (bullet @ '' **'') @ js_String name @ ''**''
         @ (if status \<noteq> [] then '' ('' @ status @ '')'' else []) @ newline)"

definition recordListing :: "row list \<Rightarrow> int \<Rightarrow> string" where
  "recordListing records n =
     concat (map recordLine (take 15 records))
     @ (if n > 15 then (newline @ ''_...and '') @ show_int (n - 15) @ '' more_'' else [])"

record FoundRecord =
  fr_internalId :: fieldval
  fr_name :: fieldval
  fr_code :: fieldval

definition findRecord :: "'w env \<Rightarrow> string \<Rightarrow> string \<Rightarrow> (FoundRecord option, 'w) prog" where
  "findRecord env objectType nameOrCode =
     try_catch
       (bind (client_get env
                (''/'' @ objectType @ (''?filter=((code = '' @ sq) @ nameOrCode @ (sq @ '') or (name = '' @ sq)
                 @ nameOrCode @ (sq @ ''))&fields=_internalId,name&limit=1'')))
          (\<lambda>response.
             case results_of response of
               [] \<Rightarrow> ret None
             | r # _ \<Rightarrow> ret (Some \<lparr>fr_internalId = field r ''_internalId'', fr_name = field r ''name'',
                                    fr_code = VUndefined\<rparr>)))
       (\<lambda>error. ret None)"

definition findRecordByName :: "'w env \<Rightarrow> string \<Rightarrow> string \<Rightarrow> (FoundRecord option, 'w) prog" where
  "findRecordByName env objectType nameOrCode =
     try_catch
       (let escapedName = concat (map (\<lambda>c. if c = CHR 0x27 then sq @ sq else [c]) nameOrCode) in
        bind (client_get env
                (''/'' @ objectType @ (''?filter=((code = '' @ sq) @ escapedName
                 @ (sq @ ''))&fields=_internalId,name,code&limit=1'')))
          (\<lambda>response.
             bind (if results_of response = []
                   then bind (client_get env
                                (''/'' @ objectType @ (''?filter=((name contains '' @ sq) @ escapedName
                                 @ (sq @ ''))&fields=_internalId,name,code&limit=1'')))
                          (\<lambda>response'. ret (results_of response'))
                   else ret (results_of response))
               (\<lambda>records.
                  case records of
                    [] \<Rightarrow> ret None
                  | r # _ \<Rightarrow> ret (Some \<lparr>fr_internalId = field r ''_internalId'',
                                         fr_name = field r ''name'', fr_code = field r ''code''\<rparr>))))
       (\<lambda>error. ret None)"

section \<open>The context summary\<close>

definition contextSummaryOf :: "ConversationContext \<Rightarrow> string" where
  "contextSummaryOf c =
     (let queryParts =
            (case lastQuery c of
               None \<Rightarrow> []
             | Some q \<Rightarrow>
                 [''Last query: '' @ q_action q @ '' on '' @ q_objectLabel q]
                 @ (if truthy (q_groupByField q)
                    then [''Grouped by: ''
                          @ (if truthy (q_groupByDisplayName q) then the (q_groupByDisplayName q)
                             else the (q_groupByField q))]
                         @ (if length (drillDownOptionsOf c) > 0
                            then [''Available values: '' @ join '', '' (take 10 (drillDownOptionsOf c))]
                            else [])
                    else [])
                 @ (case q_totalCount q of
                      Some n \<Rightarrow> if n \<noteq> 0 then [''Total records: '' @ show_int n] else []
                    | None \<Rightarrow> []));
          pageParts =
            (case currentPage c of
               None \<Rightarrow> []
             | Some p \<Rightarrow>
                 [''Current page: '' @ p_objectType p
                  @ (if truthy (p_recordName p) then '' - '' @ the (p_recordName p) else [])]);
          recentUserMessages =
            map t_message (slice_last 3 (filter (\<lambda>t. t_role t = User) (history c)));
          historyParts =
            (if length (history c) > 0 \<and> length recentUserMessages > 0
             then [''Recent questions: '' @ join '' | '' recentUserMessages] else [])
      in join newline (queryParts @ pageParts @ historyParts))"

definition getContextSummary :: "string \<Rightarrow> contexts \<Rightarrow> string \<times> contexts" where
  "getContextSummary sid cs = (case getContext sid cs of (c, cs') \<Rightarrow> (contextSummaryOf c, cs'))"

section \<open>AIChatHandler\<close>

subsection \<open>Error response\<close>

definition getErrorResponse :: "error \<Rightarrow> int \<Rightarrow> AIResponse" where
  "getErrorResponse errorMessage timestamp =
     (let (tips, hint) =
            (if str_includes errorMessage ''404'' \<or> str_includes errorMessage ''not found''
             then ([''List all available objects'', ''Show custom objects'', ''Describe projects''],
                   ''The object or field might not exist.'')
             else if str_includes errorMessage ''401'' \<or> str_includes errorMessage ''403''
                     \<or> str_includes errorMessage ''auth''
             then ([''Check API credentials'', ''Verify permissions''],
                   ''There might be an authentication or permission issue.'')
             else if str_includes errorMessage ''timeout'' \<or> str_includes errorMessage ''ECONNREFUSED''
             then ([''Try again in a moment'', ''Check Clarity server status''],
                   ''The Clarity server might be temporarily unavailable.'')
             else ([''Try a simpler query'', ''List projects'', ''Show custom objects''], []))
      in respond False
           ((cross @ '' **Something went wrong**'' @ newline @ newline)
            @ hint @ (newline @ newline)
            @ ''**Error:** '' @ take 200 errorMessage @ (newline @ newline)
            @ (bulb_sign @ '' **Try instead:**'' @ newline)
            @ join newline (map (\<lambda>tip. (bullet @ '' '' @ dq) @ tip @ dq) tips))
           timestamp)"

subsection \<open>Count follow-up\<close>

definition handleCountFollowUp :: "string \<Rightarrow> int \<Rightarrow> (AIResponse, 'w) prog" where
  "handleCountFollowUp sid timestamp =
     bind (with_contexts (getContext sid))
       (\<lambda>c. ret
          (case lastQuery c of
             None \<Rightarrow>
               respond False
                 (question_sign @ '' I don'' @ sq @ ''t have a count from a previous query. Please run a query first.'')
                 timestamp
           | Some q \<Rightarrow>
               (case q_totalCount q of
                  Some n \<Rightarrow>
                    respond True
                      ((numbers_sign @ '' **Total: '') @ show_int n @ '' '' @ q_objectLabel q @ ''**'') timestamp
                | None \<Rightarrow>
                    respond False
                      (question_sign @ '' I don'' @ sq @ ''t have a count from a previous query. Please run a query first.'')
                      timestamp)))"

subsection \<open>Drill-down\<close>

definition noMatchReply :: "string list \<Rightarrow> string" where
  "noMatchReply options =
     (question_sign @ '' I couldn'' @ sq @ ''t determine which value you want to see.'' @ newline @ newline @ ''**Available options from the last chart:**'' @ newline)
     @ join newline (map (\<lambda>opt. (bullet @ '' '' @ dq) @ opt @ dq) options)
     @ (newline @ newline @ ''Please specify one of these values.'')"

definition drillDownEndpoint :: "string \<Rightarrow> string \<Rightarrow> string \<Rightarrow> string" where
  "drillDownEndpoint objectType groupByField filterValue =
     ''/'' @ objectType @ ''?filter=(('' @ groupByField @ ('' = '' @ sq) @ filterValue
     @ (sq @ ''))&fields=_internalId,name,code,status&limit=50'')"

text \<open>The \<open>try\<close> block of \<open>handleDrillDown\<close>, entered once a label is matched.\<close>

definition drillDownInto ::
  "'w env \<Rightarrow> string \<Rightarrow> LastQuery \<Rightarrow> string \<Rightarrow> int \<Rightarrow> (AIResponse option, 'w) prog" where
  "drillDownInto env sid q matchedValue timestamp =
     (let objectType = q_objectType q;
          objectLabel = q_objectLabel q;
          groupByField = the (q_groupByField q);
          groupByDisplayName = (if truthy (q_groupByDisplayName q) then the (q_groupByDisplayName q)
                                else groupByField)
      in try_catch
           (bind (client_get env (drillDownEndpoint objectType groupByField matchedValue))
              (\<lambda>response.
                 let records = results_of response;
                     n = totalCount_of response
                 in bind (of_result (generateFilteredLink env objectType groupByField matchedValue))
                      (\<lambda>link.
                         bind (read_world (clock env))
                           (\<lambda>now.
                              bind (update_contexts
                                      (updateLastQuery sid
                                         (Some \<lparr>q_objectType = objectType, q_objectLabel = objectLabel,
                                                 q_action = ''drilldown'',
                                                 q_filters = Some [(groupByField, matchedValue)],
                                                 q_results = Some records, q_totalCount = Some n,
                                                 q_groupByField = None, q_groupByDisplayName = None,
                                                 q_chartData = None, q_timestamp = now\<rparr>)))
                                (\<lambda>_. ret (Some ((respond True
                                                     ((magnifier_sign @ '' **'') @ objectLabel @ '' where ''
                                                      @ groupByDisplayName @ ('' = '' @ dq) @ matchedValue
                                                      @ (dq @ ''**'' @ newline)
                                                      @ ''Found **'' @ show_int n @ (''** records'' @ newline @ newline)
                                                      @ recordListing records n
                                                      @ (newline @ newline @ link_sign @ '' [Open in Clarity]('') @ link @ '')'')
                                                     timestamp)
                                                  \<lparr>deepLink := Some link\<rparr>)))))))
           (\<lambda>error.
              ret (Some (respond False
                           ((cross @ '' Could not retrieve '') @ objectLabel @ '' where '' @ groupByDisplayName
                            @ ('' = '' @ dq) @ matchedValue @ (dq @ ''.'' @ newline @ newline @ ''Error: '') @ error)
                           timestamp))))"

definition handleDrillDown ::
  "'w env \<Rightarrow> string \<Rightarrow> string option \<Rightarrow> string \<Rightarrow> int \<Rightarrow> (AIResponse option, 'w) prog" where
  "handleDrillDown env sid extractedValue originalMessage timestamp =
     bind (with_contexts (getContext sid))
       (\<lambda>c.
          case lastQuery c of
            None \<Rightarrow> ret None
          | Some q \<Rightarrow>
              if \<not> truthy (q_groupByField q) \<or> q_objectType q = [] then ret None
              else
                bind (if truthy extractedValue
                      then with_contexts (findDrillDownMatch sid (the extractedValue))
                      else ret None)
                  (\<lambda>firstMatch.
                     bind (if \<not> truthy firstMatch
                           then bind (with_contexts (getDrillDownOptions sid))
                                  (\<lambda>availableOptions.
                                     ret (find (\<lambda>opt. str_includes (toLowerCase originalMessage)
                                                          (toLowerCase opt))
                                               availableOptions))
                           else ret firstMatch)
                       (\<lambda>matchedValue.
                          if \<not> truthy matchedValue
                          then bind (with_contexts (getDrillDownOptions sid))
                                 (\<lambda>options. ret (Some (respond False (noMatchReply options) timestamp)))
                          else drillDownInto env sid q (the matchedValue) timestamp)))"

subsection \<open>Link requests\<close>

definition linkUsageReply :: string where
  "linkUsageReply =
     (question_sign @ '' I need to know what to link to.'' @ newline @ newline @ ''Try:'' @ newline @ bullet @ '' '' @ dq @ ''Give me link to all projects'' @ dq @ newline @ bullet @ '' '' @ dq @ ''Give me link to project [name]'' @ dq @ newline @ bullet @ '' '' @ dq @ ''Give me link to custom objects'' @ dq)"

definition generateContextLink :: "'w env \<Rightarrow> ConversationContext \<Rightarrow> int \<Rightarrow> error + AIResponse" where
  "generateContextLink env c timestamp =
     (case lastQuery c of
        None \<Rightarrow> Inr (respond False linkUsageReply timestamp)
      | Some q \<Rightarrow>
          if q_objectType q = [] then Inr (respond False linkUsageReply timestamp)
          else
            (let described =
                   (case q_filters q of
                      Some (f # fs) \<Rightarrow>
                        (case generateMultiFilterLink env (q_objectType q) (f # fs) of
                           Inl e \<Rightarrow> Inl e
                         | Inr link \<Rightarrow>
                             Inr (link,
                                  q_objectLabel q @ '' filtered by ''
                                  @ join '', '' (map (\<lambda>(k, v). k @ ''='' @ dq @ v @ dq) (f # fs))))
                    | _ \<Rightarrow> Inr (generateListLink env (q_objectType q), ''All '' @ q_objectLabel q))
             in case described of
                  Inl e \<Rightarrow> Inl e
                | Inr (link, linkDescription) \<Rightarrow>
                    Inr ((respond True
                            ((link_sign @ '' **Link to Clarity**'' @ newline @ newline) @ linkDescription @ ('':'' @ newline) @ link)
                            timestamp)
                         \<lparr>deepLink := Some link\<rparr>)))"

definition genericWords :: "string list" where
  "genericWords = [''this'', ''them'', ''it'', ''all'', ''the'', ''that'']"

text \<open>
  Pattern 3 of \<open>handleLinkRequest\<close>: a response when the pattern names something to look
  up, \<open>None\<close> when the caller falls back to the last query.
\<close>

definition linkToNamed :: "'w env \<Rightarrow> string \<Rightarrow> int \<Rightarrow> (AIResponse option, 'w) prog" where
  "linkToNamed env msg timestamp =
     (case rx_match linkToPattern msg of
        None \<Rightarrow> ret None
      | Some m \<Rightarrow>
          (let captured = trim (case group m 1 of Some g \<Rightarrow> g | None \<Rightarrow> []);
               recordName = trim (rx_replace trailingProjectPattern (\<lambda>_. []) captured)
           in if recordName \<noteq> [] \<and> recordName \<notin> set genericWords then
                bind (in_world (getCustomObjects env))
                  (\<lambda>customObjects.
                     case find (\<lambda>obj. str_includes (toLowerCase (co_label obj)) recordName
                                     \<or> str_includes (toLowerCase (co_resourceName obj)) recordName)
                               customObjects of
                       Some customObj \<Rightarrow>
                         (let link = generateListLink env (co_resourceName customObj)
                          in ret (Some ((respond True
                                           ((link_sign @ '' **'') @ co_label customObj @ (''**'' @ newline @ newline) @ link) timestamp)
                                        \<lparr>deepLink := Some link\<rparr>)))
                     | None \<Rightarrow>
                         bind (findRecordByName env ''projects'' recordName)
                           (\<lambda>found.
                              case found of
                                Some r \<Rightarrow>
                                  (let link = generateRecordLink env ''projects'' (fr_internalId r)
                                                ''properties''
                                   in ret (Some ((respond True
                                                    ((link_sign @ '' **Project '' @ dq)
                                                     @ (if js_truthy (fr_name r) then js_String (fr_name r)
                                                        else recordName)
                                                     @ (dq @ ''**'' @ newline @ newline) @ link)
                                                    timestamp)
                                                 \<lparr>deepLink := Some link\<rparr>)))
                              | None \<Rightarrow>
                                  ret (Some (respond False
                                               ((cross @ '' Could not find '' @ dq) @ recordName
                                                @ (dq @ ''. Check the name and try again.'' @ newline @ newline @ ''Try:'' @ newline @ bullet @ '' '' @ dq @ ''Give me link to all projects'' @ dq @ newline @ bullet @ '' '' @ dq @ ''Give me link to project [exact name]'' @ dq))
                                               timestamp))))
              else ret None))"

definition handleLinkRequest ::
  "'w env \<Rightarrow> string \<Rightarrow> int \<Rightarrow> string option \<Rightarrow> (AIResponse, 'w) prog" where
  "handleLinkRequest env sid timestamp originalMessage =
     bind (with_contexts (getContext sid))
       (\<lambda>c.
          if \<not> truthy originalMessage then of_result (generateContextLink env c timestamp)
          else
            (let msg = trim (toLowerCase (the originalMessage)) in
             case rx_match linkAllPattern msg of
               Some m \<Rightarrow>
                 (let objectName = toLowerCase (case group m 1 of Some g \<Rightarrow> g | None \<Rightarrow> []);
                      link = generateListLink env objectName
                  in ret ((respond True
                             ((link_sign @ '' **All '') @ capitalize objectName @ (''**'' @ newline @ newline) @ link) timestamp)
                          \<lparr>deepLink := Some link\<rparr>))
             | None \<Rightarrow>
                 if str_includes msg ''custom object'' then
                   bind (in_world (getCustomObjects env))
                     (\<lambda>customObjects.
                        let links = join newline
                                      (map (\<lambda>obj. (bullet @ '' '') @ co_label obj @ '': ''
                                                   @ generateListLink env (co_resourceName obj))
                                           (take 5 customObjects))
                        in ret (respond True
                                  ((link_sign @ '' **Custom Objects Links**'' @ newline @ newline) @ links
                                   @ (if length customObjects > 5
                                      then (newline @ newline @ ''...and '') @ show_nat (length customObjects - 5) @ '' more''
                                      else []))
                                  timestamp))
                 else
                   bind (linkToNamed env msg timestamp)
                     (\<lambda>named.
                        case named of
                          Some response \<Rightarrow> ret response
                        | None \<Rightarrow> of_result (generateContextLink env c timestamp))))"

subsection \<open>Object discovery\<close>

definition discoverObjects :: "'w env \<Rightarrow> (unit, 'w) prog" where
  "discoverObjects env =
     bind (in_world (discoverAllObjects env))
       (\<lambda>names s. (Inr (), s\<lparr>discoveredObjects := names\<rparr>))"

definition getObjectMetadata :: "'w env \<Rightarrow> string \<Rightarrow> (ObjectMetadata, 'w) prog" where
  "getObjectMetadata env objectType =
     (\<lambda>s. case metadataCache s objectType of
             Some metadata \<Rightarrow> (Inr metadata, s)
           | None \<Rightarrow>
               bind (in_world_throwing (fetchObjectMetadata env objectType))
                 (\<lambda>metadata s'.
                    (Inr metadata,
                     s'\<lparr>metadataCache := (metadataCache s')(objectType \<mapsto> metadata)\<rparr>))
                 s)"

subsection \<open>Target object\<close>

definition standardObjects :: "string list" where
  "standardObjects =
     [''projects'', ''tasks'', ''resources'', ''ideas'', ''risks'', ''issues'', ''timesheets'']"

definition contextTriggers :: "string list" where
  "contextTriggers =
     [''the object'', ''this object'', ''that object'', ''it'', ''this'', he_the_object,
      he_on_it, he_it, he_this, he_more_data, ''more data'', ''more info'', he_more_info,
      ''describe'', ''fields'', he_fields, he_describe]"

definition hasObjectMention :: "string \<Rightarrow> CustomObject list \<Rightarrow> bool" where
  "hasObjectMention message customObjects =
     (list_ex (\<lambda>obj. str_includes message obj) (standardObjects @ map butlast standardObjects)
      \<or> list_ex (\<lambda>obj. str_includes message (toLowerCase (co_label obj))
                      \<or> str_includes message (toLowerCase (co_resourceName obj)))
                 customObjects)"

definition detectTargetObject :: "'w env \<Rightarrow> string \<Rightarrow> string \<Rightarrow> (string \<times> string, 'w) prog" where
  "detectTargetObject env message sid =
     (let lowerMessage = toLowerCase message in
      bind (in_world (getCustomObjects env))
        (\<lambda>customObjects.
           case find (\<lambda>obj. str_includes lowerMessage (toLowerCase (co_label obj))
                           \<or> str_includes lowerMessage (toLowerCase (co_resourceName obj)))
                     customObjects of
             Some obj \<Rightarrow> ret (co_resourceName obj, co_label obj)
           | None \<Rightarrow>
               (case find (\<lambda>obj. str_includes lowerMessage obj
                               \<or> str_includes lowerMessage (butlast obj))
                          standardObjects of
                  Some obj \<Rightarrow> ret (obj, capitalize obj)
                | None \<Rightarrow>
                    if list_ex (\<lambda>trigger. str_includes lowerMessage trigger) contextTriggers
                       \<or> \<not> hasObjectMention lowerMessage customObjects
                    then
                      bind (with_contexts (getContext sid))
                        (\<lambda>c. case lastQuery c of
                                Some q \<Rightarrow>
                                  if q_objectType q \<noteq> [] \<and> q_objectLabel q \<noteq> []
                                  then ret (q_objectType q, q_objectLabel q)
                                  else ret (''projects'', ''Projects'')
                              | None \<Rightarrow> ret (''projects'', ''Projects''))
                    else ret (''projects'', ''Projects''))))"

subsection \<open>Custom objects query\<close>

text \<open>The counting loop: a request that fails counts as 0.\<close>

fun countInstances :: "'w env \<Rightarrow> CustomObject list \<Rightarrow> ((CustomObject \<times> int) list, 'w) prog" where
  "countInstances env [] = ret []"
| "countInstances env (obj # objs) =
     bind (try_catch
             (bind (client_get env (''/'' @ co_resourceName obj @ ''?fields=_internalId&limit=1''))
                (\<lambda>response. ret (case totalCount response of Some n \<Rightarrow> n | None \<Rightarrow> 0)))
             (\<lambda>error. ret 0))
       (\<lambda>n. bind (countInstances env objs) (\<lambda>others. ret ((obj, n) # others)))"

definition handleCustomObjectsQuery :: "'w env \<Rightarrow> string \<Rightarrow> int \<Rightarrow> (AIResponse, 'w) prog" where
  "handleCustomObjectsQuery env message timestamp =
     (let lowerMessage = toLowerCase message in
      bind (in_world (getCustomObjects env))
        (\<lambda>customObjects.
           if (str_includes lowerMessage ''how many'' \<or> str_includes lowerMessage ''count'')
              \<and> \<not> str_includes lowerMessage ''instance'' \<and> \<not> str_includes lowerMessage ''record''
              \<and> \<not> str_includes lowerMessage ''most''
           then ret (respond True
                       ((chart_sign @ '' **Found '') @ show_nat (length customObjects)
                        @ '' Custom Objects** in the system'')
                       timestamp)
           else if str_includes lowerMessage ''most'' \<or> str_includes lowerMessage ''instance''
                   \<or> str_includes lowerMessage ''record'' \<or> str_includes lowerMessage ''top''
                   \<or> rx_test digitsPattern lowerMessage
           then
             (let limit = (case rx_match digitsPattern lowerMessage of
                             Some m \<Rightarrow> min (parseInt (m_text m)) (length customObjects)
                           | None \<Rightarrow> 10)
              in bind (countInstances env customObjects)
                   (\<lambda>objectCounts.
                      let ranked = sort_key (\<lambda>(obj, n). - n) objectCounts;
                          shown = take (min limit (length ranked)) ranked;
                          totalInstances = sum_list (map snd ranked)
                      in ret (respond True
                                ((chart_sign @ '' **Top '') @ show_nat limit
                                 @ ('' Custom Objects by Instance Count**'' @ newline @ newline)
                                 @ concat (map (\<lambda>(i, obj, n).
                                                  show_nat (i + 1) @ ''. **'' @ co_label obj @ ''** (''
                                                  @ bt @ co_resourceName obj @ bt @ '') - **''
                                                  @ show_int n @ (''** records'' @ newline))
                                               (zip [0..<length shown] shown))
                                 @ (newline @ trend_sign @ '' **Total:** '') @ show_int totalInstances
                                 @ '' records across '' @ show_nat (length customObjects)
                                 @ '' custom objects'')
                                timestamp)))
           else
             ret (respond True
                    ((clipboard_sign @ '' **Custom Objects ('') @ show_nat (length customObjects) @ ('')**'' @ newline @ newline)
                     @ concat (map (\<lambda>obj. (bullet @ '' **'') @ co_label obj @ ''** ('' @ bt
                                            @ co_resourceName obj @ bt @ ('')'' @ newline))
                                   customObjects)
                     @ (newline @ bulb_sign @ '' To query a custom object, try: '' @ dq @ ''list '')
                     @ (case customObjects of obj # _ \<Rightarrow> co_resourceName obj | [] \<Rightarrow> ''custXXX'')
                     @ dq)
                    timestamp)))"

subsection \<open>Help\<close>

definition getHelpResponse :: "'w env \<Rightarrow> int \<Rightarrow> (AIResponse, 'w) prog" where
  "getHelpResponse env timestamp =
     bind (in_world (getCustomObjects env))
       (\<lambda>customObjects.
          bind (read_world (getCapabilities env))
            (\<lambda>caps.
               let features =
                     (if hasProjects caps
                      then [(bullet @ '' '' @ dq @ ''Show project distribution by status'' @ dq),
                            (bullet @ '' '' @ dq @ ''List projects'' @ dq @ '' / '' @ dq @ ''How many projects?'' @ dq)]
                      else [])
                     @ (if hasTasks caps then [(bullet @ '' '' @ dq @ ''List tasks'' @ dq @ '' / '' @ dq @ ''Analyze tasks by priority'' @ dq)] else [])
                     @ (if hasCustomObjects caps \<and> length customObjects > 0
                        then [(bullet @ '' '' @ dq @ ''List custom objects'' @ dq),
                              (bullet @ '' '' @ dq @ ''Show '')
                              @ (case customObjects of
                                   obj # _ \<Rightarrow> if co_label obj \<noteq> [] then co_label obj
                                               else ''custom object''
                                 | [] \<Rightarrow> ''custom object'')
                              @ ('' data'' @ dq)]
                        else [])
                     @ [(bullet @ '' '' @ dq @ ''Give me a link to project X'' @ dq),
                        (bullet @ '' '' @ dq @ ''Show me the active ones'' @ dq @ '' (after a chart)'')];
                   objectsList =
                     (if hasProjects caps then [''projects''] else [])
                     @ (if hasTasks caps then [''tasks''] else [])
                     @ (if hasResources caps then [''resources''] else []);
                   customList =
                     (if length customObjects > 0
                      then join '', '' (map co_label (take 5 customObjects))
                      else ''none detected'')
               in ret (respond True
                         ((robot_sign @ '' **Clarity AI Assistant**'' @ newline @ newline)
                          @ (''I understand natural language and remember our conversation!'' @ newline @ newline)
                          @ (''**Try:**'' @ newline)
                          @ join newline (take 6 features) @ (newline @ newline)
                          @ ''**Available:** '' @ join '', '' objectsList
                          @ (if hasCustomObjects caps
                             then '' + '' @ show_nat (length customObjects) @ '' custom objects''
                             else [])
                          @ newline
                          @ (if length customObjects > 0
                             then ''**Custom Objects:** '' @ customList @ (''...'' @ newline @ newline)
                             else newline)
                          @ (bulb_sign @ '' After viewing a chart, click bars to drill down!''))
                         timestamp)))"

subsection \<open>Planning\<close>

text \<open>The first attribute the message names, by display name or API name.\<close>

definition findFieldMatch :: "string \<Rightarrow> AttributeMetadata list \<Rightarrow> AttributeMetadata option" where
  "findFieldMatch userMessage attrs =
     (let userLower = toLowerCase userMessage in
      find (\<lambda>attr. str_includes userMessage (displayName attr)
                   \<or> str_includes userLower (toLowerCase (displayName attr))
                   \<or> str_includes userLower (toLowerCase (apiName attr)))
           attrs)"

definition getAIPlan :: "'w env \<Rightarrow> string \<Rightarrow> ConversationContext \<Rightarrow> (APIPlan, 'w) prog" where
  "getAIPlan env userMessage c =
     bind (detectTargetObject env userMessage (sessionId c))
       (\<lambda>(objectType, objectLabel).
          bind (getObjectMetadata env objectType)
            (\<lambda>targetMetadata.
               bind (in_world (getCustomObjects env))
                 (\<lambda>customObjects s.
                    (let objectList = join '', '' (take 50 (discoveredObjects s));
                         customObjectList =
                           join '', '' (map (\<lambda>obj. co_label obj @ '' ('' @ co_resourceName obj @ '')'')
                                            customObjects);
                         fieldMatch = findFieldMatch userMessage (attributes targetMetadata);
                         resolvedFieldHint =
                           (case fieldMatch of
                              Some attr \<Rightarrow>
                                (newline @ newline @ target_sign @ '' FIELD MATCH FOUND: User mentioned '' @ dq) @ displayName attr
                                @ (dq @ '' which maps to apiName '' @ dq) @ apiName attr @ (dq @ '' ('')
                                @ dataType attr @ (''). YOU MUST USE THIS EXACT APINAME: '' @ dq)
                                @ apiName attr @ (dq @ ''!'')
                            | None \<Rightarrow> []);
                         foundFieldApiName =
                           (case fieldMatch of Some attr \<Rightarrow> apiName attr | None \<Rightarrow> []);
                         groupableList =
                           join '', '' (map (\<lambda>a. dq @ apiName a @ dq @ '' ('' @ displayName a @ '')'')
                                            (take 50 (getGroupableFields env targetMetadata)));
                         allFieldMappings =
                           join ((newline @ ''    ''))
                             (map (\<lambda>a. dq @ displayName a @ (dq @ '' '' @ arrow_sign @ '' '' @ dq) @ apiName a @ dq)
                                  (filter (\<lambda>a. \<not> prefix ''_'' (apiName a) \<or> apiName a = ''_internalId'')
                                          (attributes targetMetadata)))
                     in bind (with_contexts (getContextSummary (sessionId c)))
                          (\<lambda>contextSummary.
                             bind (messages_create env
                                     \<lparr>pp_contextSummary =
                                        (if contextSummary \<noteq> [] then contextSummary
                                         else ''No previous context''),
                                      pp_objectLabel = objectLabel, pp_objectType = objectType,
                                      pp_resolvedFieldHint = resolvedFieldHint,
                                      pp_foundFieldApiName = foundFieldApiName,
                                      pp_objectList = objectList,
                                      pp_customObjectList = customObjectList,
                                      pp_groupableList = groupableList,
                                      pp_allFieldMappings = allFieldMappings,
                                      pp_userMessage = userMessage\<rparr>)
                               (\<lambda>blocks.
                                  case blocks of
                                    TextBlock answerText # _ \<Rightarrow>
                                      (case rx_match jsonPattern answerText of
                                         None \<Rightarrow> throw ''Could not parse AI response as JSON''
                                       | Some m \<Rightarrow>
                                           bind (of_result (parsePlan env (m_text m)))
                                             (\<lambda>plan.
                                                ret (if foundFieldApiName \<noteq> []
                                                        \<and> a_action plan = ''analyze''
                                                     then plan\<lparr>a_groupByField := Some foundFieldApiName\<rparr>
                                                     else plan)))
                                  | _ \<Rightarrow> throw ''Unexpected response type from AI'')))
                    s)))"

subsection \<open>Plan execution\<close>

definition executeDescribe :: "'w env \<Rightarrow> APIPlan \<Rightarrow> (ExecResult, 'w) prog" where
  "executeDescribe env plan =
     bind (getObjectMetadata env (a_objectType plan))
       (\<lambda>metadata.
          let groupable = getGroupableFields env metadata;
              lookupFields = filter isLookup (attributes metadata);
              keyFields = take 15 (filter (\<lambda>a. \<not> prefix ''_'' (apiName a) \<or> apiName a = ''_internalId'')
                                          (attributes metadata))
          in ret (answer True
                    ((clipboard_sign @ '' **'') @ om_label metadata @ ''** ('' @ bt @ resourceName metadata @ bt
                     @ ('')'' @ newline @ newline)
                     @ ''**Total Fields:** '' @ show_nat (length (attributes metadata)) @ newline
                     @ ''**Groupable Fields:** '' @ show_nat (length groupable) @ newline
                     @ ''**Lookup Fields:** '' @ show_nat (length lookupFields) @ (newline @ newline)
                     @ (''**Key Fields:**'' @ newline)
                     @ concat (map (\<lambda>a. (bullet @ '' **'') @ displayName a @ ''** ('' @ bt @ apiName a @ bt
                                          @ '') - '' @ dataType a
                                          @ (if isLookup a then ('' '' @ link_sign) else []) @ newline)
                                   keyFields))))"

text \<open>The first \<open>limit=N\<close> of an endpoint, capped at 500.\<close>

definition capLimit :: "string \<Rightarrow> string" where
  "capLimit endpoint =
     rx_replace limitPattern
       (\<lambda>m. ''limit='' @ show_nat (min (parseInt (drop (length ''limit='') (m_text m))) 500))
       endpoint"

definition executeQuery :: "'w env \<Rightarrow> APIPlan \<Rightarrow> string \<Rightarrow> string \<Rightarrow> (ExecResult, 'w) prog" where
  "executeQuery env plan originalMessage sid =
     bind (if str_includes (capLimit (a_endpoint plan)) ''{projectId}'' then
             (case extractProjectName originalMessage of
                Some projectName \<Rightarrow>
                  bind (findRecord env ''projects'' projectName)
                    (\<lambda>project.
                       case project of
                         Some p \<Rightarrow>
                           ret (Inr (replace_first ''{projectId}'' (js_String (fr_internalId p))
                                       (capLimit (a_endpoint plan))))
                       | None \<Rightarrow>
                           ret (Inl (answer False
                                       ((cross @ '' Could not find project '' @ dq) @ projectName @ dq))))
              | None \<Rightarrow> ret (Inl (answer False (cross @ '' Please specify a project name''))))
           else ret (Inr (capLimit (a_endpoint plan))))
       (\<lambda>resolved.
          case resolved of
            Inl early \<Rightarrow> ret early
          | Inr endpoint \<Rightarrow>
              try_catch
                (bind (client_get env endpoint)
                   (\<lambda>response.
                      let records = results_of response;
                          n = totalCount_of response
                      in bind (in_world (getObjectLabel env (a_objectType plan)))
                           (\<lambda>objectLabel.
                              bind (read_world (clock env))
                                (\<lambda>now.
                                   bind (update_contexts
                                           (updateLastQuery sid
                                              (Some \<lparr>q_objectType = a_objectType plan,
                                                      q_objectLabel = objectLabel, q_action = ''query'',
                                                      q_filters = None, q_results = Some records,
                                                      q_totalCount = Some n, q_groupByField = None,
                                                      q_groupByDisplayName = None, q_chartData = None,
                                                      q_timestamp = now\<rparr>)))
                                     (\<lambda>_.
                                        if str_includes endpoint ''limit=1''
                                           \<and> \<not> str_includes endpoint ''limit=10''
                                        then
                                          ret (answer True
                                                 ((chart_sign @ '' **Found '') @ show_int n @ '' '' @ objectLabel
                                                  @ ''**''
                                                  @ (case extractProjectName originalMessage of
                                                       Some projectName \<Rightarrow>
                                                         ('' in project '' @ dq) @ projectName @ dq
                                                     | None \<Rightarrow> [])))
                                        else
                                          ret (answer True
                                                 ((check_sign @ '' **'') @ show_int n @ '' '' @ objectLabel
                                                  @ (''**'' @ newline @ newline) @ recordListing records n)))))))
                (\<lambda>error. ret (answer False ((cross @ '' Query failed: '') @ error))))"

text \<open>
  The tally of \<open>executeAnalyze\<close>: a \<open>Map\<close> from label to count, in order of first
  occurrence.
\<close>

fun bump :: "string \<Rightarrow> (string \<times> nat) list \<Rightarrow> (string \<times> nat) list" where
  "bump k [] = [(k, 1)]"
| "bump k ((k', n) # d) = (if k' = k then (k', n + 1) # d else (k', n) # bump k d)"

definition displayValueOf :: "fieldval \<Rightarrow> string" where
  "displayValueOf rawValue =
     (if formatFieldValue rawValue \<noteq> [] then formatFieldValue rawValue else ''(No value)'')"

definition buildDistribution :: "string \<Rightarrow> row list \<Rightarrow> (string \<times> nat) list" where
  "buildDistribution actualFieldName records =
     fold (\<lambda>r d. bump (displayValueOf (field r actualFieldName)) d) records []"

text \<open>The entries as chart items, sorted by count, largest first; the sort is stable.\<close>

definition chartDataArrayOf :: "(string \<times> nat) list \<Rightarrow> ChartItem list" where
  "chartDataArrayOf distribution =
     sort_key (\<lambda>item. - int (count item))
       (map (\<lambda>(l, v). \<lparr>label = l, count = v\<rparr>) distribution)"

definition analyzeEndpoint :: "string \<Rightarrow> string \<Rightarrow> string" where
  "analyzeEndpoint objectType actualFieldName =
     ''/'' @ objectType @ ''?fields=_internalId,'' @ actualFieldName @ ''&limit=500''"

definition findFieldMeta :: "string \<Rightarrow> ObjectMetadata \<Rightarrow> AttributeMetadata option" where
  "findFieldMeta groupByField metadata =
     find (\<lambda>a. toLowerCase (apiName a) = toLowerCase groupByField
              \<or> toLowerCase (displayName a) = toLowerCase groupByField)
          (attributes metadata)"

definition executeAnalyze :: "'w env \<Rightarrow> APIPlan \<Rightarrow> string \<Rightarrow> (ExecResult, 'w) prog" where
  "executeAnalyze env plan sid =
     (let groupByField = (case a_groupByField plan of Some g \<Rightarrow> g | None \<Rightarrow> ''status'') in
      bind (getObjectMetadata env (a_objectType plan))
        (\<lambda>metadata.
           case findFieldMeta groupByField metadata of
             None \<Rightarrow>
               ret (answer False
                      ((cross @ '' Field '' @ dq) @ groupByField @ (dq @ '' not found in '') @ om_label metadata
                       @ (''.'' @ newline @ newline @ ''**Available fields:**'' @ newline @ bullet @ '' '')
                       @ join ((newline @ bullet @ '' ''))
                           (map (\<lambda>f. bt @ apiName f @ bt @ '' ('' @ displayName f @ '')'')
                                (take 15 (getGroupableFields env metadata)))))
           | Some fieldMeta \<Rightarrow>
               (let actualFieldName = apiName fieldMeta in
                try_catch
                  (bind (client_get env (analyzeEndpoint (a_objectType plan) actualFieldName))
                     (\<lambda>response.
                        let records = results_of response;
                            chartDataArray =
                              chartDataArrayOf (buildDistribution actualFieldName records)
                        in bind (in_world (getObjectLabel env (a_objectType plan)))
                             (\<lambda>objectLabel.
                                bind (read_world (clock env))
                                  (\<lambda>now.
                                     bind (update_contexts
                                             (updateLastQuery sid
                                                (Some \<lparr>q_objectType = a_objectType plan,
                                                        q_objectLabel = objectLabel,
                                                        q_action = ''analyze'', q_filters = None,
                                                        q_results = None,
                                                        q_totalCount = Some (int (length records)),
                                                        q_groupByField = Some actualFieldName,
                                                        q_groupByDisplayName =
                                                          Some (displayName fieldMeta),
                                                        q_chartData =
                                                          Some [(actualFieldName, chartDataArray)],
                                                        q_timestamp = now\<rparr>)))
                                       (\<lambda>_.
                                          ret \<lparr>e_success = True,
                                               e_reply =
                                                 (chart_sign @ '' **'') @ objectLabel @ '' by ''
                                                 @ displayName fieldMeta @ ''** (''
                                                 @ show_nat (length records) @ ('' records)'' @ newline @ newline)
                                                 @ concat
                                                     (map (\<lambda>item.
                                                             (bullet @ '' **'') @ label item @ '':** ''
                                                             @ show_nat (count item) @ '' (''
                                                             @ percentText env (count item)
                                                                 (length records)
                                                             @ (''%)'' @ newline))
                                                          (take 10 chartDataArray))
                                                 @ (if length chartDataArray > 10
                                                    then (newline @ ''_...and '')
                                                         @ show_nat (length chartDataArray - 10)
                                                         @ '' more categories_''
                                                    else [])
                                                 @ (newline @ newline @ sparkles_sign @ '' Click on any value to see the records''),
                                               e_chartData =
                                                 Some \<lparr>groupableFields = [actualFieldName],
                                                       chartData = [(actualFieldName, chartDataArray)],
                                                       fieldMetadata =
                                                         [(actualFieldName,
                                                           \<lparr>f_displayName = displayName fieldMeta,
                                                            f_dataType = dataType fieldMeta\<rparr>)],
                                                       chartType = None,
                                                       drillDownEnabled = Some True,
                                                       c_objectType = Some (a_objectType plan),
                                                       c_groupByField = Some actualFieldName\<rparr>\<rparr>)))))
                  (\<lambda>error.
                     ret (answer False
                            ((cross @ '' Could not query field '' @ dq) @ actualFieldName @ (dq @ ''.'' @ newline @ newline @ ''**Try:** '')
                             @ join '', ''
                                 (map (\<lambda>f. bt @ apiName f @ bt)
                                      (take 10 (getGroupableFields env metadata)))))))))"

text \<open>
  The generated code of \<open>executeCreate\<close>: the name with every character outside
  \<open>[a-zA-Z0-9]\<close> made \<open>_\<close>, in lower case, then \<open>_\<close> and the clock reading.
\<close>

definition generatedCode :: "string \<Rightarrow> int \<Rightarrow> string" where
  "generatedCode name' now =
     toLowerCase (map (\<lambda>c. if is_alnum c then c else CHR ''_'') name') @ ''_'' @ show_int now"

definition executeCreate :: "'w env \<Rightarrow> APIPlan \<Rightarrow> string \<Rightarrow> (ExecResult, 'w) prog" where
  "executeCreate env plan originalMessage =
     bind (if str_includes (a_endpoint plan) ''/projects/''
              \<and> \<not> rx_test projectsIdPattern (a_endpoint plan) then
             (case extractProjectName originalMessage of
                Some projectName \<Rightarrow>
                  bind (findRecord env ''projects'' projectName)
                    (\<lambda>project.
                       case project of
                         Some p \<Rightarrow>
                           ret (Inr (rx_replace projectsSegmentPattern
                                       (\<lambda>_. ''/projects/'' @ js_String (fr_internalId p) @ ''/'')
                                       (a_endpoint plan)))
                       | None \<Rightarrow>
                           ret (Inl (answer False
                                       ((cross @ '' Could not find project '' @ dq) @ projectName @ dq))))
              | None \<Rightarrow> ret (Inr (a_endpoint plan)))
           else ret (Inr (a_endpoint plan)))
       (\<lambda>resolved.
          case resolved of
            Inl early \<Rightarrow> ret early
          | Inr endpoint \<Rightarrow>
              (let given = (case a_body plan of Some b \<Rightarrow> b | None \<Rightarrow> []);
                   named =
                     (if \<not> js_truthy (field given ''name'') then
                        (case rx_match createNamePattern originalMessage of
                           Some m \<Rightarrow>
                             set_field given ''name''
                               (case group m 1 of Some g \<Rightarrow> VStr (trim g) | None \<Rightarrow> VUndefined)
                         | None \<Rightarrow> given)
                      else given)
               in bind (if \<not> js_truthy (field named ''code'')
                           \<and> (endpoint = ''/projects'' \<or> rx_test customEndpointPattern endpoint)
                        then
                          (if js_truthy (field named ''name'') then
                             (case field named ''name'' of
                                VStr name' \<Rightarrow>
                                  bind (read_world (clock env))
                                    (\<lambda>now. ret (set_field named ''code''
                                                   (VStr (generatedCode name' now))))
                              | _ \<Rightarrow> throw ''name.replace is not a function'')
                           else ret named)
                        else ret named)
                    (\<lambda>body.
                       bind (client_post env endpoint body)
                         (\<lambda>result.
                            bind (in_world (getObjectLabel env (a_objectType plan)))
                              (\<lambda>objectLabel.
                                 ret (answer True
                                        ((check_sign @ '' **'') @ objectLabel @ ('' Created!**'' @ newline @ newline @ bullet @ '' **Name:** '')
                                         @ js_String (field body ''name'') @ (newline @ bullet @ '' **ID:** '')
                                         @ js_String (internalId result))))))))"

definition executeUpdate :: "'w env \<Rightarrow> APIPlan \<Rightarrow> string \<Rightarrow> (ExecResult, 'w) prog" where
  "executeUpdate env plan originalMessage =
     (case extractRecordName originalMessage of
        None \<Rightarrow> ret (answer False (cross @ '' Could not determine which record to update''))
      | Some recordName \<Rightarrow>
          if recordName = [] then ret (answer False (cross @ '' Could not determine which record to update''))
          else
            bind (findRecord env (a_objectType plan) recordName)
              (\<lambda>found.
                 case found of
                   None \<Rightarrow>
                     ret (answer False ((cross @ '' Could not find '') @ a_objectType plan @ '' '' @ dq
                                        @ recordName @ dq))
                 | Some r \<Rightarrow>
                     bind (client_patch env
                             (''/'' @ a_objectType plan @ ''/'' @ js_String (fr_internalId r))
                             (case a_body plan of Some b \<Rightarrow> b | None \<Rightarrow> []))
                       (\<lambda>_.
                          bind (in_world (getObjectLabel env (a_objectType plan)))
                            (\<lambda>objectLabel.
                               ret (answer True
                                      ((check_sign @ '' **'') @ objectLabel @ ('' Updated!**'' @ newline @ newline @ bullet @ '' **Record:** '')
                                       @ (if nullish (fr_name r) then recordName
                                          else js_String (fr_name r))))))))"

definition executeDelete :: "'w env \<Rightarrow> APIPlan \<Rightarrow> string \<Rightarrow> (ExecResult, 'w) prog" where
  "executeDelete env plan originalMessage =
     (case extractRecordName originalMessage of
        None \<Rightarrow> ret (answer False (cross @ '' Could not determine which record to delete''))
      | Some recordName \<Rightarrow>
          if recordName = [] then ret (answer False (cross @ '' Could not determine which record to delete''))
          else
            bind (findRecord env (a_objectType plan) recordName)
              (\<lambda>found.
                 case found of
                   None \<Rightarrow>
                     ret (answer False ((cross @ '' Could not find '') @ a_objectType plan @ '' '' @ dq
                                        @ recordName @ dq))
                 | Some r \<Rightarrow>
                     bind (client_delete env
                             (''/'' @ a_objectType plan @ ''/'' @ js_String (fr_internalId r)))
                       (\<lambda>_.
                          bind (in_world (getObjectLabel env (a_objectType plan)))
                            (\<lambda>objectLabel.
                               ret (answer True
                                      ((check_sign @ '' **'') @ objectLabel @ ('' Deleted!**'' @ newline @ newline @ bullet @ '' **ID:** '')
                                       @ js_String (fr_internalId r)))))))"

definition executePlan :: "'w env \<Rightarrow> APIPlan \<Rightarrow> string \<Rightarrow> string \<Rightarrow> (ExecResult, 'w) prog" where
  "executePlan env plan originalMessage sid =
     (if a_action plan = ''help'' then
        bind (getHelpResponse env 0)
          (\<lambda>r. ret \<lparr>e_success = success r, e_reply = reply r, e_chartData = r_chartData r\<rparr>)
      else if a_action plan = ''describe'' then executeDescribe env plan
      else if a_action plan = ''query'' then executeQuery env plan originalMessage sid
      else if a_action plan = ''analyze'' then executeAnalyze env plan sid
      else if a_action plan = ''create'' then executeCreate env plan originalMessage
      else if a_action plan = ''update'' then executeUpdate env plan originalMessage
      else if a_action plan = ''delete'' then executeDelete env plan originalMessage
      else ret (answer False ((cross @ '' Unknown action: '') @ a_action plan)))"

subsection \<open>Follow-ups\<close>

definition exportReply :: string where
  "exportReply =
     (inbox_sign @ '' **Export Feature**'' @ newline @ newline @ ''Export functionality is coming soon! For now, you can:'' @ newline @ bullet @ '' Copy the data from above'' @ newline @ bullet @ '' Use the deep link to open in Clarity and export from there'')"

definition handleFollowUp ::
  "'w env \<Rightarrow> string \<Rightarrow> string \<Rightarrow> string option \<Rightarrow> string \<Rightarrow> int \<Rightarrow> (AIResponse option, 'w) prog" where
  "handleFollowUp env sid intentType extractedValue originalMessage timestamp =
     bind (with_contexts (getContext sid))
       (\<lambda>c.
          if intentType = ''showSelected''
          then handleDrillDown env sid extractedValue originalMessage timestamp
          else if intentType = ''link''
          then bind (handleLinkRequest env sid timestamp (Some originalMessage)) (\<lambda>r. ret (Some r))
          else if intentType = ''count''
          then bind (handleCountFollowUp sid timestamp) (\<lambda>r. ret (Some r))
          else if intentType = ''export''
          then ret (Some (respond True exportReply timestamp))
          else ret None)"

subsection \<open>The main handler\<close>

definition formatSuggestionsAsButtons :: "Suggestion list \<Rightarrow> (string \<times> string) list" where
  "formatSuggestionsAsButtons ss = map (\<lambda>s. (s_emoji s @ '' '' @ s_text s, s_text s)) ss"

text \<open>Step 3: a link request that succeeds is answered here.\<close>

definition linkStep :: "'w env \<Rightarrow> string \<Rightarrow> string \<Rightarrow> int \<Rightarrow> (AIResponse option, 'w) prog" where
  "linkStep env message sid timestamp =
     (let lowerMessage = toLowerCase message in
      if str_includes lowerMessage ''link'' \<and> \<not> str_includes lowerMessage ''create''
         \<and> \<not> str_includes lowerMessage ''new''
      then
        bind (handleLinkRequest env sid timestamp (Some message))
          (\<lambda>linkResult.
             if success linkResult then
               bind (with_contexts (getContext sid))
                 (\<lambda>c.
                    let offered = generateSuggestions env c ''query'' in
                    bind (update_contexts
                            (addToHistory sid
                               \<lparr>t_timestamp = timestamp, t_role = Assistant,
                                t_message = reply linkResult, t_action = Some ''link'',
                                t_objectType = None, t_success = Some True\<rparr>))
                      (\<lambda>_. ret (Some (linkResult
                                        \<lparr>suggestions :=
                                           Some (map (\<lambda>s. (s_emoji s @ '' '' @ s_text s, s_action s))
                                                     offered)\<rparr>))))
             else ret None)
      else ret None)"

text \<open>Step 4: a follow-up on the last chart, when there is one to drill into.\<close>

definition followUpStep :: "'w env \<Rightarrow> string \<Rightarrow> string \<Rightarrow> int \<Rightarrow> (AIResponse option, 'w) prog" where
  "followUpStep env message sid timestamp =
     (let followUp = detectFollowUpIntent message in
      case fu_type followUp of
        None \<Rightarrow> ret None
      | Some intentType \<Rightarrow>
          if intentType = [] \<or> intentType = ''link'' then ret None
          else
            bind (with_contexts (canDrillDown sid))
              (\<lambda>can.
                 if can
                 then handleFollowUp env sid intentType (fu_extractedValue followUp) message timestamp
                 else ret None))"

definition isCustomObjectsQuery :: "string \<Rightarrow> bool" where
  "isCustomObjectsQuery lowerMessage =
     (str_includes lowerMessage ''custom object''
      \<and> \<not> str_includes lowerMessage ''create''
      \<and> \<not> str_includes lowerMessage ''new''
      \<and> \<not> str_includes lowerMessage ''add''
      \<and> \<not> str_includes lowerMessage ''describe''
      \<and> \<not> str_includes lowerMessage ''fields''
      \<and> \<not> str_includes lowerMessage he_describe
      \<and> \<not> str_includes lowerMessage he_fields)"

text \<open>Steps 5 to 7: plan, execute, and answer.\<close>

definition planStep ::
  "'w env \<Rightarrow> string \<Rightarrow> string \<Rightarrow> ConversationContext \<Rightarrow> int \<Rightarrow> (AIResponse, 'w) prog" where
  "planStep env message sid c timestamp =
     bind (getAIPlan env message c)
       (\<lambda>plan.
          bind (executePlan env plan message sid)
            (\<lambda>result.
               bind (with_contexts (getContext sid))
                 (\<lambda>c'.
                    let offered = generateSuggestions env c' (a_action plan) in
                    bind (read_world (clock env))
                      (\<lambda>now.
                         bind (update_contexts
                                 (addToHistory sid
                                    \<lparr>t_timestamp = now, t_role = Assistant,
                                     t_message = take 200 (e_reply result),
                                     t_action = Some (a_action plan),
                                     t_objectType = Some (a_objectType plan),
                                     t_success = Some (e_success result)\<rparr>))
                           (\<lambda>_.
                              bind (with_contexts (getContextSummary sid))
                                (\<lambda>summary.
                                   ret \<lparr>success = e_success result, reply = e_reply result,
                                        r_chartData = e_chartData result, r_timestamp = timestamp,
                                        suggestions = Some (formatSuggestionsAsButtons offered),
                                        deepLink = None,
                                        debug = Some \<lparr>aiPlan = a_explanation plan,
                                                      apiCalls = [a_endpoint plan],
                                                      debugContext = summary\<rparr>\<rparr>))))))"

text \<open>The body of the \<open>try\<close> block of \<open>handleMessage\<close>.\<close>

definition handleMessage_try :: "'w env \<Rightarrow> string \<Rightarrow> string \<Rightarrow> int \<Rightarrow> (AIResponse, 'w) prog" where
  "handleMessage_try env message sid timestamp =
     bind (with_contexts (getContext sid))
       (\<lambda>c.
          bind (update_contexts
                  (addToHistory sid
                     \<lparr>t_timestamp = timestamp, t_role = User, t_message = message,
                      t_action = None, t_objectType = None, t_success = None\<rparr>))
            (\<lambda>_.
               bind (\<lambda>s. if length (discoveredObjects s) = 0 then discoverObjects env s
                          else ret () s)
                 (\<lambda>_.
                    if rx_test greetingPattern (trim message) then getHelpResponse env timestamp
                    else
                      bind (linkStep env message sid timestamp)
                        (\<lambda>linked.
                           case linked of
                             Some response \<Rightarrow> ret response
                           | None \<Rightarrow>
                               bind (followUpStep env message sid timestamp)
                                 (\<lambda>followed.
                                    case followed of
                                      Some response \<Rightarrow> ret response
                                    | None \<Rightarrow>
                                        if isCustomObjectsQuery (toLowerCase message)
                                        then handleCustomObjectsQuery env message timestamp
                                        else planStep env message sid c timestamp)))))"

text \<open>
  \<open>handleMessage\<close>: the timestamp is read first; whatever the \<open>try\<close> block throws is
  answered by \<open>getErrorResponse\<close>.
\<close>

definition handleMessage :: "'w env \<Rightarrow> string \<Rightarrow> string \<Rightarrow> 'w handler \<Rightarrow> AIResponse \<times> 'w handler" where
  "handleMessage env message sid s =
     (let timestamp = clock env (world s) in
      case handleMessage_try env message sid timestamp s of
        (Inr response, s') \<Rightarrow> (response, s')
      | (Inl error, s') \<Rightarrow> (getErrorResponse error timestamp, s'))"

chapter \<open>Installations and notions used by the properties\<close>

section \<open>Sessions for the context store\<close>

text \<open>A user turn with the given timestamp.\<close>

definition turn_at :: "int \<Rightarrow> ConversationTurn" where
  "turn_at ts = \<lparr>t_timestamp = ts, t_role = User, t_message = ''hi'', t_action = None,
                 t_objectType = None, t_success = None\<rparr>"

text \<open>Twenty-three turns, the fourth for another session.\<close>

definition many_turns :: "(string \<times> ConversationTurn) list" where
  "many_turns = map (\<lambda>n. (if n = 3 then ''other'' else ''s'', turn_at (int n))) [0..<23]"

text \<open>A minute, in milliseconds.\<close>

definition minute :: int where
  "minute = 60 * 1000"

text \<open>
  A store that holds, at minute 30, a session idle for 31 minutes and a session active a
  minute ago.
\<close>

definition sweep_store :: contexts where
  "sweep_store =
     addToHistory ''fresh'' (turn_at (1700000000000 + 29 * minute))
       (addToHistory ''idle'' (turn_at (1700000000000 - minute)) Map.empty)"

section \<open>A failing server\<close>

text \<open>A server that answers every request with HTTP 500 and the given body.\<close>

definition failing_server :: "string \<Rightarrow> (unit, unit) transport" where
  "failing_server errorText =
     \<lparr>fetch = (\<lambda>verb url body w. (Response 500 (Inr errorText) (Inl ''no JSON''), w))\<rparr>"

definition test_client :: ClarityApiClient where
  "test_client = \<lparr>baseUrl = ''http://clarity/ppm/rest/v1'', maxRetries = 3\<rparr>"

section \<open>What the handler remembers and resolves\<close>

text \<open>The record a successful drill-down stores as the last query.\<close>

definition drillDownMemory :: "LastQuery \<Rightarrow> string \<Rightarrow> row list \<Rightarrow> int \<Rightarrow> int \<Rightarrow> LastQuery" where
  "drillDownMemory q matchedValue records n now =
     \<lparr>q_objectType = q_objectType q, q_objectLabel = q_objectLabel q, q_action = ''drilldown'',
      q_filters = Some [(the (q_groupByField q), matchedValue)], q_results = Some records,
      q_totalCount = Some n, q_groupByField = None, q_groupByDisplayName = None,
      q_chartData = None, q_timestamp = now\<rparr>"

text \<open>
  The label \<open>handleDrillDown\<close> settles on: the match of the extracted value when there
  is one, else the first label the message holds.
\<close>

definition resolveDrillDown :: "ConversationContext \<Rightarrow> string option \<Rightarrow> string \<Rightarrow> string option" where
  "resolveDrillDown c extractedValue originalMessage =
     (let options = drillDownOptionsOf c;
          firstMatch =
            (if truthy extractedValue then
               (let lowerUserValue = toLowerCase (the extractedValue);
                    exactMatch = find (\<lambda>opt. toLowerCase opt = lowerUserValue) options;
                    partialMatch = find (\<lambda>opt. str_includes (toLowerCase opt) lowerUserValue
                                              \<or> str_includes lowerUserValue (toLowerCase opt)) options
                in if truthy exactMatch then exactMatch
                   else if truthy partialMatch then partialMatch else None)
             else None)
      in if truthy firstMatch then firstMatch
         else find (\<lambda>opt. str_includes (toLowerCase originalMessage) (toLowerCase opt)) options)"

text \<open>The record a successful analysis stores as the last query.\<close>

definition analysisMemory ::
  "string \<Rightarrow> string \<Rightarrow> AttributeMetadata \<Rightarrow> row list \<Rightarrow> int \<Rightarrow> LastQuery" where
  "analysisMemory objectType objectLabel fieldMeta records now =
     \<lparr>q_objectType = objectType, q_objectLabel = objectLabel, q_action = ''analyze'',
      q_filters = None, q_results = None, q_totalCount = Some (int (length records)),
      q_groupByField = Some (apiName fieldMeta),
      q_groupByDisplayName = Some (displayName fieldMeta),
      q_chartData = Some [(apiName fieldMeta,
                           chartDataArrayOf (buildDistribution (apiName fieldMeta) records))],
      q_timestamp = now\<rparr>"

section \<open>The demo installation\<close>

text \<open>
  Three projects, two of them active; the object API answers the two requests of an
  analysis by status and of a drill-down into the active projects, and the reasoning
  service proposes the analysis by status.
\<close>

definition status_attr :: AttributeMetadata where
  "status_attr = \<lparr>apiName = ''status'', displayName = ''Status'', dataType = ''STRING'',
                  isRequired = False, isReadOnly = False, isLookup = False, lookupType = None\<rparr>"

definition projects_metadata :: ObjectMetadata where
  "projects_metadata =
     \<lparr>resourceName = ''projects'', om_label = ''Project'', pluralLabel = ''Projects'',
      isCustom = False, attributes = [status_attr]\<rparr>"

definition project_row :: "int \<Rightarrow> string \<Rightarrow> string \<Rightarrow> row" where
  "project_row n name' status' =
     [(''_internalId'', VNum n), (''name'', VStr name'), (''status'', VStr status')]"

definition demo_rows :: "row list" where
  "demo_rows = [project_row 1 ''Apollo'' ''Active'', project_row 2 ''Gemini'' ''Active'',
                project_row 3 ''Mercury'' ''Completed'']"

definition demo_base :: string where
  "demo_base = ''http://clarity/ppm/rest/v1''"

definition analyze_url :: string where
  "analyze_url = demo_base @ ''/projects?fields=_internalId,status&limit=500''"

definition active_url :: string where
  "active_url = demo_base @ ''/projects?filter=((status = '' @ sq @ ''Active'' @ sq
                @ ''))&fields=_internalId,name,code,status&limit=50''"

definition demo_fetch :: "string \<Rightarrow> string \<Rightarrow> row option \<Rightarrow> unit \<Rightarrow> ApiResponse fetch_outcome \<times> unit" where
  "demo_fetch verb url body w =
     (if url = analyze_url
      then (Response 200 (Inr []) (Inr \<lparr>results = Some demo_rows, totalCount = Some 3,
                                          internalId = VUndefined\<rparr>), w)
      else if url = active_url
      then (Response 200 (Inr []) (Inr \<lparr>results = Some (take 2 demo_rows), totalCount = Some 2,
                                          internalId = VUndefined\<rparr>), w)
      else (Response 404 (Inr ''Not Found'') (Inl ''Unexpected end of JSON input''), w))"

definition demo_plan :: APIPlan where
  "demo_plan = \<lparr>a_action = ''analyze'', a_objectType = ''projects'', a_method = ''GET'',
                a_endpoint = ''/projects'', a_queryParams = None, a_body = None,
                a_groupByField = Some ''status'', a_filterField = None, a_filterValue = None,
                a_explanation = ''Distribution of projects by status''\<rparr>"

definition demo_env :: "unit env" where
  "demo_env =
     \<lparr>fetch = demo_fetch,
      client = \<lparr>baseUrl = demo_base, maxRetries = 3\<rparr>,
      reason = (\<lambda>prompt w. (Inr [TextBlock ''Plan: {analyze}''], w)),
      parsePlan = (\<lambda>t. Inr demo_plan),
      clock = (\<lambda>w. 1700000000000),
      discoverAllObjects = (\<lambda>w. (standardObjects, w)),
      getCustomObjects = (\<lambda>w. ([], w)),
      fetchObjectMetadata = (\<lambda>objectType w. (Inr projects_metadata, w)),
      getObjectLabel = (\<lambda>objectType w. (''Projects'', w)),
      getGroupableFields = attributes,
      getCapabilities = (\<lambda>w. \<lparr>hasProjects = True, hasTasks = True, hasResources = True,
                                hasCustomObjects = False\<rparr>),
      generateSuggestions = (\<lambda>c a. []),
      generateListLink = (\<lambda>objectType. ''http://clarity/pm/#/'' @ objectType @ ''/common''),
      generateRecordLink = (\<lambda>objectType recordId tab.
                              ''http://clarity/pm/#/project/'' @ js_String recordId @ ''/'' @ tab),
      generateFilteredLink = (\<lambda>objectType f v.
                                Inr (''http://clarity/pm/#/'' @ objectType @ ''/common?filter='' @ f
                                     @ ''%3D'' @ v)),
      generateMultiFilterLink = (\<lambda>objectType fs.
                                   Inr (''http://clarity/pm/#/'' @ objectType @ ''/common?filter='')),
      percentText = (\<lambda>v n. show_nat (v * 100 div n))\<rparr>"

definition fresh_handler :: "unit handler" where
  "fresh_handler = \<lparr>world = (), trace = [], contextService = Map.empty, discoveredObjects = [],
                    metadataCache = Map.empty\<rparr>"

text \<open>The state after the analysis of the projects by status.\<close>

definition analyzed :: "unit handler" where
  "analyzed = snd (executeAnalyze demo_env demo_plan ''s'' fresh_handler)"

text \<open>The state after drilling into the active projects.\<close>

definition drilled :: "unit handler" where
  "drilled = snd (handleDrillDown demo_env ''s'' (Some ''active'') ''show me the active ones'' 5
                    analyzed)"

section \<open>Variants of the demo installation\<close>

text \<open>
  The demo installation with projects whose status is written \<open>active\<close> twice and
  \<open>Active\<close> once.
\<close>

definition mixed_rows :: "row list" where
  "mixed_rows = [project_row 1 ''Apollo'' ''active'', project_row 2 ''Gemini'' ''active'',
                 project_row 3 ''Mercury'' ''Active'']"

definition mixed_env :: "unit env" where
  "mixed_env =
     demo_env\<lparr>fetch := (\<lambda>verb url body w.
                           (Response 200 (Inr [])
                              (Inr \<lparr>results = Some mixed_rows, totalCount = Some 3,
                                    internalId = VUndefined\<rparr>), w))\<rparr>"

text \<open>The state after the analysis of these projects by status.\<close>

definition mixed_analyzed :: "unit handler" where
  "mixed_analyzed = snd (executeAnalyze mixed_env demo_plan ''s'' fresh_handler)"

definition lower_active_url :: string where
  "lower_active_url = demo_base @ ''/projects?filter=((status = '' @ sq @ ''active'' @ sq
                      @ ''))&fields=_internalId,name,code,status&limit=50''"

definition help_plan :: APIPlan where
  "help_plan = \<lparr>a_action = ''help'', a_objectType = ''projects'', a_method = ''GET'',
                a_endpoint = ''/projects'', a_queryParams = None, a_body = None,
                a_groupByField = None, a_filterField = None, a_filterValue = None,
                a_explanation = ''Explain what the assistant can do''\<rparr>"

text \<open>The demo installation with a reasoning service that answers with a help plan.\<close>

definition helpful_env :: "unit env" where
  "helpful_env = demo_env\<lparr>reason := (\<lambda>prompt w. (Inr [TextBlock ''{help}''], w)),
                          parsePlan := (\<lambda>t. Inr help_plan)\<rparr>"

text \<open>
  An installation whose projects carry a manager and a status, in this order, and whose
  reasoning service proposes to group by priority.
\<close>

definition manager_attr :: AttributeMetadata where
  "manager_attr = \<lparr>apiName = ''manager'', displayName = ''Manager'', dataType = ''STRING'',
                   isRequired = False, isReadOnly = False, isLookup = False, lookupType = None\<rparr>"

definition team_metadata :: ObjectMetadata where
  "team_metadata =
     \<lparr>resourceName = ''projects'', om_label = ''Project'', pluralLabel = ''Projects'',
      isCustom = False, attributes = [manager_attr, status_attr]\<rparr>"

definition team_rows :: "row list" where
  "team_rows =
     [[(''_internalId'', VNum 1), (''manager'', VStr ''Ada''), (''status'', VStr ''Active'')],
      [(''_internalId'', VNum 2), (''manager'', VStr ''Ada''), (''status'', VStr ''Completed'')],
      [(''_internalId'', VNum 3), (''manager'', VStr ''Grace''), (''status'', VStr ''Active'')]]"

definition priority_plan :: APIPlan where
  "priority_plan = demo_plan\<lparr>a_groupByField := Some ''priority'',
                             a_explanation := ''Distribution of projects by priority''\<rparr>"

definition team_env :: "unit env" where
  "team_env =
     demo_env\<lparr>fetch := (\<lambda>verb url body w.
                           (Response 200 (Inr [])
                              (Inr \<lparr>results = Some team_rows, totalCount = Some 3,
                                    internalId = VUndefined\<rparr>), w)),
              parsePlan := (\<lambda>t. Inr priority_plan),
              fetchObjectMetadata := (\<lambda>objectType w. (Inr team_metadata, w))\<rparr>"

definition by_status_per_manager :: string where
  "by_status_per_manager = ''analyze the projects of each manager by status''"

section \<open>Sound responses\<close>

text \<open>A step returns only values with the property \<open>P\<close> (it may also throw).\<close>

definition returns_only :: "('a \<Rightarrow> bool) \<Rightarrow> ('a, 'w) prog \<Rightarrow> bool" where
  "returns_only P m = (\<forall>s r s'. m s = (Inr r, s') \<longrightarrow> P r)"

text \<open>A response has a text, and a failure has no chart.\<close>

definition sound_response :: "AIResponse \<Rightarrow> bool" where
  "sound_response r = (reply r \<noteq> [] \<and> (success r \<or> r_chartData r = None))"

definition sound_result :: "ExecResult \<Rightarrow> bool" where
  "sound_result r = (e_reply r \<noteq> [] \<and> (e_success r \<or> e_chartData r = None))"

definition sound_if_any :: "AIResponse option \<Rightarrow> bool" where
  "sound_if_any r = (case r of None \<Rightarrow> True | Some r' \<Rightarrow> sound_response r')"

definition sound_if_early :: "ExecResult + 'a \<Rightarrow> bool" where
  "sound_if_early r = (case r of Inl early \<Rightarrow> sound_result early | Inr _ \<Rightarrow> True)"

section \<open>Installations that fail\<close>

text \<open>An installation whose object API is down, with one custom object.\<close>

definition widgets :: CustomObject where
  "widgets = \<lparr>co_label = ''Widgets'', co_resourceName = ''custWidgets''\<rparr>"

definition outage_env :: "unit env" where
  "outage_env =
     demo_env\<lparr>fetch := (\<lambda>verb url body w. (Rejected ''connect ECONNREFUSED'', w)),
              getCustomObjects := (\<lambda>w. ([widgets], w))\<rparr>"

text \<open>The demo installation with a reasoning service that cannot be reached.\<close>

definition silent_env :: "unit env" where
  "silent_env = demo_env\<lparr>reason := (\<lambda>prompt w. (Inl ''Connection error.'', w))\<rparr>"

definition most_records :: string where
  "most_records = ''which custom objects have the most records''"

chapter \<open>Properties\<close>

section \<open>Properties of the context store\<close>

lemma stored_history_addToHistory_same:
  "stored_history (addToHistory sid turn cs) sid =
     (if length (stored_history cs sid @ [turn]) > MAX_HISTORY_LENGTH
      then slice_last MAX_HISTORY_LENGTH (stored_history cs sid @ [turn])
      else stored_history cs sid @ [turn])"
  by (simp add: stored_history_def addToHistory_def getContext_def createNewContext_def
      Let_def split: option.splits)

lemma stored_history_addToHistory_other:
  "s \<noteq> sid \<Longrightarrow> stored_history (addToHistory s turn cs) sid = stored_history cs sid"
  by (simp add: stored_history_def addToHistory_def getContext_def Let_def split: option.splits)

lemma slice_last_snoc:
  "0 < n \<Longrightarrow> slice_last n (slice_last n xs @ [x]) = slice_last n (xs @ [x])"
  by (cases "length xs \<le> n") (auto simp: slice_last_def Suc_diff_le)

lemma slice_last_short: "length xs \<le> n \<Longrightarrow> slice_last n xs = xs"
  by (simp add: slice_last_def)

lemma addToHistory_slice:
  "stored_history (addToHistory sid turn cs) sid =
     slice_last MAX_HISTORY_LENGTH (stored_history cs sid @ [turn])"
  by (simp add: stored_history_addToHistory_same slice_last_short)

lemma turnsFor_snoc:
  "turnsFor sid (ops @ [(s, turn)]) = (if s = sid then turnsFor sid ops @ [turn] else turnsFor sid ops)"
  by (simp add: turnsFor_def)

lemma appendTurns_snoc:
  "appendTurns (ops @ [(s, turn)]) cs = addToHistory s turn (appendTurns ops cs)"
  by (simp add: appendTurns_def)

lemma stored_history_appendTurns:
  "stored_history (appendTurns ops cs) sid =
     (if turnsFor sid ops = [] then stored_history cs sid
      else slice_last MAX_HISTORY_LENGTH (stored_history cs sid @ turnsFor sid ops))"
proof (induction ops rule: rev_induct)
  case Nil
  show ?case by (simp add: appendTurns_def turnsFor_def)
next
  case (snoc op ops)
  obtain s turn where op: "op = (s, turn)" by (cases op)
  show ?case
  proof (cases "s = sid")
    case False
    then show ?thesis
      using snoc.IH
      by (simp add: op appendTurns_snoc turnsFor_snoc stored_history_addToHistory_other)
  next
    case True
    have pos: "0 < MAX_HISTORY_LENGTH" by (simp add: MAX_HISTORY_LENGTH_def)
    show ?thesis
    proof (cases "turnsFor sid ops = []")
      case True
      with snoc.IH \<open>s = sid\<close> show ?thesis
        by (simp add: op appendTurns_snoc turnsFor_snoc addToHistory_slice)
    next
      case False
      with snoc.IH \<open>s = sid\<close> show ?thesis
        using slice_last_snoc [OF pos, of "stored_history cs sid @ turnsFor sid ops" turn]
        by (simp add: op appendTurns_snoc turnsFor_snoc addToHistory_slice)
    qed
  qed
qed

lemma stored_history_updateLastQuery:
  "stored_history (updateLastQuery s q cs) sid = stored_history cs sid"
  by (simp add: stored_history_def updateLastQuery_def getContext_def createNewContext_def
      split: option.splits)

lemma stored_history_setCurrentPage:
  "stored_history (setCurrentPage s page cs) sid = stored_history cs sid"
  by (simp add: stored_history_def setCurrentPage_def getContext_def createNewContext_def
      split: option.splits)

lemma stored_history_updatePreferences:
  "stored_history (updatePreferences s prefs cs) sid = stored_history cs sid"
  by (simp add: stored_history_def updatePreferences_def getContext_def createNewContext_def
      split: option.splits)

text \<open>
  C5 (history bound). Whatever the store holds and however the appended turns of the
  sessions interleave: once a turn has been appended to a session its stored history
  has at most 20 turns, it is the last 20 of the old history followed by the appended
  turns, and after more than 20 appended turns it is exactly the last 20 of them,
  oldest first.
\<close>

theorem history_bound:
  assumes "turnsFor sid ops \<noteq> []"
  shows "length (stored_history (appendTurns ops cs) sid) \<le> 20
       \<and> stored_history (appendTurns ops cs) sid
           = slice_last 20 (stored_history cs sid @ turnsFor sid ops)
       \<and> (20 < length (turnsFor sid ops) \<longrightarrow>
            stored_history (appendTurns ops cs) sid
              = drop (length (turnsFor sid ops) - 20) (turnsFor sid ops))"
  using assms
  by (simp add: stored_history_appendTurns MAX_HISTORY_LENGTH_def slice_last_def)

theorem history_bound_witness:
  "turnsFor ''s'' many_turns \<noteq> []
   \<and> 20 < length (turnsFor ''s'' many_turns)
   \<and> stored_history (appendTurns many_turns Map.empty) ''s'' = map (\<lambda>n. turn_at (int n)) (2 # [4..<23])
   \<and> length (stored_history (appendTurns many_turns Map.empty) ''s'') = 20"
proof -
  have tf: "turnsFor ''s'' many_turns = map (\<lambda>n. turn_at (int n)) ([0..<3] @ [4..<23])"
    by (simp add: turnsFor_def many_turns_def upt_rec [of _ "numeral _"] upt_rec [of 0])
  have ne: "turnsFor ''s'' many_turns \<noteq> []"
    by (simp add: tf)
  show ?thesis
    using history_bound [OF ne, of Map.empty]
    by (simp add: tf stored_history_def slice_last_def upt_rec [of _ "numeral _"] upt_rec [of 0])
qed

text \<open>
  C6 as stated fails: the sweep also removes a session that has no history entry at
  all. A freshly created context, swept at a present-day clock reading, is gone.
\<close>

theorem expiry_counterexample:
  "history (createNewContext ''s'') = []
   \<and> (Map.empty(''s'' \<mapsto> createNewContext ''s'')) ''s'' = Some (createNewContext ''s'')
   \<and> cleanupExpiredContexts 1700000000000 (Map.empty(''s'' \<mapsto> createNewContext ''s'')) ''s'' = None"
  by (simp add: cleanupExpiredContexts_def lastActivity_def createNewContext_def
      CONTEXT_EXPIRY_MS_def)

text \<open>
  C6 (expiry), amended. The sweep at time \<open>now\<close> removes exactly the sessions whose
  last activity is more than 30 minutes before \<open>now\<close>, the last activity being the
  timestamp of the last history entry, or epoch 0 for an empty history; every session
  that stays keeps its context unchanged. So a session whose last turn is more than 30
  minutes old is absent after the sweep, and one whose last turn was appended at minute
  29 survives the sweep at minute 30.
\<close>

theorem expiry:
  "dom (cleanupExpiredContexts now cs)
     = {sid \<in> dom cs. \<not> now - lastActivity (the (cs sid)) > 30 * 60 * 1000}
   \<and> (cs sid = Some c \<and> history c \<noteq> []
          \<and> now - t_timestamp (last (history c)) > 30 * 60 * 1000
        \<longrightarrow> cleanupExpiredContexts now cs sid = None)
   \<and> (cs sid = Some c \<and> history c \<noteq> []
          \<and> now - t_timestamp (last (history c)) \<le> 30 * 60 * 1000
        \<longrightarrow> cleanupExpiredContexts now cs sid = Some c)
   \<and> (cs sid = Some c \<and> history c \<noteq> []
          \<and> t_timestamp (last (history c)) = t0 + 29 * 60 * 1000 \<and> now = t0 + 30 * 60 * 1000
        \<longrightarrow> cleanupExpiredContexts now cs sid = Some c)"
proof -
  have "dom (cleanupExpiredContexts now cs)
     = {sid \<in> dom cs. \<not> now - lastActivity (the (cs sid)) > 30 * 60 * 1000}"
    by (auto simp: cleanupExpiredContexts_def CONTEXT_EXPIRY_MS_def dom_def
        split: option.splits if_splits)
  moreover have "cs sid = Some c \<and> history c \<noteq> []
          \<and> now - t_timestamp (last (history c)) > 30 * 60 * 1000
        \<longrightarrow> cleanupExpiredContexts now cs sid = None"
    by (simp add: cleanupExpiredContexts_def lastActivity_def CONTEXT_EXPIRY_MS_def)
  moreover have "cs sid = Some c \<and> history c \<noteq> []
          \<and> now - t_timestamp (last (history c)) \<le> 30 * 60 * 1000
        \<longrightarrow> cleanupExpiredContexts now cs sid = Some c"
    by (simp add: cleanupExpiredContexts_def lastActivity_def CONTEXT_EXPIRY_MS_def)
  moreover have "cs sid = Some c \<and> history c \<noteq> []
          \<and> t_timestamp (last (history c)) = t0 + 29 * 60 * 1000 \<and> now = t0 + 30 * 60 * 1000
        \<longrightarrow> cleanupExpiredContexts now cs sid = Some c"
    by (simp add: cleanupExpiredContexts_def lastActivity_def CONTEXT_EXPIRY_MS_def)
  ultimately show ?thesis by blast
qed

theorem expiry_witness:
  "cleanupExpiredContexts (1700000000000 + 30 * minute) sweep_store ''idle'' = None
   \<and> cleanupExpiredContexts (1700000000000 + 30 * minute) sweep_store ''fresh''
       = sweep_store ''fresh''
   \<and> sweep_store ''fresh'' \<noteq> None \<and> sweep_store ''idle'' \<noteq> None"
proof -
  let ?now = "1700000000000 + 30 * minute"
  let ?idle = "(createNewContext ''idle'')\<lparr>history := [turn_at (1700000000000 - minute)]\<rparr>"
  let ?fresh = "(createNewContext ''fresh'')\<lparr>history := [turn_at (1700000000000 + 29 * minute)]\<rparr>"
  have idle: "sweep_store ''idle'' = Some ?idle"
    by (simp add: sweep_store_def addToHistory_def getContext_def createNewContext_def
        MAX_HISTORY_LENGTH_def Let_def)
  have fresh: "sweep_store ''fresh'' = Some ?fresh"
    by (simp add: sweep_store_def addToHistory_def getContext_def createNewContext_def
        MAX_HISTORY_LENGTH_def Let_def)
  have a: "cleanupExpiredContexts ?now sweep_store ''idle'' = None"
    using expiry [of ?now sweep_store "''idle''" ?idle 0] idle
    by (simp add: turn_at_def minute_def)
  have b: "cleanupExpiredContexts ?now sweep_store ''fresh'' = Some ?fresh"
    using expiry [of ?now sweep_store "''fresh''" ?fresh 1700000000000] fresh
    by (simp add: turn_at_def minute_def)
  show ?thesis
    using a b by (simp add: idle fresh)
qed

text \<open>
  C10. A session whose history is empty is removed by every sweep whose clock reads
  later than 30 minutes past the epoch, whatever else the context holds and however
  recently it was made: its last activity counts as time 0. A context that exists only
  because \<open>getContext\<close>, \<open>setCurrentPage\<close> or \<open>updatePreferences\<close> created it is
  therefore gone after the first sweep.
\<close>

theorem empty_history_swept:
  assumes "CONTEXT_EXPIRY_MS < now"
  shows "(\<forall>sid c. cs sid = Some c \<and> history c = [] \<longrightarrow> cleanupExpiredContexts now cs sid = None)
       \<and> (\<forall>sid. cs sid = None \<longrightarrow>
             cleanupExpiredContexts now (snd (getContext sid cs)) sid = None
           \<and> cleanupExpiredContexts now (setCurrentPage sid page cs) sid = None
           \<and> cleanupExpiredContexts now (updatePreferences sid prefs cs) sid = None
           \<and> snd (getContext sid cs) sid \<noteq> None
           \<and> setCurrentPage sid page cs sid \<noteq> None
           \<and> updatePreferences sid prefs cs sid \<noteq> None)"
  using assms
  by (auto simp: cleanupExpiredContexts_def lastActivity_def getContext_def setCurrentPage_def
      updatePreferences_def createNewContext_def)

theorem empty_history_swept_witness:
  "CONTEXT_EXPIRY_MS < 1700000000000
   \<and> setCurrentPage ''s'' None Map.empty ''s'' \<noteq> None
   \<and> cleanupExpiredContexts 1700000000000 (setCurrentPage ''s'' None Map.empty) ''s'' = None"
proof -
  have h: "CONTEXT_EXPIRY_MS < 1700000000000"
    by (simp add: CONTEXT_EXPIRY_MS_def)
  from empty_history_swept [OF h, of Map.empty None
      "\<lparr>preferredChartType = None, language = None, detailLevel = None\<rparr>"]
  show ?thesis
    using h by simp
qed

section \<open>Properties of the client's retry loop\<close>

lemma str_includes_iff: "str_includes s t \<longleftrightarrow> (\<exists>p r. s = p @ t @ r)"
proof (induction s)
  case Nil
  show ?case by simp
next
  case (Cons c cs)
  show ?case
  proof
    assume "str_includes (c # cs) t"
    then consider "prefix t (c # cs)" | "str_includes cs t" by auto
    then show "\<exists>p r. c # cs = p @ t @ r"
    proof cases
      case 1
      then obtain r where "c # cs = t @ r" by (auto simp: prefix_def)
      then have "c # cs = [] @ t @ r" by simp
      then show ?thesis by blast
    next
      case 2
      then obtain p r where "cs = p @ t @ r" using Cons.IH by blast
      then have "c # cs = (c # p) @ t @ r" by simp
      then show ?thesis by blast
    qed
  next
    assume "\<exists>p r. c # cs = p @ t @ r"
    then obtain p r where eq: "c # cs = p @ t @ r" by blast
    show "str_includes (c # cs) t"
    proof (cases p)
      case Nil
      then have "prefix t (c # cs)" using eq by (simp add: prefix_def)
      then show ?thesis by simp
    next
      case (Cons a p')
      then have "cs = p' @ t @ r" using eq by simp
      then have "str_includes cs t" using Cons.IH by blast
      then show ?thesis by simp
    qed
  qed
qed

lemma str_includes_middle: "str_includes (p @ t @ r) t"
  by (auto simp: str_includes_iff)

lemma show_nat_401: "show_nat 401 = ''401''"
  by (simp add: show_nat.simps digit_char_def)

lemma show_nat_403: "show_nat 403 = ''403''"
  by (simp add: show_nat.simps digit_char_def)

lemma show_nat_500: "show_nat 500 = ''500''"
  by (simp add: show_nat.simps digit_char_def)

lemma http_auth_message:
  "status = 401 \<or> status = 403 \<Longrightarrow>
   looks_like_auth (''HTTP '' @ show_nat status @ '': '' @ errorText)"
  unfolding looks_like_auth_def
  using str_includes_middle [of "''HTTP ''" "''401''" "'': '' @ errorText"]
        str_includes_middle [of "''HTTP ''" "''403''" "'': '' @ errorText"]
  by (auto simp: show_nat_401 show_nat_403)

text \<open>
  An HTTP 401 or 403 answer ends the request at once: the error is thrown after that
  attempt, with no wait and no further attempt.
\<close>

lemma auth_failure_not_retried:
  assumes "attempt < maxRetries cl"
    and "fetch tr verb url body (world s) = (Response status (Inr errorText) data, w')"
    and "status = 401 \<or> status = 403"
  shows "request_loop tr cl verb url body attempt lastError s =
           (Inl (''HTTP '' @ show_nat status @ '': '' @ errorText),
            s\<lparr>world := w', trace := trace s @ [Fetch verb url]\<rparr>)"
proof -
  have nok: "\<not> response_ok status"
    using assms(3) by (auto simp: response_ok_def)
  have auth: "str_includes (''HTTP '' @ show_nat status @ '': '' @ errorText) ''401''
            \<or> str_includes (''HTTP '' @ show_nat status @ '': '' @ errorText) ''403''"
    using http_auth_message [OF assms(3), of errorText] by (simp add: looks_like_auth_def)
  show ?thesis
    using assms(1,2) nok auth
    by (subst request_loop.simps) (simp add: Let_def)
qed

text \<open>
  When every attempt fails with a message that holds neither \<open>401\<close> nor \<open>403\<close>, the
  request makes every attempt up to \<open>maxRetries\<close>, waits \<open>1000 * (attempt + 1)\<close>
  milliseconds after each but the last, and throws.
\<close>

lemma other_failures_retried:
  "\<forall>w. \<exists>msg. attempt_result (fst (fetch tr verb url body w)) = Inl msg \<and> \<not> looks_like_auth msg
   \<Longrightarrow> attempt < maxRetries cl \<Longrightarrow>
         (\<exists>msg. fst (request_loop tr cl verb url body attempt lastError s) = Inl msg)
       \<and> trace (snd (request_loop tr cl verb url body attempt lastError s))
           = trace s @ retry_trace verb url (maxRetries cl) attempt"
proof (induction tr cl verb url body attempt lastError s rule: request_loop.induct)
  case (1 tr cl verb url body attempt lastError s)
  obtain outcome w' where f: "fetch tr verb url body (world s) = (outcome, w')"
    by (cases "fetch tr verb url body (world s)")
  obtain msg where m: "attempt_result outcome = Inl msg" "\<not> looks_like_auth msg"
    using "1.prems"(1) f by (metis fst_conv)
  let ?s1 = "s\<lparr>world := w', trace := trace s @ [Fetch verb url]\<rparr>"
  let ?s2 = "if attempt < maxRetries cl - 1
             then ?s1\<lparr>trace := trace ?s1 @ [Sleep (1000 * (attempt + 1))]\<rparr> else ?s1"
  have step: "request_loop tr cl verb url body attempt lastError s
                = request_loop tr cl verb url body (attempt + 1) (Some msg) ?s2"
    using "1.prems"(2) f m
    by (subst request_loop.simps) (simp add: Let_def looks_like_auth_def)
  show ?case
  proof (cases "attempt + 1 < maxRetries cl")
    case True
    have IH: "(\<exists>msg'. fst (request_loop tr cl verb url body (attempt + 1) (Some msg) ?s2) = Inl msg')
       \<and> trace (snd (request_loop tr cl verb url body (attempt + 1) (Some msg) ?s2))
           = trace ?s2 @ retry_trace verb url (maxRetries cl) (attempt + 1)"
      using "1.IH" [OF "1.prems"(2) f [symmetric] refl m(1) _ refl "1.prems"(1) True] m(2)
      by (simp add: looks_like_auth_def)
    show ?thesis
      using IH True "1.prems"(2)
      by (simp add: step retry_trace.simps [of verb url "maxRetries cl" attempt])
  next
    case False
    have fin: "request_loop tr cl verb url body (attempt + 1) (Some msg) st = (Inl msg, st)" for st
      using False by (subst request_loop.simps) simp
    show ?thesis
      using False "1.prems"(2)
      by (simp add: step fin retry_trace.simps [of verb url "maxRetries cl" attempt]
          retry_trace.simps [of verb url "maxRetries cl" "attempt + 1"])
  qed
qed

text \<open>
  C8, where the code leaves the claim. The test for an authentication failure is a
  search for \<open>401\<close> or \<open>403\<close> anywhere in the error message. An HTTP 500 whose body
  happens to hold those digits is not retried, although three attempts are configured;
  the same answer with another body is tried three times, with waits of 1000 and 2000
  milliseconds.
\<close>

theorem server_error_with_auth_digits_not_retried:
  "request (failing_server ''upstream failure, incident 14013'') test_client ''GET'' ''/projects'' None
     \<lparr>world = (), trace = []\<rparr>
   = (Inl ''HTTP 500: upstream failure, incident 14013'',
      \<lparr>world = (), trace = [Fetch ''GET'' ''http://clarity/ppm/rest/v1/projects'']\<rparr>)
   \<and> request (failing_server ''upstream failure'') test_client ''GET'' ''/projects'' None
     \<lparr>world = (), trace = []\<rparr>
   = (Inl ''HTTP 500: upstream failure'',
      \<lparr>world = (), trace = [Fetch ''GET'' ''http://clarity/ppm/rest/v1/projects'', Sleep 1000,
                             Fetch ''GET'' ''http://clarity/ppm/rest/v1/projects'', Sleep 2000,
                             Fetch ''GET'' ''http://clarity/ppm/rest/v1/projects'']\<rparr>)"
  by (simp add: request_def request_url_def failing_server_def test_client_def
      request_loop.simps response_ok_def show_nat_500 Let_def)

section \<open>Stepping through the handler\<close>

lemma ret_apply: "ret x s = (Inr x, s)"
  by (simp add: ret_def)

lemma throw_apply: "throw e s = (Inl e, s)"
  by (simp add: throw_def)

lemma bind_apply:
  "bind m f s = (case m s of (Inl e, s') \<Rightarrow> (Inl e, s') | (Inr x, s') \<Rightarrow> f x s')"
  by (simp add: bind_def)

lemma bind_Inr: "m s = (Inr x, s') \<Longrightarrow> bind m f s = f x s'"
  by (simp add: bind_def)

lemma bind_Inl: "m s = (Inl e, s') \<Longrightarrow> bind m f s = (Inl e, s')"
  by (simp add: bind_def)

lemma try_catch_apply:
  "try_catch m h s = (case m s of (Inl e, s') \<Rightarrow> h e s' | (Inr x, s') \<Rightarrow> (Inr x, s'))"
  by (simp add: try_catch_def)

lemma of_result_apply: "of_result r s = (r, s)"
  by (simp add: of_result_def)

lemma read_world_apply: "read_world f s = (Inr (f (world s)), s)"
  by (simp add: read_world_def)

lemma with_contexts_apply:
  "with_contexts f s =
     (Inr (fst (f (contextService s))), s\<lparr>contextService := snd (f (contextService s))\<rparr>)"
  by (simp add: with_contexts_def split: prod.splits)

lemma update_contexts_apply:
  "update_contexts f s = (Inr (), s\<lparr>contextService := f (contextService s)\<rparr>)"
  by (simp add: update_contexts_def)

lemmas step_simps =
  ret_apply throw_apply bind_apply try_catch_apply of_result_apply read_world_apply
  with_contexts_apply update_contexts_apply

lemma getContext_present: "cs sid = Some c \<Longrightarrow> getContext sid cs = (c, cs)"
  by (simp add: getContext_def)

lemma getContext_stores: "snd (getContext sid cs) sid = Some (fst (getContext sid cs))"
  by (simp add: getContext_def split: option.splits)

lemma updateLastQuery_lookup:
  "updateLastQuery sid q cs sid = Some ((fst (getContext sid cs))\<lparr>lastQuery := q\<rparr>)"
  by (simp add: updateLastQuery_def split: prod.splits)

lemma str_includes_refl: "str_includes s s"
  by (cases s) simp_all

lemma toLowerCase_Active: "toLowerCase ''Active'' = ''active''"
  by code_simp

lemma toLowerCase_Completed: "toLowerCase ''Completed'' = ''completed''"
  by code_simp

text \<open>With the context present, the lookups of the drill-down leave the store as it is.\<close>

lemma getDrillDownOptions_present:
  "cs sid = Some c \<Longrightarrow> getDrillDownOptions sid cs = (drillDownOptionsOf c, cs)"
  by (simp add: getDrillDownOptions_def getContext_present)

lemma findDrillDownMatch_present:
  "cs sid = Some c \<Longrightarrow>
   findDrillDownMatch sid userValue cs =
     (let lowerUserValue = toLowerCase userValue;
          exactMatch = find (\<lambda>opt. toLowerCase opt = lowerUserValue) (drillDownOptionsOf c);
          partialMatch = find (\<lambda>opt. str_includes (toLowerCase opt) lowerUserValue
                                    \<or> str_includes lowerUserValue (toLowerCase opt))
                              (drillDownOptionsOf c)
      in (if truthy exactMatch then exactMatch
          else if truthy partialMatch then partialMatch
          else None), cs)"
  by (simp add: findDrillDownMatch_def getDrillDownOptions_present Let_def)

text \<open>
  C4 (drill-down no-match). The last analysis left the chart labels \<open>Active\<close> and
  \<open>Completed\<close>; the value extracted from the follow-up (if any) neither contains nor is
  contained in a label, compared in lower case, and the message holds neither label.
  Then \<open>handleDrillDown\<close> answers with the failure that lists exactly the two labels, and
  the handler's state is unchanged: no entry is added to the log of remote calls, the
  world is not touched, and the context store is as before.
\<close>

theorem drill_down_no_match:
  assumes ctx: "contextService s sid = Some c"
    and lq: "lastQuery c = Some q"
    and field: "q_groupByField q = Some g" "g \<noteq> []" "q_objectType q \<noteq> []"
    and chart: "q_chartData q = Some chart" "map_of chart g = Some items"
    and labels: "map label items = [''Active'', ''Completed'']"
    and extracted: "extractedValue = None \<or> extractedValue = Some [] \<or>
         (\<exists>v. extractedValue = Some v
              \<and> \<not> str_includes ''active'' (toLowerCase v) \<and> \<not> str_includes (toLowerCase v) ''active''
              \<and> \<not> str_includes ''completed'' (toLowerCase v)
              \<and> \<not> str_includes (toLowerCase v) ''completed'')"
    and message: "\<not> str_includes (toLowerCase originalMessage) ''active''"
                 "\<not> str_includes (toLowerCase originalMessage) ''completed''"
  shows "handleDrillDown env sid extractedValue originalMessage timestamp s
           = (Inr (Some (respond False (noMatchReply [''Active'', ''Completed'']) timestamp)), s)
       \<and> noMatchReply [''Active'', ''Completed'']
           = question_sign @ '' I couldn'' @ sq @ ''t determine which value you want to see.''
             @ newline @ newline @ ''**Available options from the last chart:**'' @ newline
             @ bullet @ '' '' @ dq @ ''Active'' @ dq @ newline
             @ bullet @ '' '' @ dq @ ''Completed'' @ dq
             @ newline @ newline @ ''Please specify one of these values.''"
proof -
  have opts: "drillDownOptionsOf c = [''Active'', ''Completed'']"
    using lq field chart labels by (simp add: drillDownOptionsOf_def)
  have gc: "getContext sid (contextService s) = (c, contextService s)"
    using ctx by (simp add: getContext_def)
  have go: "getDrillDownOptions sid (contextService s) = ([''Active'', ''Completed''], contextService s)"
    by (simp add: getDrillDownOptions_def gc opts)
  have first: "(if truthy extractedValue
                then with_contexts (findDrillDownMatch sid (the extractedValue))
                else ret None) s = (Inr None, s)"
  proof (cases "truthy extractedValue")
    case False
    then show ?thesis by (simp add: ret_apply)
  next
    case True
    then obtain v where v: "extractedValue = Some v"
        "\<not> str_includes ''active'' (toLowerCase v)" "\<not> str_includes (toLowerCase v) ''active''"
        "\<not> str_includes ''completed'' (toLowerCase v)" "\<not> str_includes (toLowerCase v) ''completed''"
      using extracted by auto
    have ne: "toLowerCase v \<noteq> ''active''" "toLowerCase v \<noteq> ''completed''"
      using v(2,4) str_includes_refl by metis+
    have "findDrillDownMatch sid v (contextService s) = (None, contextService s)"
      using v ne
      by (simp add: findDrillDownMatch_def go toLowerCase_Active
          toLowerCase_Completed Let_def eq_commute [of "''active''"] eq_commute [of "''completed''"])
    then show ?thesis
      using True v(1) by (simp add: with_contexts_apply)
  qed
  have scan: "find (\<lambda>opt. str_includes (toLowerCase originalMessage) (toLowerCase opt))
                [''Active'', ''Completed''] = None"
    using message by (simp add: toLowerCase_Active toLowerCase_Completed)
  have run: "handleDrillDown env sid extractedValue originalMessage timestamp s
           = (Inr (Some (respond False (noMatchReply [''Active'', ''Completed'']) timestamp)), s)"
    unfolding handleDrillDown_def
    using lq field first scan
    by (simp add: bind_apply with_contexts_apply ret_apply gc go)
  have wording: "noMatchReply [''Active'', ''Completed'']
           = question_sign @ '' I couldn'' @ sq @ ''t determine which value you want to see.''
             @ newline @ newline @ ''**Available options from the last chart:**'' @ newline
             @ bullet @ '' '' @ dq @ ''Active'' @ dq @ newline
             @ bullet @ '' '' @ dq @ ''Completed'' @ dq
             @ newline @ newline @ ''Please specify one of these values.''"
    by (simp add: noMatchReply_def)
  show ?thesis using run wording by simp
qed

lemma respond_simps:
  "success (respond ok t ts) = ok"
  "reply (respond ok t ts) = t"
  "r_chartData (respond ok t ts) = None"
  "r_timestamp (respond ok t ts) = ts"
  "success (r\<lparr>deepLink := l\<rparr>) = success r"
  "reply (r\<lparr>deepLink := l\<rparr>) = reply r"
  "r_chartData (r\<lparr>deepLink := l\<rparr>) = r_chartData r"
  by (simp_all add: respond_def)

section \<open>After a drill-down\<close>

lemma drillDownInto_cases:
  assumes run: "drillDownInto env sid q matchedValue timestamp s = (res, s')"
  shows "(\<exists>r. res = Inr (Some r) \<and> \<not> success r)
       \<or> (\<exists>r s1 records n now. res = Inr (Some r) \<and> success r
             \<and> s' = s1\<lparr>contextService :=
                        updateLastQuery sid (Some (drillDownMemory q matchedValue records n now))
                          (contextService s1)\<rparr>)"
proof -
  let ?ep = "drillDownEndpoint (q_objectType q) (the (q_groupByField q)) matchedValue"
  obtain r1 s1 where g: "client_get env ?ep s = (r1, s1)"
    by (cases "client_get env ?ep s")
  show ?thesis
  proof (cases r1)
    case (Inl e)
    then have "\<exists>r. res = Inr (Some r) \<and> \<not> success r"
      using run g unfolding drillDownInto_def
      by (auto simp: step_simps Let_def respond_simps)
    then show ?thesis by blast
  next
    case (Inr response)
    show ?thesis
    proof (cases "generateFilteredLink env (q_objectType q) (the (q_groupByField q)) matchedValue")
      case (Inl e)
      then have "\<exists>r. res = Inr (Some r) \<and> \<not> success r"
        using run g Inr unfolding drillDownInto_def
        by (auto simp: step_simps Let_def respond_simps)
      then show ?thesis by blast
    next
      case (Inr link)
      have "\<exists>r. res = Inr (Some r) \<and> success r
             \<and> s' = s1\<lparr>contextService :=
                        updateLastQuery sid
                          (Some (drillDownMemory q matchedValue (results_of response)
                                   (totalCount_of response) (clock env (world s1))))
                          (contextService s1)\<rparr>"
        using run g \<open>r1 = Inr response\<close> Inr unfolding drillDownInto_def drillDownMemory_def
        by (auto simp: step_simps Let_def respond_simps)
      then show ?thesis by blast
    qed
  qed
qed

lemma handleDrillDown_success:
  assumes "handleDrillDown env sid extractedValue originalMessage timestamp s = (Inr (Some r), s')"
    and "success r"
  shows "\<exists>q matchedValue s0. drillDownInto env sid q matchedValue timestamp s0 = (Inr (Some r), s')"
  using assms
  unfolding handleDrillDown_def
  by (auto simp: step_simps respond_simps split: option.splits if_splits prod.splits sum.splits)

lemma hasChart_after_drillDown:
  "\<not> hasChart (c\<lparr>lastQuery := Some (drillDownMemory q matchedValue records n now)\<rparr>)"
  by (simp add: hasChart_def drillDownMemory_def)

text \<open>
  C9. After a successful drill-down the session's last query is the drill-down record:
  action \<open>drilldown\<close>, one filter, neither chart data nor grouping field. So
  \<open>canDrillDown\<close> is false at once, and the follow-up step of \<open>handleMessage\<close> declines
  every next message for that session, whatever its intent, leaving the state as it is.
\<close>

theorem no_second_drill_down:
  assumes "handleDrillDown env sid extractedValue originalMessage timestamp s = (Inr (Some r), s')"
    and "success r"
  shows "(\<exists>c q. contextService s' sid = Some c \<and> lastQuery c = Some q
            \<and> q_action q = ''drilldown'' \<and> (\<exists>f v. q_filters q = Some [(f, v)])
            \<and> q_chartData q = None \<and> q_groupByField q = None)
       \<and> canDrillDown sid (contextService s') = (False, contextService s')
       \<and> followUpStep env nextMessage sid nextTimestamp s' = (Inr None, s')"
proof -
  obtain q matchedValue s0 where
    into: "drillDownInto env sid q matchedValue timestamp s0 = (Inr (Some r), s')"
    using handleDrillDown_success [OF assms] by blast
  obtain s1 records n now where
    s': "s' = s1\<lparr>contextService :=
                  updateLastQuery sid (Some (drillDownMemory q matchedValue records n now))
                    (contextService s1)\<rparr>"
    using drillDownInto_cases [OF into] assms(2) by auto
  let ?m = "drillDownMemory q matchedValue records n now"
  let ?c = "(fst (getContext sid (contextService s1)))\<lparr>lastQuery := Some ?m\<rparr>"
  have stored: "contextService s' sid = Some ?c"
    by (simp add: s' updateLastQuery_lookup)
  have gc: "getContext sid (contextService s') = (?c, contextService s')"
    using stored by (simp add: getContext_def)
  have can: "canDrillDown sid (contextService s') = (False, contextService s')"
    by (simp add: canDrillDown_def gc hasChart_after_drillDown)
  have a: "\<exists>c q. contextService s' sid = Some c \<and> lastQuery c = Some q
            \<and> q_action q = ''drilldown'' \<and> (\<exists>f v. q_filters q = Some [(f, v)])
            \<and> q_chartData q = None \<and> q_groupByField q = None"
    using stored by (simp add: drillDownMemory_def)
  have b: "followUpStep env nextMessage sid nextTimestamp s' = (Inr None, s')"
    unfolding followUpStep_def
    by (simp add: step_simps can Let_def split: option.splits)
  show ?thesis using a can b by blast
qed

section \<open>Analysis and drill-down\<close>

lemma handleDrillDown_resolved:
  assumes ctx: "contextService s sid = Some c"
    and lq: "lastQuery c = Some q"
    and ok: "truthy (q_groupByField q)" "q_objectType q \<noteq> []"
    and res: "resolveDrillDown c extractedValue originalMessage = Some matchedValue"
             "matchedValue \<noteq> []"
  shows "handleDrillDown env sid extractedValue originalMessage timestamp s
           = drillDownInto env sid q matchedValue timestamp s"
proof -
  have gc: "getContext sid (contextService s) = (c, contextService s)"
    using ctx by (simp add: getContext_def)
  have go: "getDrillDownOptions sid (contextService s) = (drillDownOptionsOf c, contextService s)"
    by (simp add: getDrillDownOptions_def gc)
  show ?thesis
    unfolding handleDrillDown_def
    using lq ok res
    by (auto simp: step_simps gc go findDrillDownMatch_def resolveDrillDown_def Let_def
        split: if_splits)
qed

lemma drillDownInto_trace:
  "trace (snd (drillDownInto env sid q matchedValue timestamp s))
     = trace (snd (client_get env
                     (drillDownEndpoint (q_objectType q) (the (q_groupByField q)) matchedValue) s))"
  unfolding drillDownInto_def
  by (auto simp: step_simps Let_def split: prod.splits sum.splits)

subsection \<open>The distribution\<close>

lemma sum_bump: "sum_list (map snd (bump k d)) = Suc (sum_list (map snd d))"
  by (induction k d rule: bump.induct) auto

lemma sum_fold_bump:
  "sum_list (map snd (fold (\<lambda>r d. bump (f r) d) records d))
     = sum_list (map snd d) + length records"
  by (induction records arbitrary: d) (auto simp: sum_bump)

lemma sum_buildDistribution:
  "sum_list (map snd (buildDistribution actualFieldName records)) = length records"
  by (simp add: buildDistribution_def sum_fold_bump)

lemma keys_bump: "fst ` set (bump k d) = insert k (fst ` set d)"
  by (induction k d rule: bump.induct) auto

lemma keys_fold_bump:
  "fst ` set (fold (\<lambda>r d. bump (f r) d) records d) = fst ` set d \<union> f ` set records"
  by (induction records arbitrary: d) (auto simp: keys_bump)

lemma keys_buildDistribution:
  "fst ` set (buildDistribution actualFieldName records)
     = (\<lambda>r. displayValueOf (field r actualFieldName)) ` set records"
  by (simp add: buildDistribution_def keys_fold_bump)

lemma displayValueOf_nonempty: "displayValueOf v \<noteq> []"
  by (simp add: displayValueOf_def)

lemma sum_list_sort_key:
  fixes g :: "'a \<Rightarrow> nat"
  shows "sum_list (map g (sort_key f xs)) = sum_list (map g xs)"
proof -
  have "mset (map g (sort_key f xs)) = mset (map g xs)"
    by simp
  then have "sum_mset (mset (map g (sort_key f xs))) = sum_mset (mset (map g xs))"
    by (rule arg_cong)
  then show ?thesis
    by (simp only: sum_mset_sum_list)
qed

lemma sum_chartDataArrayOf:
  "sum_list (map count (chartDataArrayOf d)) = sum_list (map snd d)"
proof -
  have "map count (map (\<lambda>(l, v). \<lparr>label = l, count = v\<rparr>) d) = map snd d"
    by (induction d) auto
  then show ?thesis
    by (simp add: chartDataArrayOf_def sum_list_sort_key del: map_map)
qed

lemma sum_chart:
  "sum_list (map count (chartDataArrayOf (buildDistribution actualFieldName records)))
     = length records"
  by (simp add: sum_chartDataArrayOf sum_buildDistribution)

lemma in_world_apply:
  "in_world f s = (Inr (fst (f (world s))), s\<lparr>world := snd (f (world s))\<rparr>)"
  by (simp add: in_world_def split: prod.splits)

lemma in_world_throwing_apply:
  "in_world_throwing f s = (fst (f (world s)), s\<lparr>world := snd (f (world s))\<rparr>)"
  by (simp add: in_world_throwing_def split: prod.splits)

lemma answer_simps:
  "e_success (answer ok t) = ok"
  "e_reply (answer ok t) = t"
  "e_chartData (answer ok t) = None"
  by (simp_all add: answer_def)

lemma executeAnalyze_success:
  assumes run: "executeAnalyze env plan sid s = (Inr r, s')"
    and ok: "e_success r"
  shows "\<exists>metadata fieldMeta s0 response s1 objectLabel now.
           getObjectMetadata env (a_objectType plan) s = (Inr metadata, s0)
         \<and> findFieldMeta (case a_groupByField plan of Some g \<Rightarrow> g | None \<Rightarrow> ''status'') metadata
             = Some fieldMeta
         \<and> client_get env (analyzeEndpoint (a_objectType plan) (apiName fieldMeta)) s0
             = (Inr response, s1)
         \<and> contextService s' =
             updateLastQuery sid
               (Some (analysisMemory (a_objectType plan) objectLabel fieldMeta
                        (results_of response) now))
               (contextService s1)"
proof -
  let ?g = "case a_groupByField plan of Some g \<Rightarrow> g | None \<Rightarrow> ''status''"
  obtain rm s0 where gm: "getObjectMetadata env (a_objectType plan) s = (rm, s0)"
    by (cases "getObjectMetadata env (a_objectType plan) s")
  show ?thesis
  proof (cases rm)
    case (Inl e)
    then show ?thesis
      using run gm unfolding executeAnalyze_def by (simp add: step_simps Let_def)
  next
    case (Inr metadata)
    note md = this
    show ?thesis
    proof (cases "findFieldMeta ?g metadata")
      case None
      then show ?thesis
        using run ok gm md unfolding executeAnalyze_def
        by (auto simp: step_simps Let_def answer_simps)
    next
      case (Some fieldMeta)
      note fm = this
      let ?ep = "analyzeEndpoint (a_objectType plan) (apiName fieldMeta)"
      obtain rg s1 where cg: "client_get env ?ep s0 = (rg, s1)"
        by (cases "client_get env ?ep s0")
      show ?thesis
      proof (cases rg)
        case (Inl e)
        then show ?thesis
          using run ok gm md fm cg unfolding executeAnalyze_def
          by (auto simp: step_simps Let_def answer_simps)
      next
        case (Inr response)
        have "contextService s' =
             updateLastQuery sid
               (Some (analysisMemory (a_objectType plan)
                        (fst (getObjectLabel env (a_objectType plan) (world s1))) fieldMeta
                        (results_of response)
                        (clock env (snd (getObjectLabel env (a_objectType plan) (world s1))))))
               (contextService s1)"
          using run gm md fm cg Inr unfolding executeAnalyze_def analysisMemory_def
          by (auto simp: step_simps in_world_apply Let_def)
        then show ?thesis
          using gm md fm cg Inr by blast
      qed
    qed
  qed
qed

text \<open>
  C2 (grouping round-trip), the counterexample. The analysis tallies \<open>active\<close> and
  \<open>Active\<close> as two labels, in this order; the drill-down compares in lower case and takes
  the first label that fits. Drilling into the label \<open>Active\<close>, by its value or by a
  message, asks for the records whose status is \<open>active\<close>.
\<close>

theorem grouping_round_trip_counterexample:
  "map_option (\<lambda>c. map_option (\<lambda>q. (q_groupByField q, q_chartData q)) (lastQuery c))
     (contextService mixed_analyzed ''s'')
     = Some (Some (Some ''status'',
                   Some [(''status'', [\<lparr>label = ''active'', count = 2\<rparr>,
                                        \<lparr>label = ''Active'', count = 1\<rparr>])]))
   \<and> trace (snd (handleDrillDown mixed_env ''s'' (Some ''Active'') ''show me the Active ones'' 5
                    mixed_analyzed))
       = trace mixed_analyzed @ [Fetch ''GET'' lower_active_url]
   \<and> trace (snd (handleMessage mixed_env ''show me the Active ones'' ''s'' mixed_analyzed))
       = trace mixed_analyzed @ [Fetch ''GET'' lower_active_url]"
proof -
  have "map_option (\<lambda>c. map_option (\<lambda>q. (q_groupByField q, q_chartData q)) (lastQuery c))
          (contextService mixed_analyzed ''s'')
        = Some (Some (Some ''status'',
                      Some [(''status'', [\<lparr>label = ''active'', count = 2\<rparr>,
                                           \<lparr>label = ''Active'', count = 1\<rparr>])]))"
    by code_simp
  moreover have "trace (snd (handleDrillDown mixed_env ''s'' (Some ''Active'')
                              ''show me the Active ones'' 5 mixed_analyzed))
                 = trace mixed_analyzed @ [Fetch ''GET'' lower_active_url]"
    by code_simp
  moreover have "trace (snd (handleMessage mixed_env ''show me the Active ones'' ''s''
                               mixed_analyzed))
                 = trace mixed_analyzed @ [Fetch ''GET'' lower_active_url]"
    by code_simp
  ultimately show ?thesis
    by blast
qed

text \<open>
  C2 (grouping round-trip), as the code has it. After a successful analysis of object
  type \<open>O\<close> the session's last query holds the grouping field \<open>F\<close> and the distribution,
  and: (b) the values of the stored buckets add up to the number of rows the analysis
  fetched, which is also the stored total; (a) a later drill-down for that session into
  a label \<open>L\<close> of the distribution, named by a value \<open>v\<close> that equals \<open>L\<close> up to letter
  case, does remotely one \<open>client.get\<close> of the endpoint whose filter clause is
  \<open>((F = 'M'))\<close>, where \<open>M\<close> is the first label of the chart that equals \<open>L\<close> up to letter
  case: this is \<open>L\<close> itself when no other label of the chart equals \<open>L\<close> up to letter case.
\<close>

theorem grouping_round_trip:
  assumes run: "executeAnalyze env plan sid s = (Inr r, s1)"
    and ok: "e_success r"
  shows "\<exists>c q F items records.
           contextService s1 sid = Some c \<and> lastQuery c = Some q
         \<and> q_objectType q = a_objectType plan \<and> q_groupByField q = Some F
         \<and> q_chartData q = Some [(F, items)]
         \<and> (\<exists>s0 s0' response.
               client_get env (analyzeEndpoint (a_objectType plan) F) s0 = (Inr response, s0')
             \<and> records = results_of response)
         \<and> q_totalCount q = Some (int (length records))
         \<and> sum_list (map count items) = length records
         \<and> (\<forall>L v originalMessage timestamp s2 c2.
               contextService s2 sid = Some c2 \<and> lastQuery c2 = Some q
               \<and> a_objectType plan \<noteq> [] \<and> F \<noteq> []
               \<and> L \<in> set (map label items)
               \<and> v \<noteq> [] \<and> toLowerCase v = toLowerCase L
               \<longrightarrow> (\<exists>M. find (\<lambda>opt. toLowerCase opt = toLowerCase L) (map label items) = Some M
                      \<and> trace (snd (handleDrillDown env sid (Some v) originalMessage timestamp s2))
                          = trace (snd (client_get env
                                          (''/'' @ a_objectType plan @ ''?filter=(('' @ F @ '' = ''
                                           @ sq @ M @ sq
                                           @ ''))&fields=_internalId,name,code,status&limit=50'')
                                          s2))
                      \<and> ((\<forall>L' \<in> set (map label items).
                              toLowerCase L' = toLowerCase L \<longrightarrow> L' = L)
                           \<longrightarrow> M = L)))"
proof -
  obtain metadata fieldMeta s0 response s0' objectLabel now where
    cg: "client_get env (analyzeEndpoint (a_objectType plan) (apiName fieldMeta)) s0
           = (Inr response, s0')"
    and cs: "contextService s1 =
             updateLastQuery sid
               (Some (analysisMemory (a_objectType plan) objectLabel fieldMeta
                        (results_of response) now))
               (contextService s0')"
    using executeAnalyze_success [OF run ok] by blast
  let ?F = "apiName fieldMeta"
  let ?records = "results_of response"
  let ?items = "chartDataArrayOf (buildDistribution ?F ?records)"
  let ?q = "analysisMemory (a_objectType plan) objectLabel fieldMeta ?records now"
  let ?c = "(fst (getContext sid (contextService s0')))\<lparr>lastQuery := Some ?q\<rparr>"
  have stored: "contextService s1 sid = Some ?c"
    by (simp add: cs updateLastQuery_lookup)
  have drill: "\<exists>M. find (\<lambda>opt. toLowerCase opt = toLowerCase L) (map label ?items) = Some M
                \<and> trace (snd (handleDrillDown env sid (Some v) originalMessage timestamp s2))
                    = trace (snd (client_get env
                                    (''/'' @ a_objectType plan @ ''?filter=(('' @ ?F @ '' = ''
                                     @ sq @ M @ sq
                                     @ ''))&fields=_internalId,name,code,status&limit=50'')
                                    s2))
                \<and> ((\<forall>L' \<in> set (map label ?items). toLowerCase L' = toLowerCase L \<longrightarrow> L' = L)
                     \<longrightarrow> M = L)"
    if h: "contextService s2 sid = Some c2" "lastQuery c2 = Some ?q" "a_objectType plan \<noteq> []"
          "?F \<noteq> []" "L \<in> set (map label ?items)" "v \<noteq> []" "toLowerCase v = toLowerCase L"
    for L v originalMessage timestamp s2 c2
  proof -
    let ?same = "\<lambda>opt. toLowerCase opt = toLowerCase L"
    have opts: "drillDownOptionsOf c2 = map label ?items"
      using h(2,4) by (simp add: drillDownOptionsOf_def analysisMemory_def)
    obtain M where M: "find ?same (map label ?items) = Some M"
      using h(5) by (cases "find ?same (map label ?items)") (auto simp: find_None_iff)
    then have Min: "M \<in> set (map label ?items)" and Msame: "toLowerCase M = toLowerCase L"
      by (auto simp: find_Some_iff)
    have "M \<in> fst ` set (buildDistribution ?F ?records)"
      using Min by (force simp: chartDataArrayOf_def)
    then have Mne: "M \<noteq> []"
      by (auto simp: keys_buildDistribution displayValueOf_nonempty)
    have resolved: "resolveDrillDown c2 (Some v) originalMessage = Some M"
      using M Mne h(6,7) by (simp add: resolveDrillDown_def opts Let_def)
    have "handleDrillDown env sid (Some v) originalMessage timestamp s2
            = drillDownInto env sid ?q M timestamp s2"
      using handleDrillDown_resolved [of s2 sid c2 ?q "Some v" originalMessage M env timestamp]
            h(1,2,3,4) resolved Mne
      by (simp add: analysisMemory_def)
    then have "trace (snd (handleDrillDown env sid (Some v) originalMessage timestamp s2))
                = trace (snd (client_get env
                                (''/'' @ a_objectType plan @ ''?filter=(('' @ ?F @ '' = ''
                                 @ sq @ M @ sq
                                 @ ''))&fields=_internalId,name,code,status&limit=50'')
                                s2))"
      by (simp add: drillDownInto_trace drillDownEndpoint_def analysisMemory_def sq_def)
    moreover have "M = L"
      if "\<forall>L' \<in> set (map label ?items). toLowerCase L' = toLowerCase L \<longrightarrow> L' = L"
      using that Min Msame by blast
    ultimately show ?thesis
      using M by blast
  qed
  have "contextService s1 sid = Some ?c \<and> lastQuery ?c = Some ?q
         \<and> q_objectType ?q = a_objectType plan \<and> q_groupByField ?q = Some ?F
         \<and> q_chartData ?q = Some [(?F, ?items)]
         \<and> (\<exists>s0 s0' response'.
               client_get env (analyzeEndpoint (a_objectType plan) ?F) s0 = (Inr response', s0')
             \<and> ?records = results_of response')
         \<and> q_totalCount ?q = Some (int (length ?records))
         \<and> sum_list (map count ?items) = length ?records"
    using stored cg by (auto simp: analysisMemory_def sum_chart)
  then show ?thesis
    using drill by blast
qed

section \<open>The claims on the demo installation\<close>

lemma analysis_runs:
  "executeAnalyze demo_env demo_plan ''s'' fresh_handler
     = (Inr (projr (fst (executeAnalyze demo_env demo_plan ''s'' fresh_handler))), analyzed)"
proof -
  have "\<not> isl (fst (executeAnalyze demo_env demo_plan ''s'' fresh_handler))"
    by code_simp
  then show ?thesis
    by (simp add: analyzed_def prod_eq_iff)
qed

lemma analysis_succeeds:
  "e_success (projr (fst (executeAnalyze demo_env demo_plan ''s'' fresh_handler)))"
  by code_simp

lemma analyzed_lastQuery:
  "map_option lastQuery (contextService analyzed ''s'')
     = Some (Some \<lparr>q_objectType = ''projects'', q_objectLabel = ''Projects'', q_action = ''analyze'',
                    q_filters = None, q_results = None, q_totalCount = Some 3,
                    q_groupByField = Some ''status'', q_groupByDisplayName = Some ''Status'',
                    q_chartData = Some [(''status'', [\<lparr>label = ''Active'', count = 2\<rparr>,
                                                     \<lparr>label = ''Completed'', count = 1\<rparr>])],
                    q_timestamp = 1700000000000\<rparr>)"
  by code_simp

theorem grouping_round_trip_witness:
  "e_success (projr (fst (executeAnalyze demo_env demo_plan ''s'' fresh_handler)))
   \<and> (\<exists>c q items.
         contextService analyzed ''s'' = Some c \<and> lastQuery c = Some q
       \<and> q_chartData q = Some [(''status'', items)]
       \<and> map label items = [''Active'', ''Completed'']
       \<and> sum_list (map count items) = 3 \<and> q_totalCount q = Some 3)
   \<and> trace (snd (handleDrillDown demo_env ''s'' (Some ''active'') ''show me the active ones'' 5
                    analyzed))
       = trace analyzed @ [Fetch ''GET'' active_url]"
proof -
  obtain c q F items and records :: "row list" where
    g: "contextService analyzed ''s'' = Some c" "lastQuery c = Some q"
       "q_objectType q = a_objectType demo_plan"
       "q_groupByField q = Some F" "q_chartData q = Some [(F, items)]"
       "q_totalCount q = Some (int (length records))"
       "sum_list (map count items) = length records"
    and drill:
       "\<forall>L v originalMessage timestamp s2 c2.
               contextService s2 ''s'' = Some c2 \<and> lastQuery c2 = Some q
               \<and> a_objectType demo_plan \<noteq> [] \<and> F \<noteq> []
               \<and> L \<in> set (map label items)
               \<and> v \<noteq> [] \<and> toLowerCase v = toLowerCase L
               \<longrightarrow> (\<exists>M. find (\<lambda>opt. toLowerCase opt = toLowerCase L) (map label items) = Some M
                      \<and> trace (snd (handleDrillDown demo_env ''s'' (Some v) originalMessage
                                      timestamp s2))
                          = trace (snd (client_get demo_env
                                          (''/'' @ a_objectType demo_plan @ ''?filter=(('' @ F
                                           @ '' = '' @ sq @ M @ sq
                                           @ ''))&fields=_internalId,name,code,status&limit=50'')
                                          s2))
                      \<and> ((\<forall>L' \<in> set (map label items).
                              toLowerCase L' = toLowerCase L \<longrightarrow> L' = L)
                           \<longrightarrow> M = L))"
    using grouping_round_trip [OF analysis_runs analysis_succeeds]
    by (elim exE conjE) (rule that; assumption)
  have q: "q = \<lparr>q_objectType = ''projects'', q_objectLabel = ''Projects'', q_action = ''analyze'',
                q_filters = None, q_results = None, q_totalCount = Some 3,
                q_groupByField = Some ''status'', q_groupByDisplayName = Some ''Status'',
                q_chartData = Some [(''status'', [\<lparr>label = ''Active'', count = 2\<rparr>,
                                                 \<lparr>label = ''Completed'', count = 1\<rparr>])],
                q_timestamp = 1700000000000\<rparr>"
    using analyzed_lastQuery g(1,2) by simp
  have F: "F = ''status''" and items: "map label items = [''Active'', ''Completed'']"
    using g(4,5) q by auto
  have stored: "\<exists>c q items.
         contextService analyzed ''s'' = Some c \<and> lastQuery c = Some q
       \<and> q_chartData q = Some [(''status'', items)]
       \<and> map label items = [''Active'', ''Completed'']
       \<and> sum_list (map count items) = 3 \<and> q_totalCount q = Some 3"
    using g q by auto
  have folded: "toLowerCase ''active'' = toLowerCase ''Active''"
               "toLowerCase ''Completed'' \<noteq> toLowerCase ''Active''"
    by code_simp+
  have named: "contextService analyzed ''s'' = Some c \<and> lastQuery c = Some q
               \<and> a_objectType demo_plan \<noteq> [] \<and> F \<noteq> []
               \<and> ''Active'' \<in> set (map label items)
               \<and> ''active'' \<noteq> [] \<and> toLowerCase ''active'' = toLowerCase ''Active''"
    using g(1,2) F items folded(1) by (simp add: demo_plan_def)
  have "\<exists>M. find (\<lambda>opt. toLowerCase opt = toLowerCase ''Active'') (map label items) = Some M
           \<and> trace (snd (handleDrillDown demo_env ''s'' (Some ''active'')
                           ''show me the active ones'' 5 analyzed))
               = trace (snd (client_get demo_env
                               (''/'' @ a_objectType demo_plan @ ''?filter=(('' @ F
                                @ '' = '' @ sq @ M @ sq
                                @ ''))&fields=_internalId,name,code,status&limit=50'')
                               analyzed))
           \<and> ((\<forall>L' \<in> set (map label items).
                   toLowerCase L' = toLowerCase ''Active'' \<longrightarrow> L' = ''Active'')
                \<longrightarrow> M = ''Active'')"
    using drill [rule_format, OF named] .
  then obtain M where
    M: "trace (snd (handleDrillDown demo_env ''s'' (Some ''active'') ''show me the active ones'' 5
                      analyzed))
        = trace (snd (client_get demo_env
                        (''/'' @ a_objectType demo_plan @ ''?filter=(('' @ F @ '' = '' @ sq @ M @ sq
                         @ ''))&fields=_internalId,name,code,status&limit=50'')
                        analyzed))"
       "(\<forall>L' \<in> set (map label items). toLowerCase L' = toLowerCase ''Active'' \<longrightarrow> L' = ''Active'')
        \<longrightarrow> M = ''Active''"
    by (elim exE conjE) (rule that; assumption)
  have "M = ''Active''"
    using M(2) items folded(2) by simp
  moreover have "trace (snd (client_get demo_env
                               (''/'' @ a_objectType demo_plan @ ''?filter=((status = '' @ sq
                                @ ''Active'' @ sq
                                @ ''))&fields=_internalId,name,code,status&limit=50'')
                               analyzed))
                 = trace analyzed @ [Fetch ''GET'' active_url]"
    by code_simp
  ultimately have drilled_into: "trace (snd (handleDrillDown demo_env ''s'' (Some ''active'')
                                     ''show me the active ones'' 5 analyzed))
                        = trace analyzed @ [Fetch ''GET'' active_url]"
    using M(1) F by (simp add: demo_plan_def)
  show ?thesis
    using analysis_succeeds stored drilled_into by blast
qed

text \<open>A follow-up that names no label of the chart.\<close>

theorem drill_down_no_match_witness:
  "handleDrillDown demo_env ''s'' (Some ''pending'') ''show me the pending ones'' 5 analyzed
     = (Inr (Some (respond False (noMatchReply [''Active'', ''Completed'']) 5)), analyzed)"
proof -
  obtain c q where cq: "contextService analyzed ''s'' = Some c" "lastQuery c = Some q"
    using analyzed_lastQuery by (cases "contextService analyzed ''s''") auto
  have q: "q = \<lparr>q_objectType = ''projects'', q_objectLabel = ''Projects'', q_action = ''analyze'',
                q_filters = None, q_results = None, q_totalCount = Some 3,
                q_groupByField = Some ''status'', q_groupByDisplayName = Some ''Status'',
                q_chartData = Some [(''status'', [\<lparr>label = ''Active'', count = 2\<rparr>,
                                                 \<lparr>label = ''Completed'', count = 1\<rparr>])],
                q_timestamp = 1700000000000\<rparr>"
    using analyzed_lastQuery cq by simp
  have low: "toLowerCase ''pending'' = ''pending''"
            "toLowerCase ''show me the pending ones'' = ''show me the pending ones''"
    by code_simp+
  show ?thesis
    using drill_down_no_match [of analyzed "''s''" c q "''status''" "[(''status'', [\<lparr>label = ''Active'', count = 2\<rparr>,
                                                 \<lparr>label = ''Completed'', count = 1\<rparr>])]"
        "[\<lparr>label = ''Active'', count = 2\<rparr>, \<lparr>label = ''Completed'', count = 1\<rparr>]"
        "Some ''pending''" "''show me the pending ones''" demo_env 5]
      cq
    by (simp add: q low)
qed

theorem no_second_drill_down_witness:
  "fst (canDrillDown ''s'' (contextService analyzed))
   \<and> \<not> fst (canDrillDown ''s'' (contextService drilled))
   \<and> followUpStep demo_env ''show me the completed ones'' ''s'' 6 drilled = (Inr None, drilled)"
proof -
  let ?run = "handleDrillDown demo_env ''s'' (Some ''active'') ''show me the active ones'' 5 analyzed"
  have some: "\<not> isl (fst ?run) \<and> projr (fst ?run) \<noteq> None"
    by code_simp
  then have run: "?run = (Inr (Some (the (projr (fst ?run)))), drilled)"
    by (simp add: drilled_def prod_eq_iff)
  have ok: "success (the (projr (fst ?run)))"
    by code_simp
  have before: "fst (canDrillDown ''s'' (contextService analyzed))"
    by code_simp
  show ?thesis
    using no_second_drill_down [OF run ok, of "''show me the completed ones''" 6] before
    by simp
qed

section \<open>Link requests without a prior query\<close>

lemma in_world_trace: "in_world f s = (r, s') \<Longrightarrow> trace s' = trace s"
  by (auto simp add: in_world_def split: prod.splits)

lemma detectTargetObject_returns:
  "\<exists>target s'. detectTargetObject env message sid s = (Inr target, s') \<and> trace s' = trace s"
  by (auto simp add: detectTargetObject_def Let_def in_world_apply step_simps
           split: prod.splits option.splits)

lemma getObjectMetadata_trace:
  "getObjectMetadata env objectType s = (r, s') \<Longrightarrow> trace s' = trace s"
  by (auto simp add: getObjectMetadata_def in_world_throwing_apply step_simps
           split: prod.splits option.splits sum.splits)

lemma messages_create_apply:
  "messages_create env prompt s
     = (fst (reason env prompt (world s)),
        s\<lparr>trace := trace s @ [Reasoning (pp_userMessage prompt)],
          world := snd (reason env prompt (world s))\<rparr>)"
  by (simp add: messages_create_def log_event_def in_world_throwing_def bind_def
           split: prod.splits)

text \<open>
  Once the target object's metadata has loaded, \<open>getAIPlan\<close> calls the reasoning service
  with the user's message, exactly once, whatever it answers.
\<close>

lemma getAIPlan_calls_reasoning:
  assumes target: "detectTargetObject env message (sessionId c) s = (Inr (objectType, objectLabel), s1)"
    and loaded: "getObjectMetadata env objectType s1 = (Inr metadata, s2)"
  shows "trace (snd (getAIPlan env message c s)) = trace s @ [Reasoning message]"
proof -
  have t1: "trace s1 = trace s"
    using detectTargetObject_returns [of env message "sessionId c" s] target by auto
  have t2: "trace s2 = trace s1"
    using getObjectMetadata_trace [OF loaded] .
  show ?thesis
    unfolding getAIPlan_def
    by (simp add: target loaded in_world_apply messages_create_apply
                  step_simps Let_def t1 t2
             split: prod.splits sum.splits list.splits AiContent.splits option.splits)
qed

lemma give_me_a_link_facts:
  "toLowerCase ''give me a link'' = ''give me a link''"
  "trim ''give me a link'' = ''give me a link''"
  "rx_match linkAllPattern ''give me a link'' = None"
  "rx_match linkToPattern ''give me a link'' = None"
  "str_includes ''give me a link'' ''link''"
  "\<not> str_includes ''give me a link'' ''create''"
  "\<not> str_includes ''give me a link'' ''new''"
  "\<not> str_includes ''give me a link'' ''custom object''"
  "\<not> rx_test greetingPattern ''give me a link''"
  "\<not> isCustomObjectsQuery ''give me a link''"
  "fu_type (detectFollowUpIntent ''give me a link'') = Some ''link''"
  by code_simp+

lemma handleLinkRequest_without_query:
  assumes "\<forall>c. contextService s sid = Some c \<longrightarrow> lastQuery c = None"
  shows "handleLinkRequest env sid timestamp (Some ''give me a link'') s
           = (Inr (respond False linkUsageReply timestamp),
              s\<lparr>contextService := snd (getContext sid (contextService s))\<rparr>)"
proof -
  have "lastQuery (fst (getContext sid (contextService s))) = None"
    using assms by (simp add: getContext_def createNewContext_def split: option.splits)
  then show ?thesis
    by (simp add: handleLinkRequest_def linkToNamed_def generateContextLink_def
                  give_me_a_link_facts step_simps Let_def)
qed

lemma linkStep_without_query:
  assumes "contextService s sid = Some c" "lastQuery c = None"
  shows "linkStep env ''give me a link'' sid timestamp s = (Inr None, s)"
proof -
  have "handleLinkRequest env sid timestamp (Some ''give me a link'') s
          = (Inr (respond False linkUsageReply timestamp), s)"
    using handleLinkRequest_without_query [of s sid env timestamp] assms
    by (simp add: getContext_present)
  then show ?thesis
    by (simp add: linkStep_def give_me_a_link_facts bind_def ret_def respond_simps)
qed

lemma followUpStep_link: "followUpStep env ''give me a link'' sid timestamp s = (Inr None, s)"
  by (simp add: followUpStep_def give_me_a_link_facts ret_def)

lemma discover_keeps_contexts:
  "\<exists>s'. (if length (discoveredObjects s) = 0 then discoverObjects env s else ret () s)
           = (Inr (), s') \<and> contextService s' = contextService s"
  by (auto simp add: discoverObjects_def in_world_apply step_simps split: prod.splits)

lemma after_arrival:
  assumes "contextService s sid = Some c'" "lastQuery c' = None"
  shows "(if rx_test greetingPattern (trim ''give me a link'') then getHelpResponse env timestamp
          else
            bind (linkStep env ''give me a link'' sid timestamp)
              (\<lambda>linked.
                 case linked of
                   Some response \<Rightarrow> ret response
                 | None \<Rightarrow>
                     bind (followUpStep env ''give me a link'' sid timestamp)
                       (\<lambda>followed.
                          case followed of
                            Some response \<Rightarrow> ret response
                          | None \<Rightarrow>
                              if isCustomObjectsQuery (toLowerCase ''give me a link'')
                              then handleCustomObjectsQuery env ''give me a link'' timestamp
                              else planStep env ''give me a link'' sid c timestamp))) s
         = planStep env ''give me a link'' sid c timestamp s"
  by (simp add: give_me_a_link_facts bind_def linkStep_without_query [OF assms] followUpStep_link)

lemma bind_with_contexts:
  "bind (with_contexts f) g s
     = g (fst (f (contextService s))) (s\<lparr>contextService := snd (f (contextService s))\<rparr>)"
  by (simp add: bind_def with_contexts_def split: prod.splits)

lemma bind_update_contexts:
  "bind (update_contexts f) g s = g () (s\<lparr>contextService := f (contextService s)\<rparr>)"
  by (simp add: bind_def update_contexts_def)

lemma addToHistory_keeps_lastQuery:
  "\<exists>c'. addToHistory sid turn cs sid = Some c'
        \<and> lastQuery c' = lastQuery (fst (getContext sid cs))"
  by (simp add: addToHistory_def Let_def split: prod.splits)

text \<open>
  In a session without a prior query the link handler answers \<open>give me a link\<close> with
  the failure that lists the usage examples, and calls nothing: the log of remote calls
  and the world are as before, and the store only gains the session's context if it was
  missing. \<open>handleMessage\<close> drops the answer, and after recording the turn and
  discovering the objects (if not yet done) it goes on to the plan step. There
  \<open>getAIPlan\<close> calls the reasoning service with the message as soon as the metadata of
  the target object has loaded.
\<close>

lemma link_failure_falls_through:
  assumes "\<forall>c. contextService s sid = Some c \<longrightarrow> lastQuery c = None"
  shows "handleLinkRequest env sid timestamp (Some ''give me a link'') s
           = (Inr (respond False linkUsageReply timestamp),
              s\<lparr>contextService := snd (getContext sid (contextService s))\<rparr>)
       \<and> handleMessage_try env ''give me a link'' sid timestamp s
           = bind (with_contexts (getContext sid))
               (\<lambda>c. bind (update_contexts
                             (addToHistory sid
                                \<lparr>t_timestamp = timestamp, t_role = User,
                                 t_message = ''give me a link'', t_action = None,
                                 t_objectType = None, t_success = None\<rparr>))
                       (\<lambda>_. bind (\<lambda>s. if length (discoveredObjects s) = 0
                                        then discoverObjects env s else ret () s)
                               (\<lambda>_. planStep env ''give me a link'' sid c timestamp))) s
       \<and> (\<forall>c s0 objectType objectLabel s1 metadata s2.
             detectTargetObject env ''give me a link'' (sessionId c) s0
               = (Inr (objectType, objectLabel), s1)
             \<and> getObjectMetadata env objectType s1 = (Inr metadata, s2)
             \<longrightarrow> trace (snd (getAIPlan env ''give me a link'' c s0))
                   = trace s0 @ [Reasoning ''give me a link''])"
proof (intro conjI)
  show "handleLinkRequest env sid timestamp (Some ''give me a link'') s
           = (Inr (respond False linkUsageReply timestamp),
              s\<lparr>contextService := snd (getContext sid (contextService s))\<rparr>)"
    using assms by (rule handleLinkRequest_without_query)
next
  let ?turn = "\<lparr>t_timestamp = timestamp, t_role = User, t_message = ''give me a link'',
                t_action = None, t_objectType = None, t_success = None\<rparr>"
  let ?c = "fst (getContext sid (contextService s))"
  let ?cs1 = "snd (getContext sid (contextService s))"
  let ?s2 = "s\<lparr>contextService := addToHistory sid ?turn ?cs1\<rparr>"
  have none: "lastQuery ?c = None"
    using assms by (simp add: getContext_def createNewContext_def split: option.splits)
  have same: "fst (getContext sid ?cs1) = ?c"
    by (simp add: getContext_def split: option.splits)
  obtain c' where c': "addToHistory sid ?turn ?cs1 sid = Some c'" "lastQuery c' = None"
    using addToHistory_keeps_lastQuery [of sid ?turn ?cs1] none same by auto
  have rest: "bind (\<lambda>s. if length (discoveredObjects s) = 0 then discoverObjects env s
                        else ret () s)
               (\<lambda>_. if rx_test greetingPattern (trim ''give me a link'')
                    then getHelpResponse env timestamp
                    else
                      bind (linkStep env ''give me a link'' sid timestamp)
                        (\<lambda>linked.
                           case linked of
                             Some response \<Rightarrow> ret response
                           | None \<Rightarrow>
                               bind (followUpStep env ''give me a link'' sid timestamp)
                                 (\<lambda>followed.
                                    case followed of
                                      Some response \<Rightarrow> ret response
                                    | None \<Rightarrow>
                                        if isCustomObjectsQuery (toLowerCase ''give me a link'')
                                        then handleCustomObjectsQuery env ''give me a link''
                                               timestamp
                                        else planStep env ''give me a link'' sid c timestamp)))
               s2
             = bind (\<lambda>s. if length (discoveredObjects s) = 0 then discoverObjects env s
                          else ret () s)
                 (\<lambda>_. planStep env ''give me a link'' sid c timestamp) s2"
    if "contextService s2 sid = Some c'" for s2 c
  proof -
    obtain s3 where s3: "(if length (discoveredObjects s2) = 0 then discoverObjects env s2
                          else ret () s2) = (Inr (), s3)"
                        "contextService s3 = contextService s2"
      using discover_keeps_contexts [of s2 env] by blast
    have here: "contextService s3 sid = Some c'"
      using s3(2) that by simp
    show ?thesis
      by (simp only: bind_apply s3(1) prod.case sum.case after_arrival [OF here c'(2)])
  qed
  show "handleMessage_try env ''give me a link'' sid timestamp s
           = bind (with_contexts (getContext sid))
               (\<lambda>c. bind (update_contexts (addToHistory sid ?turn))
                       (\<lambda>_. bind (\<lambda>s. if length (discoveredObjects s) = 0
                                        then discoverObjects env s else ret () s)
                               (\<lambda>_. planStep env ''give me a link'' sid c timestamp))) s"
    unfolding handleMessage_try_def
    apply (simp only: bind_with_contexts bind_update_contexts)
    apply (rule rest)
    using c'(1) by simp
next
  show "\<forall>c s0 objectType objectLabel s1 metadata s2.
             detectTargetObject env ''give me a link'' (sessionId c) s0
               = (Inr (objectType, objectLabel), s1)
             \<and> getObjectMetadata env objectType s1 = (Inr metadata, s2)
             \<longrightarrow> trace (snd (getAIPlan env ''give me a link'' c s0))
                   = trace s0 @ [Reasoning ''give me a link'']"
    using getAIPlan_calls_reasoning by blast
qed

text \<open>
  Step 3 of \<open>handleMessage\<close> answers only with successes, and step 4 leaves a follow-up of
  type \<open>link\<close> alone: a failure reply of \<open>handleLinkRequest\<close> never leaves the handler.
\<close>

lemma linkStep_only_successes:
  assumes "linkStep env message sid timestamp s = (Inr (Some r), s')"
  shows "success r"
  using assms
  by (auto simp add: linkStep_def Let_def step_simps split: if_splits prod.splits sum.splits)

lemma followUpStep_never_links:
  assumes "fu_type (detectFollowUpIntent message) = Some ''link''"
  shows "followUpStep env message sid timestamp s = (Inr None, s)"
  using assms by (simp add: followUpStep_def Let_def ret_def)

text \<open>
  C3 (link fallback), where the code leaves the claim. In a session without any query,
  \<open>handleLinkRequest\<close> answers \<open>give me a link\<close> with the failure that lists the usage
  examples, and calls nothing. \<open>handleMessage\<close> does not return this answer: it returns a
  link answer only when it is a success, and goes on to the plan step, which calls the
  reasoning service. On the installation whose reasoning service answers with a help
  plan, the user gets the help text as a success.
\<close>

theorem link_usage_reply_dropped:
  "contextService fresh_handler ''s'' = None
   \<and> fst (handleLinkRequest helpful_env ''s'' 1700000000000 (Some ''give me a link'')
             fresh_handler)
       = Inr (respond False linkUsageReply 1700000000000)
   \<and> trace (snd (handleLinkRequest helpful_env ''s'' 1700000000000 (Some ''give me a link'')
                    fresh_handler)) = []
   \<and> linkStep helpful_env ''give me a link'' ''s'' 1700000000000 fresh_handler
       = (Inr None,
          snd (handleLinkRequest helpful_env ''s'' 1700000000000 (Some ''give me a link'')
                 fresh_handler))
   \<and> success (fst (handleMessage helpful_env ''give me a link'' ''s'' fresh_handler))
   \<and> reply (fst (handleMessage helpful_env ''give me a link'' ''s'' fresh_handler))
       \<noteq> linkUsageReply
   \<and> trace (snd (handleMessage helpful_env ''give me a link'' ''s'' fresh_handler))
       = [Reasoning ''give me a link'']"
proof -
  have fresh: "contextService fresh_handler ''s'' = None" "trace fresh_handler = []"
    by (simp_all add: fresh_handler_def)
  have link: "handleLinkRequest helpful_env ''s'' 1700000000000 (Some ''give me a link'')
                fresh_handler
              = (Inr (respond False linkUsageReply 1700000000000),
                 fresh_handler\<lparr>contextService :=
                                 snd (getContext ''s'' (contextService fresh_handler))\<rparr>)"
    by (rule handleLinkRequest_without_query) (simp add: fresh)
  have step: "linkStep helpful_env ''give me a link'' ''s'' 1700000000000 fresh_handler
              = (Inr None,
                 snd (handleLinkRequest helpful_env ''s'' 1700000000000 (Some ''give me a link'')
                        fresh_handler))"
    by (simp add: linkStep_def give_me_a_link_facts bind_def ret_def link respond_simps)
  have "success (fst (handleMessage helpful_env ''give me a link'' ''s'' fresh_handler))"
    by code_simp
  moreover have "reply (fst (handleMessage helpful_env ''give me a link'' ''s'' fresh_handler))
                   \<noteq> linkUsageReply"
    by code_simp
  moreover have "trace (snd (handleMessage helpful_env ''give me a link'' ''s'' fresh_handler))
                   = [Reasoning ''give me a link'']"
    by code_simp
  ultimately show ?thesis
    using fresh step by (simp add: link)
qed

section \<open>The field the analysis groups by\<close>

lemma getAIPlan_override:
  assumes target: "detectTargetObject env message (sessionId c) s = (Inr (objectType, objectLabel), s1)"
    and loaded: "getObjectMetadata env objectType s1 = (Inr metadata, s2)"
    and run: "getAIPlan env message c s = (Inr plan, s')"
  shows "\<exists>answerText proposed.
           parsePlan env answerText = Inr proposed
         \<and> plan = (case findFieldMatch message (attributes metadata) of
                     Some attr \<Rightarrow>
                       if apiName attr \<noteq> [] \<and> a_action proposed = ''analyze''
                       then proposed\<lparr>a_groupByField := Some (apiName attr)\<rparr> else proposed
                   | None \<Rightarrow> proposed)"
  using run unfolding getAIPlan_def
  by (auto simp add: target loaded in_world_apply messages_create_apply step_simps Let_def
           split: prod.splits sum.splits list.splits AiContent.splits option.splits if_splits)

text \<open>
  C1 (field hint precedence), the counterexample. The message names the status of the
  projects, and the manager as well; the manager comes first in the schema. The
  reasoning service proposes an analysis by priority. The plan that is executed groups
  by manager, not by status: the request fetches the manager field, and the session
  remembers a chart by manager.
\<close>

theorem field_hint_counterexample:
  "status_attr \<in> set (attributes team_metadata)
   \<and> str_includes by_status_per_manager (apiName status_attr)
   \<and> a_action priority_plan = ''analyze''
   \<and> a_groupByField priority_plan = Some ''priority''
   \<and> fst (getAIPlan team_env by_status_per_manager (createNewContext ''s'') fresh_handler)
       = Inr (priority_plan\<lparr>a_groupByField := Some ''manager''\<rparr>)
   \<and> trace (snd (handleMessage team_env by_status_per_manager ''s'' fresh_handler))
       = [Reasoning by_status_per_manager,
          Fetch ''GET'' (demo_base @ ''/projects?fields=_internalId,manager&limit=500'')]
   \<and> map_option (\<lambda>c. map_option q_groupByField (lastQuery c))
         (contextService (snd (handleMessage team_env by_status_per_manager ''s'' fresh_handler))
            ''s'')
       = Some (Some (Some ''manager''))"
proof -
  have "status_attr \<in> set (attributes team_metadata)"
    by (simp add: team_metadata_def)
  moreover have "str_includes by_status_per_manager (apiName status_attr)"
    by code_simp
  moreover have "a_action priority_plan = ''analyze''"
    and "a_groupByField priority_plan = Some ''priority''"
    by (simp_all add: priority_plan_def demo_plan_def)
  moreover have "fst (getAIPlan team_env by_status_per_manager (createNewContext ''s'')
                        fresh_handler)
                 = Inr (priority_plan\<lparr>a_groupByField := Some ''manager''\<rparr>)"
    by code_simp
  moreover have "trace (snd (handleMessage team_env by_status_per_manager ''s'' fresh_handler))
       = [Reasoning by_status_per_manager,
          Fetch ''GET'' (demo_base @ ''/projects?fields=_internalId,manager&limit=500'')]"
    by code_simp
  moreover have "map_option (\<lambda>c. map_option q_groupByField (lastQuery c))
         (contextService (snd (handleMessage team_env by_status_per_manager ''s'' fresh_handler))
            ''s'')
       = Some (Some (Some ''manager''))"
    by code_simp
  ultimately show ?thesis
    by blast
qed

text \<open>
  C1 (field hint precedence), as the code has it. \<open>getAIPlan\<close> has resolved the target
  object and loaded its metadata; \<open>attr\<close> is the first attribute of the schema that the
  message names (by display name, or in lower case by display name or API name), and its
  API name is not empty. If \<open>getAIPlan\<close> returns a plan of action \<open>analyze\<close>, then the
  plan is the one parsed from the reasoning service's answer with its \<open>groupByField\<close>
  replaced by the API name of \<open>attr\<close>, whatever the service proposed, and \<open>executePlan\<close>
  runs the analysis on it.
\<close>

theorem field_hint_precedence:
  assumes target: "detectTargetObject env message (sessionId c) s
                     = (Inr (objectType, objectLabel), s1)"
    and loaded: "getObjectMetadata env objectType s1 = (Inr metadata, s2)"
    and named: "findFieldMatch message (attributes metadata) = Some attr"
    and nonempty: "apiName attr \<noteq> []"
    and run: "getAIPlan env message c s = (Inr plan, s')"
    and analyze: "a_action plan = ''analyze''"
  shows "a_groupByField plan = Some (apiName attr)
       \<and> (\<exists>answerText proposed.
             parsePlan env answerText = Inr proposed
           \<and> a_action proposed = ''analyze''
           \<and> plan = proposed\<lparr>a_groupByField := Some (apiName attr)\<rparr>)
       \<and> executePlan env plan message sid = executeAnalyze env plan sid"
proof -
  obtain answerText proposed where
    parsed: "parsePlan env answerText = Inr proposed"
    and plan: "plan = (if a_action proposed = ''analyze''
                       then proposed\<lparr>a_groupByField := Some (apiName attr)\<rparr> else proposed)"
    using getAIPlan_override [OF target loaded run] named nonempty by auto
  have action: "a_action proposed = ''analyze''"
    using analyze plan by (simp split: if_splits)
  have forced: "plan = proposed\<lparr>a_groupByField := Some (apiName attr)\<rparr>"
    using plan action by simp
  have "executePlan env plan message sid = executeAnalyze env plan sid"
    by (simp add: executePlan_def analyze)
  then show ?thesis
    using parsed action forced by auto
qed

theorem field_hint_precedence_witness:
  "a_groupByField priority_plan = Some ''priority''
   \<and> findFieldMatch ''analyze projects by status'' (attributes team_metadata) = Some status_attr
   \<and> a_groupByField
        (projr (fst (getAIPlan team_env ''analyze projects by status'' (createNewContext ''s'')
                       fresh_handler)))
       = Some ''status''"
proof -
  let ?run = "getAIPlan team_env ''analyze projects by status'' (createNewContext ''s'')
                fresh_handler"
  let ?target = "detectTargetObject team_env ''analyze projects by status''
                   (sessionId (createNewContext ''s'')) fresh_handler"
  let ?loaded = "getObjectMetadata team_env ''projects'' (snd ?target)"
  have "fst ?target = Inr (''projects'', ''Projects'')"
    by code_simp
  then have target: "?target = (Inr (''projects'', ''Projects''), snd ?target)"
    by (simp add: prod_eq_iff)
  have "fst ?loaded = Inr team_metadata"
    by code_simp
  then have loaded: "?loaded = (Inr team_metadata, snd ?loaded)"
    by (simp add: prod_eq_iff)
  have named: "findFieldMatch ''analyze projects by status'' (attributes team_metadata)
                 = Some status_attr"
    by code_simp
  have nonempty: "apiName status_attr \<noteq> []"
    by (simp add: status_attr_def)
  have "\<not> isl (fst ?run)"
    by code_simp
  then have run: "?run = (Inr (projr (fst ?run)), snd ?run)"
    by (simp add: prod_eq_iff)
  have analyze: "a_action (projr (fst ?run)) = ''analyze''"
    by code_simp
  have proposed: "a_groupByField priority_plan = Some ''priority''"
    by (simp add: priority_plan_def)
  show ?thesis
    using field_hint_precedence [OF target loaded named nonempty run analyze] named proposed
    by (simp add: status_attr_def)
qed

section \<open>What the handler may answer\<close>

lemma returns_only_ret: "P x \<Longrightarrow> returns_only P (ret x)"
  by (simp add: returns_only_def ret_def)

lemma returns_only_throw: "returns_only P (throw e)"
  by (simp add: returns_only_def throw_def)

lemma returns_only_bind: "(\<And>x. returns_only P (f x)) \<Longrightarrow> returns_only P (bind m f)"
  by (auto simp add: returns_only_def bind_def split: prod.splits sum.splits)

lemma returns_only_try_catch:
  "returns_only P m \<Longrightarrow> (\<And>e. returns_only P (h e)) \<Longrightarrow> returns_only P (try_catch m h)"
  by (auto simp add: returns_only_def try_catch_def split: prod.splits sum.splits)

lemma returns_only_of_result: "(\<And>x. r = Inr x \<Longrightarrow> P x) \<Longrightarrow> returns_only P (of_result r)"
  by (simp add: returns_only_def of_result_def)

lemma returns_only_bind_with:
  "returns_only Q m \<Longrightarrow> (\<And>x. Q x \<Longrightarrow> returns_only P (f x)) \<Longrightarrow> returns_only P (bind m f)"
  unfolding returns_only_def bind_def
  by (auto split: prod.splits sum.splits) blast

lemmas returns_only_intros =
  returns_only_ret returns_only_throw returns_only_bind returns_only_try_catch
  returns_only_of_result

lemma signs_nonempty:
  "cross \<noteq> []" "question_sign \<noteq> []" "link_sign \<noteq> []" "chart_sign \<noteq> []"
  "check_sign \<noteq> []" "bulb_sign \<noteq> []" "clipboard_sign \<noteq> []" "inbox_sign \<noteq> []"
  "magnifier_sign \<noteq> []" "numbers_sign \<noteq> []" "trend_sign \<noteq> []" "target_sign \<noteq> []"
  "sparkles_sign \<noteq> []" "robot_sign \<noteq> []" "bullet \<noteq> []"
  by (simp_all add: cross_def question_sign_def link_sign_def chart_sign_def check_sign_def
        bulb_sign_def clipboard_sign_def inbox_sign_def magnifier_sign_def numbers_sign_def
        trend_sign_def target_sign_def sparkles_sign_def robot_sign_def bullet_def)

lemma sound_respond: "text' \<noteq> [] \<Longrightarrow> sound_response (respond ok text' timestamp)"
  by (simp add: sound_response_def respond_def)

lemma sound_respond_link:
  "text' \<noteq> [] \<Longrightarrow> sound_response ((respond ok text' timestamp)\<lparr>deepLink := l\<rparr>)"
  by (simp add: sound_response_def respond_def)

lemma sound_answer: "text' \<noteq> [] \<Longrightarrow> sound_result (answer ok text')"
  by (simp add: sound_result_def answer_def)

lemma sound_getErrorResponse: "sound_response (getErrorResponse e timestamp)"
  by (simp add: getErrorResponse_def sound_respond signs_nonempty split: prod.splits)

lemma sound_handleCountFollowUp: "returns_only sound_response (handleCountFollowUp sid timestamp)"
  unfolding handleCountFollowUp_def
  by (auto intro!: returns_only_intros sound_respond simp add: signs_nonempty split: option.splits)

lemma sound_drillDownInto:
  "returns_only sound_if_any (drillDownInto env sid q matchedValue timestamp)"
  unfolding drillDownInto_def Let_def
  by (auto intro!: returns_only_intros sound_respond sound_respond_link
           simp add: signs_nonempty sound_if_any_def)

lemma sound_handleDrillDown:
  "returns_only sound_if_any (handleDrillDown env sid extractedValue originalMessage timestamp)"
  unfolding handleDrillDown_def
  by (auto intro!: returns_only_intros sound_respond sound_drillDownInto
           simp add: signs_nonempty sound_if_any_def noMatchReply_def split: option.splits)

lemma sound_generateContextLink:
  "generateContextLink env c timestamp = Inr r \<Longrightarrow> sound_response r"
  by (auto simp add: generateContextLink_def linkUsageReply_def Let_def signs_nonempty
           intro!: sound_respond sound_respond_link
           split: option.splits list.splits sum.splits if_splits prod.splits)

lemma sound_linkToNamed: "returns_only sound_if_any (linkToNamed env msg timestamp)"
  unfolding linkToNamed_def Let_def
  by (auto intro!: returns_only_intros sound_respond sound_respond_link
           simp add: signs_nonempty sound_if_any_def split: option.splits)

lemma sound_handleLinkRequest:
  "returns_only sound_response (handleLinkRequest env sid timestamp originalMessage)"
proof -
  have fallback: "returns_only sound_response (of_result (generateContextLink env c timestamp))"
    for c
    by (auto intro!: returns_only_of_result dest: sound_generateContextLink)
  have named: "returns_only sound_response
                 (bind (linkToNamed env msg timestamp)
                    (\<lambda>named.
                       case named of
                         Some response \<Rightarrow> ret response
                       | None \<Rightarrow> of_result (generateContextLink env c timestamp)))"
    for msg c
    by (rule returns_only_bind_with [OF sound_linkToNamed])
       (auto simp add: sound_if_any_def intro!: returns_only_ret fallback split: option.splits)
  show ?thesis
    unfolding handleLinkRequest_def Let_def
    by (auto intro!: returns_only_bind returns_only_ret sound_respond sound_respond_link
             simp add: signs_nonempty named fallback
             split: option.splits)
qed

lemma sound_getHelpResponse: "returns_only sound_response (getHelpResponse env timestamp)"
  unfolding getHelpResponse_def Let_def
  by (auto intro!: returns_only_intros sound_respond simp add: signs_nonempty)

lemma sound_handleCustomObjectsQuery:
  "returns_only sound_response (handleCustomObjectsQuery env message timestamp)"
  unfolding handleCustomObjectsQuery_def Let_def
  by (auto intro!: returns_only_intros sound_respond simp add: signs_nonempty)

lemma sound_executeDescribe: "returns_only sound_result (executeDescribe env plan)"
  unfolding executeDescribe_def Let_def
  by (auto intro!: returns_only_intros sound_answer simp add: signs_nonempty)

lemma sound_executeQuery:
  "returns_only sound_result (executeQuery env plan originalMessage sid)"
  unfolding executeQuery_def Let_def
  by (rule returns_only_bind_with [where Q = sound_if_early])
     (auto intro!: returns_only_intros sound_answer
           simp add: signs_nonempty sound_if_early_def sound_result_def answer_simps
           split: option.splits sum.splits)

lemma sound_executeAnalyze: "returns_only sound_result (executeAnalyze env plan sid)"
  unfolding executeAnalyze_def Let_def
  by (auto intro!: returns_only_intros sound_answer
           simp add: signs_nonempty sound_result_def split: option.splits)

lemma sound_executeUpdate:
  "returns_only sound_result (executeUpdate env plan originalMessage)"
  unfolding executeUpdate_def
  by (auto intro!: returns_only_intros sound_answer simp add: signs_nonempty
           split: option.splits)

lemma sound_executeDelete:
  "returns_only sound_result (executeDelete env plan originalMessage)"
  unfolding executeDelete_def
  by (auto intro!: returns_only_intros sound_answer simp add: signs_nonempty
           split: option.splits)

lemma sound_handleFollowUp:
  "returns_only sound_if_any
     (handleFollowUp env sid intentType extractedValue originalMessage timestamp)"
proof -
  have link: "returns_only sound_if_any
                (bind (handleLinkRequest env sid timestamp (Some originalMessage))
                   (\<lambda>r. ret (Some r)))"
    by (rule returns_only_bind_with [OF sound_handleLinkRequest])
       (auto intro!: returns_only_ret simp add: sound_if_any_def)
  have counted: "returns_only sound_if_any
                   (bind (handleCountFollowUp sid timestamp) (\<lambda>r. ret (Some r)))"
    by (rule returns_only_bind_with [OF sound_handleCountFollowUp])
       (auto intro!: returns_only_ret simp add: sound_if_any_def)
  show ?thesis
    unfolding handleFollowUp_def
    by (rule returns_only_bind)
       (auto intro!: link counted sound_handleDrillDown returns_only_ret sound_respond
             simp add: sound_if_any_def exportReply_def signs_nonempty)
qed

lemma sound_linkStep: "returns_only sound_if_any (linkStep env message sid timestamp)"
proof -
  have "returns_only sound_if_any
          (bind (handleLinkRequest env sid timestamp (Some message))
             (\<lambda>linkResult.
                if success linkResult then
                  bind (with_contexts (getContext sid))
                    (\<lambda>c.
                       let offered = generateSuggestions env c ''query'' in
                       bind (update_contexts
                               (addToHistory sid
                                  \<lparr>t_timestamp = timestamp, t_role = Assistant,
                                   t_message = reply linkResult, t_action = Some ''link'',
                                   t_objectType = None, t_success = Some True\<rparr>))
                         (\<lambda>_. ret (Some (linkResult
                                           \<lparr>suggestions :=
                                              Some (map (\<lambda>s. (s_emoji s @ '' '' @ s_text s, s_action s))
                                                        offered)\<rparr>))))
                else ret None))"
    by (rule returns_only_bind_with [OF sound_handleLinkRequest])
       (auto intro!: returns_only_intros simp add: sound_if_any_def sound_response_def Let_def)
  then show ?thesis
    unfolding linkStep_def Let_def
    by (auto intro!: returns_only_ret simp add: sound_if_any_def)
qed

lemma sound_followUpStep: "returns_only sound_if_any (followUpStep env message sid timestamp)"
  unfolding followUpStep_def Let_def
  by (auto intro!: returns_only_bind returns_only_ret sound_handleFollowUp
           simp add: sound_if_any_def split: option.splits)

lemma returns_only_Let: "(\<And>x. returns_only P (f x)) \<Longrightarrow> returns_only P (Let a f)"
  by (simp add: Let_def)

lemma sound_executeCreate:
  "returns_only sound_result (executeCreate env plan originalMessage)"
  unfolding executeCreate_def
proof (rule returns_only_bind_with [where Q = sound_if_early], goal_cases)
  case 1
  show ?case
    by (auto intro!: returns_only_intros
             simp add: signs_nonempty sound_if_early_def sound_result_def answer_simps
             split: option.splits)
next
  case (2 resolved)
  show ?case
  proof (cases resolved)
    case (Inl early)
    then show ?thesis
      using 2 by (simp add: sound_if_early_def returns_only_ret)
  next
    case (Inr endpoint)
    show ?thesis
      unfolding Inr sum.case
      by (intro returns_only_Let returns_only_bind returns_only_ret sound_answer)
         (simp add: signs_nonempty)
  qed
qed

lemma sound_executePlan:
  "returns_only sound_result (executePlan env plan originalMessage sid)"
proof -
  have helped: "returns_only sound_result
                (bind (getHelpResponse env 0)
                   (\<lambda>r. ret \<lparr>e_success = success r, e_reply = reply r,
                             e_chartData = r_chartData r\<rparr>))"
    by (rule returns_only_bind_with [OF sound_getHelpResponse])
       (auto intro!: returns_only_ret simp add: sound_response_def sound_result_def)
  show ?thesis
    unfolding executePlan_def
    by (auto intro!: helped sound_executeDescribe sound_executeQuery sound_executeAnalyze
                     sound_executeCreate sound_executeUpdate sound_executeDelete
                     returns_only_ret sound_answer
             simp add: signs_nonempty)
qed

lemma sound_planStep: "returns_only sound_response (planStep env message sid c timestamp)"
proof -
  have inner: "returns_only sound_response
          (bind (executePlan env plan message sid)
             (\<lambda>result.
                bind (with_contexts (getContext sid))
                  (\<lambda>c'.
                     let offered = generateSuggestions env c' (a_action plan) in
                     bind (read_world (clock env))
                       (\<lambda>now.
                          bind (update_contexts
                                  (addToHistory sid
                                     \<lparr>t_timestamp = now, t_role = Assistant,
                                      t_message = take 200 (e_reply result),
                                      t_action = Some (a_action plan),
                                      t_objectType = Some (a_objectType plan),
                                      t_success = Some (e_success result)\<rparr>))
                            (\<lambda>_.
                               bind (with_contexts (getContextSummary sid))
                                 (\<lambda>summary.
                                    ret \<lparr>success = e_success result, reply = e_reply result,
                                         r_chartData = e_chartData result, r_timestamp = timestamp,
                                         suggestions = Some (formatSuggestionsAsButtons offered),
                                         deepLink = None,
                                         debug = Some \<lparr>aiPlan = a_explanation plan,
                                                       apiCalls = [a_endpoint plan],
                                                       debugContext = summary\<rparr>\<rparr>))))))"
    for plan
    by (rule returns_only_bind_with [OF sound_executePlan])
       (auto intro!: returns_only_intros simp add: sound_result_def sound_response_def Let_def)
  show ?thesis
    unfolding planStep_def
    by (rule returns_only_bind) (rule inner)
qed

lemma returns_only_if:
  "returns_only P a \<Longrightarrow> returns_only P b \<Longrightarrow> returns_only P (if c then a else b)"
  by simp

lemma sound_handleMessage_try:
  "returns_only sound_response (handleMessage_try env message sid timestamp)"
proof -
  have followed: "returns_only sound_response
          (bind (followUpStep env message sid timestamp)
             (\<lambda>followed.
                case followed of
                  Some response \<Rightarrow> ret response
                | None \<Rightarrow>
                    if isCustomObjectsQuery (toLowerCase message)
                    then handleCustomObjectsQuery env message timestamp
                    else planStep env message sid c timestamp))" for c
  proof (rule returns_only_bind_with [OF sound_followUpStep])
    fix x :: "AIResponse option"
    assume "sound_if_any x"
    then show "returns_only sound_response
                 (case x of
                    Some response \<Rightarrow> ret response
                  | None \<Rightarrow>
                      if isCustomObjectsQuery (toLowerCase message)
                      then handleCustomObjectsQuery env message timestamp
                      else planStep env message sid c timestamp)"
      by (cases x)
         (simp_all add: sound_if_any_def returns_only_ret returns_only_if
                        sound_handleCustomObjectsQuery sound_planStep
                   split del: if_split)
  qed
  have linked: "returns_only sound_response
          (bind (linkStep env message sid timestamp)
             (\<lambda>linked.
                case linked of
                  Some response \<Rightarrow> ret response
                | None \<Rightarrow>
                    bind (followUpStep env message sid timestamp)
                      (\<lambda>followed.
                         case followed of
                           Some response \<Rightarrow> ret response
                         | None \<Rightarrow>
                             if isCustomObjectsQuery (toLowerCase message)
                             then handleCustomObjectsQuery env message timestamp
                             else planStep env message sid c timestamp)))" for c
  proof (rule returns_only_bind_with [OF sound_linkStep])
    fix x :: "AIResponse option"
    assume "sound_if_any x"
    then show "returns_only sound_response
                 (case x of
                    Some response \<Rightarrow> ret response
                  | None \<Rightarrow>
                      bind (followUpStep env message sid timestamp)
                        (\<lambda>followed.
                           case followed of
                             Some response \<Rightarrow> ret response
                           | None \<Rightarrow>
                               if isCustomObjectsQuery (toLowerCase message)
                               then handleCustomObjectsQuery env message timestamp
                               else planStep env message sid c timestamp))"
      by (cases x)
         (simp_all add: sound_if_any_def returns_only_ret followed split del: if_split)
  qed
  show ?thesis
    unfolding handleMessage_try_def
    by (intro linked sound_getHelpResponse returns_only_if returns_only_bind)
qed

section \<open>The entry point\<close>

text \<open>
  C7 (total entry point), the counterexample. With the object API down, the request that
  counts the records of the custom object throws, after three attempts; the counting
  loop of the custom objects query catches the error and counts 0, and \<open>handleMessage\<close>
  answers with a success.
\<close>

theorem total_entry_point_counterexample:
  "fst (client_get outage_env ''/custWidgets?fields=_internalId&limit=1'' fresh_handler)
     = Inl ''connect ECONNREFUSED''
   \<and> success (fst (handleMessage outage_env most_records ''s'' fresh_handler))
   \<and> trace (snd (handleMessage outage_env most_records ''s'' fresh_handler))
       = [Fetch ''GET'' (demo_base @ ''/custWidgets?fields=_internalId&limit=1''), Sleep 1000,
          Fetch ''GET'' (demo_base @ ''/custWidgets?fields=_internalId&limit=1''), Sleep 2000,
          Fetch ''GET'' (demo_base @ ''/custWidgets?fields=_internalId&limit=1'')]"
proof -
  have "fst (client_get outage_env ''/custWidgets?fields=_internalId&limit=1'' fresh_handler)
          = Inl ''connect ECONNREFUSED''"
    by code_simp
  moreover have "success (fst (handleMessage outage_env most_records ''s'' fresh_handler))"
    by code_simp
  moreover have "trace (snd (handleMessage outage_env most_records ''s'' fresh_handler))
       = [Fetch ''GET'' (demo_base @ ''/custWidgets?fields=_internalId&limit=1''), Sleep 1000,
          Fetch ''GET'' (demo_base @ ''/custWidgets?fields=_internalId&limit=1''), Sleep 2000,
          Fetch ''GET'' (demo_base @ ''/custWidgets?fields=_internalId&limit=1'')]"
    by code_simp
  ultimately show ?thesis
    by blast
qed

text \<open>
  C7 (total entry point), as the code has it. \<open>handleMessage\<close> returns a response for
  every message and session: what its \<open>try\<close> block returns, or, for whatever the block
  throws, the answer of \<open>getErrorResponse\<close>, which is a failure without chart. Every
  response has a text, and a response that is not a success has no chart.
\<close>

theorem total_entry_point:
  "reply (fst (handleMessage env message sid s)) \<noteq> []
   \<and> (\<not> success (fst (handleMessage env message sid s))
        \<longrightarrow> r_chartData (fst (handleMessage env message sid s)) = None)
   \<and> (\<forall>response s'.
          handleMessage_try env message sid (clock env (world s)) s = (Inr response, s')
          \<longrightarrow> handleMessage env message sid s = (response, s'))
   \<and> (\<forall>error s'.
          handleMessage_try env message sid (clock env (world s)) s = (Inl error, s')
          \<longrightarrow> handleMessage env message sid s
                = (getErrorResponse error (clock env (world s)), s')
              \<and> \<not> success (getErrorResponse error (clock env (world s)))
              \<and> r_chartData (getErrorResponse error (clock env (world s))) = None
              \<and> reply (getErrorResponse error (clock env (world s))) \<noteq> [])"
proof -
  let ?ts = "clock env (world s)"
  obtain outcome s1 where run: "handleMessage_try env message sid ?ts s = (outcome, s1)"
    by (cases "handleMessage_try env message sid ?ts s")
  have failure: "\<not> success (getErrorResponse error ?ts)
                 \<and> r_chartData (getErrorResponse error ?ts) = None
                 \<and> reply (getErrorResponse error ?ts) \<noteq> []" for error
    using sound_getErrorResponse [of error ?ts]
    by (simp add: getErrorResponse_def sound_response_def respond_simps split: prod.splits)
  have sound: "sound_response (fst (handleMessage env message sid s))"
  proof (cases outcome)
    case (Inl error)
    then show ?thesis
      using run by (simp add: handleMessage_def Let_def sound_getErrorResponse)
  next
    case (Inr response)
    then have "sound_response response"
      using sound_handleMessage_try [of env message sid ?ts] run
      by (auto simp add: returns_only_def)
    then show ?thesis
      using run Inr by (simp add: handleMessage_def Let_def)
  qed
  show ?thesis
    using sound failure
    by (auto simp add: sound_response_def handleMessage_def Let_def)
qed

theorem total_entry_point_witness:
  "fst (handleMessage_try silent_env ''list projects'' ''s'' (clock silent_env ()) fresh_handler)
     = Inl ''Connection error.''
   \<and> fst (handleMessage silent_env ''list projects'' ''s'' fresh_handler)
       = getErrorResponse ''Connection error.'' (clock silent_env ())
   \<and> \<not> success (fst (handleMessage silent_env ''list projects'' ''s'' fresh_handler))
   \<and> r_chartData (fst (handleMessage silent_env ''list projects'' ''s'' fresh_handler)) = None
   \<and> reply (fst (handleMessage silent_env ''list projects'' ''s'' fresh_handler)) \<noteq> []"
proof -
  let ?body = "handleMessage_try silent_env ''list projects'' ''s'' (clock silent_env ())
                fresh_handler"
  have thrown: "fst ?body = Inl ''Connection error.''"
    by code_simp
  then have run: "handleMessage_try silent_env ''list projects'' ''s''
                    (clock silent_env (world fresh_handler)) fresh_handler
                  = (Inl ''Connection error.'', snd ?body)"
    by (simp add: prod_eq_iff fresh_handler_def)
  note entry = total_entry_point [of silent_env "''list projects''" "''s''" fresh_handler]
  have caught: "handleMessage silent_env ''list projects'' ''s'' fresh_handler
                  = (getErrorResponse ''Connection error.''
                       (clock silent_env (world fresh_handler)), snd ?body)"
               "\<not> success (getErrorResponse ''Connection error.''
                                (clock silent_env (world fresh_handler)))"
               "r_chartData (getErrorResponse ''Connection error.''
                               (clock silent_env (world fresh_handler))) = None"
    using entry run by blast+
  have text': "reply (fst (handleMessage silent_env ''list projects'' ''s'' fresh_handler)) \<noteq> []"
    using entry by blast
  show ?thesis
    using thrown caught text' by (simp add: fresh_handler_def)
qed

end
